theory Spec2Isabelle
  imports Complex_Main "HOL-Library.Sublist"
begin

section \<open>Data model\<close>

text \<open>
  The notebook \<^verbatim>\<open>imbalanced_datasets_experiments.ipynb\<close> defines three functions:
  \<^verbatim>\<open>JRD_sampling\<close>, \<^verbatim>\<open>load_dataset\<close> and \<^verbatim>\<open>train_imbalanced\<close>. Everything else
  they call (numpy, torch, pandas, scikit-learn, matplotlib, repitl) is an external
  library. Floating point numbers are idealised as reals: rounding, NaN and the
  infinities are not modelled.

  Python exceptions are values. \<open>ValueError\<close> stands for the class and its subclasses
  (what \<^verbatim>\<open>except ValueError\<close> catches), \<open>OtherException\<close> for every class outside it
  that is not named here.
\<close>

datatype pyexc =
    ValueError | IndexError | NameError | TypeError | RuntimeError | OverflowError
  | OtherException

text \<open>
  The element type of an array: the types that numpy and torch share, and \<open>Object\<close>
  for a numpy array of Python objects. Only numbers are stored (\<open>True\<close> is 1 and
  \<open>False\<close> is 0); complex arrays are outside the model.
\<close>

datatype dtype =
    Bool | UInt8 | Int8 | Int16 | Int32 | Int64 | Float16 | Float32 | Float64 | Object

text \<open>
  A two-dimensional array (a numpy array or a torch tensor): its element type, the
  number of columns \<^verbatim>\<open>shape[1]\<close> and the rows. \<^verbatim>\<open>shape[0]\<close> is the number of rows. An
  array with no rows keeps its number of columns, as in numpy.
\<close>

datatype ndarray = NDArray (dtype: dtype) (shape1: nat) (rows: "real list list")

definition shape0 :: "ndarray \<Rightarrow> nat" where
  "shape0 a = length (rows a)"

text \<open>
  The calls to the libraries, in the order they happen, are recorded in a trace.
\<close>

datatype event =
    EvPrint string
  | EvReadTable string
  | EvUniform
  | EvAdam
  | EvSubplots
  | EvZeroGrad
  | EvDivergence
  | EvBackward
  | EvStep
  | EvPlotFrame
  | EvFitTransform
  | EvTransform
  | EvTrainTestSplit
  | EvPairwiseDistances
  | EvNanMedian
  | EvGridSearch
  | EvSVCFit
  | EvPredictProba
  | EvRocAuc

text \<open>
  The state of a run: the store of array buffers (an address is an index into it), the
  trace, the training sets handed to the SVM so far (the arguments \<open>X\<close>, \<open>y\<close> of
  every \<^verbatim>\<open>fit\<close>), and the state of the outside world (the global random states of
  numpy and torch, the file system, the display), which only the libraries read and
  write.
\<close>

record 'w state =
  heap :: "ndarray list"
  trace :: "event list"
  fitted :: "(ndarray \<times> real list) list"
  world :: 'w

type_synonym ('w, 'a) M = "'w state \<Rightarrow> (pyexc + 'a) \<times> 'w state"

definition ret :: "'a \<Rightarrow> ('w, 'a) M" where
  "ret x = (\<lambda>s. (Inr x, s))"

definition raise :: "pyexc \<Rightarrow> ('w, 'a) M" where
  "raise e = (\<lambda>s. (Inl e, s))"

definition bnd :: "('w, 'a) M \<Rightarrow> ('a \<Rightarrow> ('w, 'b) M) \<Rightarrow> ('w, 'b) M" where
  "bnd m f = (\<lambda>s. case m s of (Inl e, s') \<Rightarrow> (Inl e, s') | (Inr x, s') \<Rightarrow> f x s')"

text \<open>A pure operation that may raise.\<close>

definition lift :: "pyexc + 'a \<Rightarrow> ('w, 'a) M" where
  "lift r = (\<lambda>s. (r, s))"

text \<open>A call into a library: it is recorded, and it may change the outside world.\<close>

definition call :: "event \<Rightarrow> ('w \<Rightarrow> (pyexc + 'a) \<times> 'w) \<Rightarrow> ('w, 'a) M" where
  "call ev f = (\<lambda>s. case f (world s) of
     (r, w') \<Rightarrow> (r, s\<lparr>trace := trace s @ [ev], world := w'\<rparr>))"

text \<open>An operation of torch on local objects only: it is recorded and cannot fail.\<close>

definition emit :: "event \<Rightarrow> ('w, unit) M" where
  "emit ev = (\<lambda>s. (Inr (), s\<lparr>trace := trace s @ [ev]\<rparr>))"

text \<open>A call of \<^verbatim>\<open>fit(X, y)\<close>: the training set is recorded as well.\<close>

definition call_fit ::
  "event \<Rightarrow> ndarray \<Rightarrow> real list \<Rightarrow> ('w \<Rightarrow> (pyexc + 'a) \<times> 'w) \<Rightarrow> ('w, 'a) M" where
  "call_fit ev X y f = (\<lambda>s. call ev f (s\<lparr>fitted := fitted s @ [(X, y)]\<rparr>))"

text \<open>
  \<^verbatim>\<open>try: ... except ValueError: ...\<close>: the handler runs when the body raises
  ValueError, in the state the body left; any other exception goes on.
\<close>

definition try_except_ValueError :: "('w, 'a) M \<Rightarrow> ('w, 'a) M \<Rightarrow> ('w, 'a) M" where
  "try_except_ValueError body handler = (\<lambda>s. case body s of
       (Inl e, s') \<Rightarrow> if e = ValueError then handler s' else (Inl e, s')
     | (Inr x, s') \<Rightarrow> (Inr x, s'))"

text \<open>\<^verbatim>\<open>for x in xs: acc = body(x, acc)\<close>: a loop over a list that updates local variables.\<close>

fun for_each :: "'x list \<Rightarrow> ('x \<Rightarrow> 'a \<Rightarrow> ('w, 'a) M) \<Rightarrow> 'a \<Rightarrow> ('w, 'a) M" where
  "for_each [] body acc = ret acc"
| "for_each (x # xs) body acc = bnd (body x acc) (for_each xs body)"

definition alloc :: "ndarray \<Rightarrow> ('w, nat) M" where
  "alloc a = (\<lambda>s. (Inr (length (heap s)), s\<lparr>heap := heap s @ [a]\<rparr>))"

definition load :: "nat \<Rightarrow> ('w, ndarray) M" where
  "load p = (\<lambda>s. if p < length (heap s) then (Inr (heap s ! p), s) else (Inl NameError, s))"

definition store :: "nat \<Rightarrow> ndarray \<Rightarrow> ('w, unit) M" where
  "store p a = (\<lambda>s. if p < length (heap s) then (Inr (), s\<lparr>heap := (heap s)[p := a]\<rparr>)
     else (Inl NameError, s))"

section \<open>The external libraries\<close>

text \<open>
  The functions of the libraries are parameters of the model. Each takes the state of
  the outside world and returns a result or an exception, with the new state of the world.
  \<open>'t\<close> is a scalar tensor with its autograd graph, \<open>'o\<close> the internal state of an Adam
  optimizer.

  \<^item> \<open>np_random_uniform lo hi (r, c)\<close>: \<^verbatim>\<open>np.random.uniform(lo, hi, (r, c))\<close>.
  \<^item> \<open>torch_optim_Adam lr\<close>: the optimizer state of \<^verbatim>\<open>torch.optim.Adam([Y], lr=lr)\<close>.
  \<^item> \<open>divergenceJR X Y sigma alpha weighted n_rff\<close>: \<^verbatim>\<open>div.divergenceJR\<close> of repitl.
  \<^item> \<open>backward t\<close>: the gradient that \<^verbatim>\<open>t.backward()\<close> computes for the one leaf
    tensor that requires a gradient.
  \<^item> \<open>adam_step opt p g\<close>: what \<^verbatim>\<open>optimizer.step()\<close> writes into the parameter of
    value \<open>p\<close> and gradient \<open>g\<close>, and the new optimizer state.
  \<^item> \<open>plt_subplots\<close>, \<open>draw_frame\<close>: the matplotlib and IPython display calls.
\<close>

record ('w, 't, 'o) lib =
  np_random_uniform :: "real \<Rightarrow> real \<Rightarrow> nat \<times> nat \<Rightarrow> 'w \<Rightarrow> (pyexc + ndarray) \<times> 'w"
  torch_optim_Adam :: "real \<Rightarrow> 'w \<Rightarrow> (pyexc + 'o) \<times> 'w"
  divergenceJR :: "ndarray \<Rightarrow> ndarray \<Rightarrow> real \<Rightarrow> real \<Rightarrow> bool \<Rightarrow> nat option
     \<Rightarrow> 'w \<Rightarrow> (pyexc + 't) \<times> 'w"
  backward :: "'t \<Rightarrow> 'w \<Rightarrow> (pyexc + ndarray) \<times> 'w"
  adam_step :: "'o \<Rightarrow> ndarray \<Rightarrow> ndarray option \<Rightarrow> 'w \<Rightarrow> (pyexc + ndarray \<times> 'o) \<times> 'w"
  plt_subplots :: "'w \<Rightarrow> (pyexc + unit) \<times> 'w"
  draw_frame :: "real list \<Rightarrow> real list \<Rightarrow> real list \<Rightarrow> real list
     \<Rightarrow> 'w \<Rightarrow> (pyexc + unit) \<times> 'w"

text \<open>
  pandas and scikit-learn. A Python string is the list of its code points. A table read
  from a file is a list of columns: a column of a numeric element type, or a column of
  Python objects (the strings of the file, \<open>NaN\<close> where a value is missing, and the
  integers that \<open>load_dataset\<close> writes over them).
\<close>

type_synonym pystr = "nat list"

datatype pyobj = PyStr pystr | PyInt int | PyFloat real | PyNaN

datatype series = NumCol dtype "real list" | ObjCol "pyobj list"

type_synonym dataframe = "series list"

text \<open>
  Labels as \<^verbatim>\<open>roc_auc_score\<close> receives them: a one-dimensional integer array, or a
  two-dimensional one.
\<close>

datatype labels = Labels1 "int list" | Labels2 "int list list"

text \<open>
  \<open>'sc\<close> is a fitted \<^verbatim>\<open>StandardScaler\<close>, \<open>'c\<close> a fitted classifier.

  \<^item> \<open>pd_read_table path\<close>: \<^verbatim>\<open>pd.read_table(path, sep=',', delimiter=',', header=None,
    comment='@', skiprows=0, engine='python')\<close>.
  \<^item> \<open>fit_transform X\<close>: \<^verbatim>\<open>scaler = StandardScaler(); scaler.fit_transform(X)\<close>;
    \<open>transform sc X\<close>: \<^verbatim>\<open>scaler.transform(X)\<close>.
  \<^item> \<open>train_test_split X y test_size random_state\<close>: the four parts
    \<^verbatim>\<open>X_train, X_test, y_train, y_test\<close>.
  \<^item> \<open>pairwise_distances X\<close>, \<open>np_nanmedian D\<close>.
  \<^item> \<open>grid_search gamma_range C_range X y\<close>: \<^verbatim>\<open>best_params_\<close> (\<open>C\<close>, then \<open>gamma\<close>)
    of \<^verbatim>\<open>GridSearchCV(SVC(), param_grid=dict(gamma=gamma_range, C=C_range),
    cv=StratifiedShuffleSplit(n_splits=4, test_size=0.25))\<close> after \<^verbatim>\<open>fit(X, y)\<close>.
  \<^item> \<open>svc_fit C gamma X y\<close>: \<^verbatim>\<open>SVC(kernel='rbf', C=C, gamma=gamma,
    probability=True)\<close> after \<^verbatim>\<open>fit(X, y)\<close>.
  \<^item> \<open>predict_proba clf X\<close>, \<open>roc_auc_score y_true y_score\<close>.

  The record also holds what the interpreter and the platform decide in a conversion to
  integers:

  \<^item> \<open>unicode_isspace c\<close>, \<open>unicode_todecimal c\<close>: whether the code point \<open>c\<close> is
    white space, and its value as a decimal digit, in the Unicode database of the
    interpreter (consulted for the code points from 127 only).
  \<^item> \<open>int_max_str_digits\<close>: \<^verbatim>\<open>sys.get_int_max_str_digits()\<close>, 0 when there is no
    limit (as in the versions of Python without one).
  \<^item> \<open>cast_out_of_range x\<close>: what the C cast of the platform makes of a float \<open>x\<close>
    whose integer part does not fit into 64 bits.
\<close>

record ('w, 'sc, 'c) sklib =
  pd_read_table :: "string \<Rightarrow> 'w \<Rightarrow> (pyexc + dataframe) \<times> 'w"
  fit_transform :: "ndarray \<Rightarrow> 'w \<Rightarrow> (pyexc + 'sc \<times> ndarray) \<times> 'w"
  transform :: "'sc \<Rightarrow> ndarray \<Rightarrow> 'w \<Rightarrow> (pyexc + ndarray) \<times> 'w"
  train_test_split :: "ndarray \<Rightarrow> int list \<Rightarrow> real \<Rightarrow> nat
     \<Rightarrow> 'w \<Rightarrow> (pyexc + ndarray \<times> ndarray \<times> int list \<times> int list) \<times> 'w"
  pairwise_distances :: "ndarray \<Rightarrow> 'w \<Rightarrow> (pyexc + ndarray) \<times> 'w"
  np_nanmedian :: "ndarray \<Rightarrow> 'w \<Rightarrow> (pyexc + real) \<times> 'w"
  grid_search :: "real list \<Rightarrow> real list \<Rightarrow> ndarray \<Rightarrow> real list
     \<Rightarrow> 'w \<Rightarrow> (pyexc + real \<times> real) \<times> 'w"
  svc_fit :: "real \<Rightarrow> real \<Rightarrow> ndarray \<Rightarrow> real list \<Rightarrow> 'w \<Rightarrow> (pyexc + 'c) \<times> 'w"
  predict_proba :: "'c \<Rightarrow> ndarray \<Rightarrow> 'w \<Rightarrow> (pyexc + ndarray) \<times> 'w"
  roc_auc_score :: "labels \<Rightarrow> real list \<Rightarrow> 'w \<Rightarrow> (pyexc + real) \<times> 'w"
  unicode_isspace :: "nat \<Rightarrow> bool"
  unicode_todecimal :: "nat \<Rightarrow> nat option"
  int_max_str_digits :: nat
  cast_out_of_range :: "real \<Rightarrow> int"

section \<open>numpy and torch operations on arrays\<close>

text \<open>\<^verbatim>\<open>a[:, j]\<close>: column \<open>j\<close>, IndexError when the array has no such column.\<close>

definition column :: "ndarray \<Rightarrow> nat \<Rightarrow> pyexc + real list" where
  "column a j = (if j < shape1 a then Inr (map (\<lambda>r. r ! j) (rows a)) else Inl IndexError)"

text \<open>
  What \<^verbatim>\<open>backward()\<close> does to the \<^verbatim>\<open>.grad\<close> of a leaf: it stores the gradient when
  there is none, and adds to the one that is there.
\<close>

definition add_arrays :: "ndarray \<Rightarrow> ndarray \<Rightarrow> ndarray" where
  "add_arrays a b = NDArray (dtype a) (shape1 a) (map2 (map2 (+)) (rows a) (rows b))"

definition accumulate :: "ndarray option \<Rightarrow> ndarray \<Rightarrow> ndarray option" where
  "accumulate g d = (case g of None \<Rightarrow> Some d | Some g0 \<Rightarrow> Some (add_arrays g0 d))"

text \<open>\<^verbatim>\<open>np.zeros(n)\<close>, and \<^verbatim>\<open>c * np.ones(n)\<close> for an integer \<open>c\<close>.\<close>

definition np_zeros :: "nat \<Rightarrow> real list" where
  "np_zeros n = replicate n 0"

definition times_ones :: "nat \<Rightarrow> nat \<Rightarrow> real list" where
  "times_ones c n = replicate n (real c)"

text \<open>
  \<^verbatim>\<open>np.linspace(a, b, n)\<close>: \<open>n\<close> points from \<open>a\<close> to \<open>b\<close> with the step
  \<open>(b - a) / (n - 1)\<close>. \<^verbatim>\<open>np.logspace(a, b, n)\<close>: ten to the power of these.
\<close>

definition np_linspace :: "real \<Rightarrow> real \<Rightarrow> nat \<Rightarrow> real list" where
  "np_linspace a b n = map (\<lambda>i. a + real i * ((b - a) / real (n - 1))) [0..<n]"

definition np_logspace :: "real \<Rightarrow> real \<Rightarrow> nat \<Rightarrow> real list" where
  "np_logspace a b n = map (\<lambda>x. 10 powr x) (np_linspace a b n)"

text \<open>
  \<^verbatim>\<open>np.bincount(ys)\<close>: how often each of \<open>0, ..., max ys\<close> occurs; ValueError when
  an element is negative.
\<close>

definition np_bincount :: "int list \<Rightarrow> pyexc + nat list" where
  "np_bincount ys =
     (if \<exists>y \<in> set ys. y < 0 then Inl ValueError
      else Inr (map (\<lambda>v. count_list ys (int v))
                 [0..<(if ys = [] then 0 else Suc (nat (fold max ys 0)))]))"

text \<open>
  \<^verbatim>\<open>argmax\<close> and \<^verbatim>\<open>argmin\<close>: the first index of the largest (smallest) element;
  ValueError on an empty array.
\<close>

fun first_index :: "('a \<Rightarrow> bool) \<Rightarrow> 'a list \<Rightarrow> nat" where
  "first_index P [] = 0"
| "first_index P (x # xs) = (if P x then 0 else Suc (first_index P xs))"

definition np_argmax :: "('a :: linorder) list \<Rightarrow> pyexc + nat" where
  "np_argmax xs = (case xs of
       [] \<Rightarrow> Inl ValueError
     | x # r \<Rightarrow> Inr (first_index (\<lambda>v. v = fold max r x) xs))"

definition np_argmin :: "('a :: linorder) list \<Rightarrow> pyexc + nat" where
  "np_argmin xs = (case xs of
       [] \<Rightarrow> Inl ValueError
     | x # r \<Rightarrow> Inr (first_index (\<lambda>v. v = fold min r x) xs))"

text \<open>
  \<^verbatim>\<open>X[mask, :]\<close> for a boolean mask: the rows where the mask holds; IndexError when
  the mask is not as long as \<open>X\<close> has rows.
\<close>

definition mask_rows :: "ndarray \<Rightarrow> bool list \<Rightarrow> pyexc + ndarray" where
  "mask_rows X sel =
     (if length sel \<noteq> shape0 X then Inl IndexError
      else Inr (NDArray (dtype X) (shape1 X) (map fst (filter snd (zip (rows X) sel)))))"

text \<open>
  \<^verbatim>\<open>np.promote_types\<close>: the element type of an array built from arrays of two types.
  \<open>float_bits\<close> is the width of the smallest float that holds a type, \<open>int_bits\<close>
  the width of the smallest signed integer.
\<close>

definition is_floating :: "dtype \<Rightarrow> bool" where
  "is_floating d \<longleftrightarrow> d = Float16 \<or> d = Float32 \<or> d = Float64"

fun float_bits :: "dtype \<Rightarrow> nat" where
  "float_bits Float16 = 16"
| "float_bits Float32 = 32"
| "float_bits Float64 = 64"
| "float_bits UInt8 = 16"
| "float_bits Int8 = 16"
| "float_bits Int16 = 32"
| "float_bits d = 64"

fun int_bits :: "dtype \<Rightarrow> nat" where
  "int_bits Int8 = 8"
| "int_bits UInt8 = 16"
| "int_bits Int16 = 16"
| "int_bits Int32 = 32"
| "int_bits d = 64"

definition promote_types :: "dtype \<Rightarrow> dtype \<Rightarrow> dtype" where
  "promote_types a b =
     (if a = b then a
      else if a = Object \<or> b = Object then Object
      else if a = Bool then b
      else if b = Bool then a
      else if is_floating a \<or> is_floating b then
        (let n = max (float_bits a) (float_bits b) in
         if n = 16 then Float16 else if n = 32 then Float32 else Float64)
      else
        (let n = max (int_bits a) (int_bits b) in
         if n = 8 then Int8 else if n = 16 then Int16 else if n = 32 then Int32 else Int64))"

text \<open>
  \<^verbatim>\<open>np.concatenate((A, B), axis=0)\<close> of two-dimensional arrays: ValueError when the
  numbers of columns differ.
\<close>

definition np_concatenate :: "ndarray \<Rightarrow> ndarray \<Rightarrow> pyexc + ndarray" where
  "np_concatenate A B =
     (if shape1 A \<noteq> shape1 B then Inl ValueError
      else Inr (NDArray (promote_types (dtype A) (dtype B)) (shape1 A) (rows A @ rows B)))"

text \<open>
  \<^verbatim>\<open>torch.from_numpy(a)\<close>: a tensor on the memory of \<open>a\<close>; TypeError for an array
  of objects. \<^verbatim>\<open>torch.tensor(a, requires_grad=True, dtype=d)\<close>: a copy of \<open>a\<close> with
  the element type \<open>d\<close>; TypeError for an array of objects, RuntimeError when \<open>d\<close> is
  not a floating type, as only tensors of floating point can require gradients.
\<close>

definition torch_from_numpy :: "ndarray \<Rightarrow> pyexc + ndarray" where
  "torch_from_numpy a = (if dtype a = Object then Inl TypeError else Inr a)"

definition torch_tensor_requires_grad :: "ndarray \<Rightarrow> dtype \<Rightarrow> pyexc + ndarray" where
  "torch_tensor_requires_grad a d =
     (if dtype a = Object then Inl TypeError
      else if \<not> is_floating d then Inl RuntimeError
      else Inr (NDArray d (shape1 a) (rows a)))"

text \<open>\<^verbatim>\<open>str(n)\<close> for a natural number.\<close>

fun str_nat :: "nat \<Rightarrow> string" where
  "str_nat n = (if n < 10 then [char_of (48 + n)]
                else str_nat (n div 10) @ [char_of (48 + n mod 10)])"

declare str_nat.simps [simp del]

section \<open>JRD\_sampling\<close>

text \<open>
  \<^verbatim>\<open>def JRD_sampling(X, n_samples, sigma=1, alpha=1.01, lr=0.1, n_iter=120,
                    weighted=False, n_rff=None, plot=False)\<close>

  \<open>X\<close> is the address of the caller's array. \<^verbatim>\<open>torch.from_numpy(X)\<close> shares its
  memory, so the tensor \<open>X\<close> is the same address. \<^verbatim>\<open>torch.tensor(Y_, ...)\<close> copies
  the drawn array (\<open>Y0\<close> in the model) into a new buffer \<open>Y\<close> of the element type
  of \<open>X\<close>, the only tensor with \<^verbatim>\<open>requires_grad\<close> and the only parameter of the
  optimizer. \<^verbatim>\<open>Y.detach().numpy()\<close> shares the memory of \<open>Y\<close>, so
  the function returns the address \<open>Y\<close>.
\<close>

definition default_sigma :: real where "default_sigma = 1"
definition default_alpha :: real where "default_alpha = 1.01"
definition default_lr :: real where "default_lr = 0.1"
definition default_n_iter :: int where "default_n_iter = 120"

text \<open>The statements before the loop: they give \<open>Y\<close> and the optimizer.\<close>

definition JRD_init ::
  "('w, 't, 'o) lib \<Rightarrow> nat \<Rightarrow> nat \<Rightarrow> real \<Rightarrow> bool \<Rightarrow> ('w, nat \<times> 'o) M" where
  "JRD_init L X n_samples lr plot =
     bnd (load X) (\<lambda>Xv.
     let n = shape0 Xv; d = shape1 Xv in
     bnd (call EvUniform (np_random_uniform L (- 2.0) 2.0 (n_samples, d))) (\<lambda>Y0.
     bnd (lift (torch_from_numpy Xv)) (\<lambda>Xt.
     bnd (lift (torch_tensor_requires_grad Y0 (dtype Xt))) (\<lambda>Yt.
     bnd (alloc Yt) (\<lambda>Y.
     bnd (call EvAdam (torch_optim_Adam L lr)) (\<lambda>optimizer.
     bnd (if plot then call EvSubplots (plt_subplots L) else ret ()) (\<lambda>_.
     ret (Y, optimizer))))))))"

text \<open>
  The plotting of one iteration: the columns 0 and 1 of \<open>X\<close> and of \<open>Y\<close> are taken
  (\<^verbatim>\<open>X[:,0]\<close>, \<^verbatim>\<open>X[:,1]\<close>, \<^verbatim>\<open>Y[:,0]\<close>, \<^verbatim>\<open>Y[:,1]\<close>) and handed to the display.
\<close>

definition plot_iteration :: "('w, 't, 'o) lib \<Rightarrow> nat \<Rightarrow> nat \<Rightarrow> ('w, unit) M" where
  "plot_iteration L X Y =
     bnd (load X) (\<lambda>Xv.
     bnd (lift (column Xv 0)) (\<lambda>x0.
     bnd (lift (column Xv 1)) (\<lambda>x1.
     bnd (load Y) (\<lambda>Yv.
     bnd (lift (column Yv 0)) (\<lambda>y0.
     bnd (lift (column Yv 1)) (\<lambda>y1.
     call EvPlotFrame (draw_frame L x0 x1 y0 y1)))))))"

text \<open>
  The body of the loop. The local state is the optimizer state and \<^verbatim>\<open>Y.grad\<close>.
\<close>

definition JRD_iteration ::
  "('w, 't, 'o) lib \<Rightarrow> nat \<Rightarrow> nat \<Rightarrow> real \<Rightarrow> real \<Rightarrow> bool \<Rightarrow> nat option \<Rightarrow> bool
     \<Rightarrow> 'o \<times> ndarray option \<Rightarrow> ('w, 'o \<times> ndarray option) M" where
  "JRD_iteration L X Y sigma alpha weighted n_rff plot st =
     (case st of (optimizer, grad0) \<Rightarrow>
     bnd (emit EvZeroGrad) (\<lambda>_.
     let grad1 = None in
     bnd (load X) (\<lambda>Xv.
     bnd (load Y) (\<lambda>Yv.
     bnd (call EvDivergence (divergenceJR L Xv Yv sigma alpha weighted n_rff)) (\<lambda>djr.
     bnd (call EvBackward (backward L djr)) (\<lambda>g.
     let grad2 = accumulate grad1 g in
     bnd (call EvStep (adam_step L optimizer Yv grad2)) (\<lambda>(Yv', optimizer').
     bnd (store Y Yv') (\<lambda>_.
     bnd (if plot then plot_iteration L X Y else ret ()) (\<lambda>_.
     ret (optimizer', grad2))))))))))"

text \<open>\<^verbatim>\<open>for i in range(n_iter)\<close>: the body runs \<open>nat n_iter\<close> times.\<close>

fun JRD_loop ::
  "('w, 't, 'o) lib \<Rightarrow> nat \<Rightarrow> nat \<Rightarrow> real \<Rightarrow> real \<Rightarrow> bool \<Rightarrow> nat option \<Rightarrow> bool
     \<Rightarrow> nat \<Rightarrow> 'o \<times> ndarray option \<Rightarrow> ('w, 'o \<times> ndarray option) M" where
  "JRD_loop L X Y sigma alpha weighted n_rff plot 0 st = ret st"
| "JRD_loop L X Y sigma alpha weighted n_rff plot (Suc k) st =
     bnd (JRD_iteration L X Y sigma alpha weighted n_rff plot st)
       (JRD_loop L X Y sigma alpha weighted n_rff plot k)"

definition JRD_sampling ::
  "('w, 't, 'o) lib \<Rightarrow> nat \<Rightarrow> nat \<Rightarrow> real \<Rightarrow> real \<Rightarrow> real \<Rightarrow> int \<Rightarrow> bool \<Rightarrow> nat option
     \<Rightarrow> bool \<Rightarrow> ('w, nat) M" where
  "JRD_sampling L X n_samples sigma alpha lr n_iter weighted n_rff plot =
     bnd (JRD_init L X n_samples lr plot) (\<lambda>(Y, optimizer).
     bnd (JRD_loop L X Y sigma alpha weighted n_rff plot (nat n_iter) (optimizer, None)) (\<lambda>_.
     ret Y))"

section \<open>load\_dataset\<close>

text \<open>
  The operations of pandas and numpy that \<open>load_dataset\<close> uses.
  \<open>get_numeric_data\<close> keeps the numeric columns and \<open>to_numpy\<close> lays them out row by
  row, in the common element type that pandas finds for them: the type of the columns
  when they agree, objects when booleans meet numbers, the promoted type otherwise, and
  \<open>float64\<close> when there is no column.
\<close>

fun series_length :: "series \<Rightarrow> nat" where
  "series_length (NumCol d xs) = length xs"
| "series_length (ObjCol cs) = length cs"

definition nrows :: "dataframe \<Rightarrow> nat" where
  "nrows df = (case df of [] \<Rightarrow> 0 | c # _ \<Rightarrow> series_length c)"

fun get_numeric_data :: "dataframe \<Rightarrow> (dtype \<times> real list) list" where
  "get_numeric_data [] = []"
| "get_numeric_data (NumCol d xs # df) = (d, xs) # get_numeric_data df"
| "get_numeric_data (ObjCol cs # df) = get_numeric_data df"

definition find_common_type :: "dtype list \<Rightarrow> dtype" where
  "find_common_type ds = (case ds of
       [] \<Rightarrow> Float64
     | d # r \<Rightarrow>
         if \<forall>e \<in> set r. e = d then d
         else if Object \<in> set ds \<or> Bool \<in> set ds then Object
         else fold promote_types r d)"

definition to_numpy :: "nat \<Rightarrow> (dtype \<times> real list) list \<Rightarrow> ndarray" where
  "to_numpy n cols = NDArray (find_common_type (map fst cols)) (length cols)
     (map (\<lambda>i. map (\<lambda>c. snd c ! i) cols) [0..<n])"

text \<open>
  \<^verbatim>\<open>df.iloc[:, -1].values\<close> is the last column as a one-dimensional array (IndexError
  when the table has no column). \<^verbatim>\<open>Y[Y == label] = v\<close> works element by element on
  an array of objects: an element equal to the string \<open>label\<close> becomes the integer
  \<open>v\<close>, every other element stays. In a numeric array no element equals a string.
\<close>

definition iloc_last :: "dataframe \<Rightarrow> pyexc + series" where
  "iloc_last df = (case df of [] \<Rightarrow> Inl IndexError | _ # _ \<Rightarrow> Inr (last df))"

definition codes :: "string \<Rightarrow> pystr" where
  "codes s = map of_char s"

definition assign_where :: "string \<Rightarrow> int \<Rightarrow> pyobj \<Rightarrow> pyobj" where
  "assign_where label v c = (if c = PyStr (codes label) then PyInt v else c)"

fun assign_where_col :: "string \<Rightarrow> int \<Rightarrow> series \<Rightarrow> series" where
  "assign_where_col label v (ObjCol cs) = ObjCol (map (assign_where label v) cs)"
| "assign_where_col label v (NumCol d xs) = NumCol d xs"

text \<open>
  \<^verbatim>\<open>astype(int)\<close> on an array of objects applies Python's \<^verbatim>\<open>int\<close> to every element
  and stores the result in 64 bits (OverflowError when it does not fit).

  On a string, \<^verbatim>\<open>int\<close> first replaces every code point from 127 on by a space when it
  is white space, by its ASCII digit when it is a decimal digit, and by \<open>?\<close> otherwise.
  It then skips the white space at both ends (tab, line feed, vertical tab, form feed,
  carriage return, space) and reads an optional sign and decimal digits, with single
  underscores allowed between digits; anything else is a ValueError, and so are more
  than 640 digits when they exceed the limit of the interpreter.
  On a float \<^verbatim>\<open>int\<close> truncates towards zero, and \<open>NaN\<close> is a ValueError.
\<close>

definition to_ascii :: "('w, 'sc, 'c) sklib \<Rightarrow> nat \<Rightarrow> nat" where
  "to_ascii K c =
     (if c < 127 then c
      else if unicode_isspace K c then 32
      else (case unicode_todecimal K c of
              Some d \<Rightarrow> if d < 10 then 48 + d else 63
            | None \<Rightarrow> 63))"

definition is_space :: "nat \<Rightarrow> bool" where
  "is_space c = (c \<in> {9, 10, 11, 12, 13, 32})"

definition is_digit :: "nat \<Rightarrow> bool" where
  "is_digit c = (48 \<le> c \<and> c \<le> 57)"

definition strip :: "pystr \<Rightarrow> pystr" where
  "strip s = rev (dropWhile is_space (rev (dropWhile is_space s)))"

fun read_digits :: "bool \<Rightarrow> nat \<Rightarrow> pystr \<Rightarrow> nat option" where
  "read_digits seen acc [] = (if seen then Some acc else None)"
| "read_digits seen acc (c # cs) =
     (if is_digit c then read_digits True (10 * acc + (c - 48)) cs
      else if c = 95 \<and> seen then
        (case cs of [] \<Rightarrow> None
         | d # _ \<Rightarrow> if is_digit d then read_digits False acc cs else None)
      else None)"

definition too_many_digits :: "('w, 'sc, 'c) sklib \<Rightarrow> pystr \<Rightarrow> bool" where
  "too_many_digits K body \<longleftrightarrow>
     (let digits = length (filter is_digit body) in
      640 < digits \<and> 0 < int_max_str_digits K \<and> int_max_str_digits K < digits)"

definition read_int :: "('w, 'sc, 'c) sklib \<Rightarrow> pystr \<Rightarrow> nat option" where
  "read_int K body =
     (case read_digits False 0 body of
        None \<Rightarrow> None
      | Some n \<Rightarrow> if too_many_digits K body then None else Some n)"

definition int_of_str :: "('w, 'sc, 'c) sklib \<Rightarrow> pystr \<Rightarrow> pyexc + int" where
  "int_of_str K s =
     (case strip (map (to_ascii K) s) of
        [] \<Rightarrow> Inl ValueError
      | c # cs \<Rightarrow>
          if c = 45 then
            (case read_int K cs of None \<Rightarrow> Inl ValueError | Some n \<Rightarrow> Inr (- int n))
          else if c = 43 then
            (case read_int K cs of None \<Rightarrow> Inl ValueError | Some n \<Rightarrow> Inr (int n))
          else
            (case read_int K (c # cs) of None \<Rightarrow> Inl ValueError | Some n \<Rightarrow> Inr (int n)))"

definition to_int64 :: "int \<Rightarrow> pyexc + int" where
  "to_int64 i = (if - (2 ^ 63) \<le> i \<and> i < 2 ^ 63 then Inr i else Inl OverflowError)"

definition trunc_toward_zero :: "real \<Rightarrow> int" where
  "trunc_toward_zero x = (if 0 \<le> x then \<lfloor>x\<rfloor> else \<lceil>x\<rceil>)"

fun py_int :: "('w, 'sc, 'c) sklib \<Rightarrow> pyobj \<Rightarrow> pyexc + int" where
  "py_int K (PyInt i) = to_int64 i"
| "py_int K (PyFloat x) = to_int64 (trunc_toward_zero x)"
| "py_int K PyNaN = Inl ValueError"
| "py_int K (PyStr s) = (case int_of_str K s of Inl e \<Rightarrow> Inl e | Inr i \<Rightarrow> to_int64 i)"

fun astype_int :: "('w, 'sc, 'c) sklib \<Rightarrow> pyobj list \<Rightarrow> pyexc + int list" where
  "astype_int K [] = Inr []"
| "astype_int K (c # cs) =
     (case py_int K c of
        Inl e \<Rightarrow> Inl e
      | Inr v \<Rightarrow> (case astype_int K cs of Inl e \<Rightarrow> Inl e | Inr vs \<Rightarrow> Inr (v # vs)))"

text \<open>
  \<^verbatim>\<open>astype(int)\<close> on a numeric array is a cast in C that raises nothing: the integer
  part of each element, and what the platform gives when it does not fit into 64 bits.
\<close>

definition cast_int64 :: "('w, 'sc, 'c) sklib \<Rightarrow> real \<Rightarrow> int" where
  "cast_int64 K x =
     (if - (2 ^ 63) \<le> trunc_toward_zero x \<and> trunc_toward_zero x < 2 ^ 63 then trunc_toward_zero x
      else cast_out_of_range K x)"

fun astype_int_col :: "('w, 'sc, 'c) sklib \<Rightarrow> series \<Rightarrow> pyexc + int list" where
  "astype_int_col K (ObjCol cs) = astype_int K cs"
| "astype_int_col K (NumCol d xs) = Inr (map (cast_int64 K) xs)"

text \<open>
  \<^verbatim>\<open>def load_dataset(dataset, fold)\<close>: it returns
  \<^verbatim>\<open>Xtrain, Ytrain.astype(int), Xtest, Ytest.astype(int)\<close>. \<open>Ytrain\<close> is the last
  column as a one-dimensional array; \<open>Ytest\<close> is \<^verbatim>\<open>dftest.iloc[:, -1:].values\<close>, the
  last column as a two-dimensional array with one column (an empty array when the table
  has no column).
\<close>

definition load_dataset ::
  "('w, 'sc, 'c) sklib \<Rightarrow> string \<Rightarrow> nat
     \<Rightarrow> ('w, ndarray \<times> int list \<times> ndarray \<times> int list list) M" where
  "load_dataset K dataset fold_no =
     (let ftrain = ''./Imbalanced_data/'' @ dataset @ ''-5-'' @ str_nat fold_no @ ''tra.dat'';
          ftest = ''./Imbalanced_data/'' @ dataset @ ''-5-'' @ str_nat fold_no @ ''tst.dat'' in
      bnd (call (EvReadTable ftrain) (pd_read_table K ftrain)) (\<lambda>df.
      bnd (call (EvReadTable ftest) (pd_read_table K ftest)) (\<lambda>dftest.
      let Xtrain = to_numpy (nrows df) (get_numeric_data df) in
      bnd (lift (iloc_last df)) (\<lambda>Ytrain0.
      let Ytrain1 = assign_where_col '' positive'' 1 Ytrain0;
          Ytrain = assign_where_col '' negative'' 0 Ytrain1;
          Xtest = to_numpy (nrows dftest) (get_numeric_data dftest);
          Ytest0 = (case dftest of [] \<Rightarrow> ObjCol [] | _ # _ \<Rightarrow> last dftest);
          Ytest1 = assign_where_col '' positive'' 1 Ytest0;
          Ytest = assign_where_col '' negative'' 0 Ytest1 in
      bnd (lift (astype_int_col K Ytrain)) (\<lambda>Ytrain_int.
      bnd (lift (astype_int_col K Ytest)) (\<lambda>Ytest_int.
      ret (Xtrain, Ytrain_int, Xtest, map (\<lambda>v. [v]) Ytest_int)))))))"

section \<open>train\_imbalanced\<close>

text \<open>
  The arrays of \<open>train_imbalanced\<close> are values. When one is passed to \<open>JRD_sampling\<close>
  it is a buffer of the store, and the result is read from the buffer returned. The
  pipeline calls \<^verbatim>\<open>JRD_sampling(X, n_samples=..., sigma=sigma, alpha=alpha, lr=0.1,
  weighted=True, n_rff=n_rff)\<close>: \<open>n_iter\<close> and \<open>plot\<close> keep their defaults.
\<close>

definition JRD_sampling_call ::
  "('w, 't, 'o) lib \<Rightarrow> ndarray \<Rightarrow> nat \<Rightarrow> real \<Rightarrow> real \<Rightarrow> nat option \<Rightarrow> ('w, ndarray) M" where
  "JRD_sampling_call L X n_samples sigma alpha n_rff =
     bnd (alloc X) (\<lambda>Xa.
     bnd (JRD_sampling L Xa n_samples sigma alpha 0.1 default_n_iter True n_rff False) (\<lambda>Ya.
     load Ya))"

text \<open>
  The subsampling of the majority set and the training of the SVM on the balanced set.
  The notebook has these statements twice, with \<open>Xmaj_cv\<close>, \<open>Xmin_cv\<close> inside the
  nested cross-validation and with \<open>Xmaj\<close>, \<open>Xmin\<close> for the model of the fold.
  In floating point \<^verbatim>\<open>1/(2*x**2)\<close> is \<open>inf\<close> at \<open>x = 0\<close>; over the reals of HOL it
  is \<open>0\<close>. Nothing below depends on the values of \<open>gamma_range\<close>.
\<close>

definition fit_balanced ::
  "('w, 't, 'o) lib \<Rightarrow> ('w, 'sc, 'c) sklib \<Rightarrow> ndarray \<Rightarrow> ndarray \<Rightarrow> nat \<Rightarrow> nat
     \<Rightarrow> real \<Rightarrow> real \<Rightarrow> nat option \<Rightarrow> ('w, 'c) M" where
  "fit_balanced L K Xmaj Xmin maj_label min_label sigma alpha n_rff =
     bnd (JRD_sampling_call L Xmaj (shape0 Xmin) sigma alpha n_rff) (\<lambda>Xmaj'.
     bnd (lift (np_concatenate Xmaj' Xmin)) (\<lambda>Xtrain'.
     let Ytrain' = times_ones maj_label (shape0 Xmaj') @ times_ones min_label (shape0 Xmin);
         C_range = np_logspace 0 3 7 in
     bnd (call EvPairwiseDistances (pairwise_distances K Xmaj')) (\<lambda>D.
     bnd (call EvNanMedian (np_nanmedian K D)) (\<lambda>s0.
     let gamma_range = map (\<lambda>x. 1 / (2 * x\<^sup>2)) (np_linspace (0.01 * s0) (3 * s0) 7) in
     bnd (call_fit EvGridSearch Xtrain' Ytrain'
            (grid_search K gamma_range C_range Xtrain' Ytrain')) (\<lambda>(best_C, best_gamma).
     bnd (call_fit EvSVCFit Xtrain' Ytrain'
            (svc_fit K best_C best_gamma Xtrain' Ytrain')) (\<lambda>clf.
     ret clf))))))"

text \<open>\<^verbatim>\<open>roc_auc_score(Y, clf.predict_proba(X)[:, 1])\<close>.\<close>

definition test_auc :: "('w, 'sc, 'c) sklib \<Rightarrow> 'c \<Rightarrow> ndarray \<Rightarrow> labels \<Rightarrow> ('w, real) M" where
  "test_auc K clf X Y =
     bnd (call EvPredictProba (predict_proba K clf X)) (\<lambda>proba.
     bnd (lift (column proba 1)) (\<lambda>scores.
     call EvRocAuc (roc_auc_score K Y scores)))"

text \<open>
  The body of \<^verbatim>\<open>for i, sigma in enumerate(sigmas)\<close>. Its last statement is the only
  one under \<^verbatim>\<open>try\<close>.
\<close>

definition cv_iteration ::
  "('w, 't, 'o) lib \<Rightarrow> ('w, 'sc, 'c) sklib \<Rightarrow> ndarray \<Rightarrow> ndarray \<Rightarrow> nat \<Rightarrow> nat \<Rightarrow> real
     \<Rightarrow> nat option \<Rightarrow> ndarray \<Rightarrow> int list \<Rightarrow> nat \<times> real \<Rightarrow> real list \<Rightarrow> ('w, real list) M" where
  "cv_iteration L K Xmaj_cv Xmin_cv maj_label min_label alpha n_rff Xtest' Ytest' isigma AUC_cv =
     (case isigma of (i, sigma) \<Rightarrow>
     bnd (fit_balanced L K Xmaj_cv Xmin_cv maj_label min_label sigma alpha n_rff) (\<lambda>clf.
     try_except_ValueError
       (bnd (test_auc K clf Xtest' (Labels1 Ytest')) (\<lambda>v. ret (AUC_cv[i := v])))
       (ret AUC_cv)))"

text \<open>
  The nested cross-validation: from \<^verbatim>\<open>train_test_split\<close> to
  \<^verbatim>\<open>sigma = sigmas[np.argmax(AUC_cv)]\<close>.
\<close>

definition select_sigma ::
  "('w, 't, 'o) lib \<Rightarrow> ('w, 'sc, 'c) sklib \<Rightarrow> ndarray \<Rightarrow> int list \<Rightarrow> nat \<Rightarrow> nat \<Rightarrow> real
     \<Rightarrow> nat \<Rightarrow> nat option \<Rightarrow> ('w, real) M" where
  "select_sigma L K Xtrain Ytrain maj_label min_label alpha n_sigmas n_rff =
     bnd (call EvTrainTestSplit (train_test_split K Xtrain Ytrain 0.25 42))
       (\<lambda>(Xtrain', Xtest', Ytrain', Ytest').
     bnd (lift (mask_rows Xtrain' (map (\<lambda>y. y = int maj_label) Ytrain'))) (\<lambda>Xmaj_cv.
     bnd (lift (mask_rows Xtrain' (map (\<lambda>y. y = int min_label) Ytrain'))) (\<lambda>Xmin_cv.
     bnd (call EvPairwiseDistances (pairwise_distances K Xmaj_cv)) (\<lambda>D.
     bnd (call EvNanMedian (np_nanmedian K D)) (\<lambda>sigma0.
     let sigmas = np_linspace (0.01 * sigma0) (3 * sigma0) n_sigmas;
         AUC_cv = np_zeros (length sigmas) in
     bnd (for_each (enumerate 0 sigmas)
            (cv_iteration L K Xmaj_cv Xmin_cv maj_label min_label alpha n_rff Xtest' Ytest')
            AUC_cv) (\<lambda>AUC_cv.
     bnd (lift (np_argmax AUC_cv)) (\<lambda>best.
     ret (sigmas ! best))))))))"

text \<open>One fold, up to the AUC on the test set of the fold.\<close>

definition fold_auc ::
  "('w, 't, 'o) lib \<Rightarrow> ('w, 'sc, 'c) sklib \<Rightarrow> string \<Rightarrow> nat option \<Rightarrow> real \<Rightarrow> nat \<Rightarrow> nat
     \<Rightarrow> ('w, real) M" where
  "fold_auc L K dataset n_rff alpha n_sigmas fold_no =
     bnd (emit (EvPrint (''Processing Fold '' @ str_nat fold_no))) (\<lambda>_.
     bnd (load_dataset K dataset fold_no) (\<lambda>(Xtrain0, Ytrain, Xtest0, Ytest).
     bnd (call EvFitTransform (fit_transform K Xtrain0)) (\<lambda>(scaler, Xtrain).
     bnd (call EvTransform (transform K scaler Xtest0)) (\<lambda>Xtest.
     bnd (lift (np_bincount Ytrain)) (\<lambda>counts.
     bnd (lift (np_argmax counts)) (\<lambda>maj_label.
     bnd (lift (np_bincount Ytrain)) (\<lambda>counts'.
     bnd (lift (np_argmin counts')) (\<lambda>min_label.
     bnd (lift (mask_rows Xtrain (map (\<lambda>y. y = int maj_label) Ytrain))) (\<lambda>Xmaj.
     bnd (lift (mask_rows Xtrain (map (\<lambda>y. y = int min_label) Ytrain))) (\<lambda>Xmin.
     bnd (select_sigma L K Xtrain Ytrain maj_label min_label alpha n_sigmas n_rff) (\<lambda>sigma.
     bnd (fit_balanced L K Xmaj Xmin maj_label min_label sigma alpha n_rff) (\<lambda>clf.
     test_auc K clf Xtest (Labels2 Ytest)))))))))))))"

text \<open>\<^verbatim>\<open>def train_imbalanced(dataset, n_rff=None)\<close>; \<^verbatim>\<open>range(1, 6)\<close> is \<open>[1..<6]\<close>.\<close>

definition train_imbalanced ::
  "('w, 't, 'o) lib \<Rightarrow> ('w, 'sc, 'c) sklib \<Rightarrow> string \<Rightarrow> nat option \<Rightarrow> ('w, real list) M" where
  "train_imbalanced L K dataset n_rff =
     bnd (emit (EvPrint (''Processing '' @ dataset @ '' dataset ''))) (\<lambda>_.
     let AUC = np_zeros 5; alpha = 1.01; n_sigmas = 10 in
     bnd (for_each [1..<6]
            (\<lambda>fold_no AUC. bnd (fold_auc L K dataset n_rff alpha n_sigmas fold_no)
               (\<lambda>v. ret (AUC[fold_no - 1 := v])))
            AUC) (\<lambda>AUC.
     bnd (emit (EvPrint (dataset @ '' was processed''))) (\<lambda>_.
     ret AUC)))"

section \<open>Traces and frames\<close>

text \<open>
  \<open>emits m evs\<close>: every run of \<open>m\<close> appends to the trace a prefix of \<open>evs\<close>, and
  the whole of \<open>evs\<close> when it returns normally.
\<close>

definition emits :: "('w, 'a) M \<Rightarrow> event list \<Rightarrow> bool" where
  "emits m evs \<longleftrightarrow> (\<forall>s r s'. m s = (r, s') \<longrightarrow>
     (\<exists>es. trace s' = trace s @ es \<and> prefix es evs \<and> (\<forall>x. r = Inr x \<longrightarrow> es = evs)))"

text \<open>
  \<open>writes_only A m\<close>: a run of \<open>m\<close> may allocate buffers and overwrite the ones at the
  addresses in \<open>A\<close>; every other buffer that existed before still holds what it held.
\<close>

definition writes_only :: "nat set \<Rightarrow> ('w, 'a) M \<Rightarrow> bool" where
  "writes_only A m \<longleftrightarrow> (\<forall>s r s'. m s = (r, s') \<longrightarrow>
     length (heap s) \<le> length (heap s') \<and>
     (\<forall>p < length (heap s). p \<notin> A \<longrightarrow> heap s' ! p = heap s ! p))"

text \<open>The events of the statements before the loop, and of one iteration.\<close>

definition init_events :: "bool \<Rightarrow> event list" where
  "init_events plot = [EvUniform, EvAdam] @ (if plot then [EvSubplots] else [])"

definition iteration_events :: "bool \<Rightarrow> event list" where
  "iteration_events plot =
     [EvZeroGrad, EvDivergence, EvBackward, EvStep] @ (if plot then [EvPlotFrame] else [])"

section \<open>Gradient descent, as the specification words it\<close>

text \<open>
  One step of gradient descent on the divergence of the library: evaluate
  \<open>divergenceJR\<close> at the current \<open>Y\<close>, take its gradient, and let the optimizer make one
  step. \<open>None\<close> when a call into the library raises.
\<close>

definition gd_step ::
  "('w, 't, 'o) lib \<Rightarrow> ndarray \<Rightarrow> real \<Rightarrow> real \<Rightarrow> bool \<Rightarrow> nat option
     \<Rightarrow> ndarray \<times> 'o \<times> 'w \<Rightarrow> (ndarray \<times> 'o \<times> 'w) option" where
  "gd_step L X sigma alpha weighted n_rff c = (case c of (Y, opt, w) \<Rightarrow>
     (case divergenceJR L X Y sigma alpha weighted n_rff w of
        (Inl e, w1) \<Rightarrow> None
      | (Inr djr, w1) \<Rightarrow>
          (case backward L djr w1 of
             (Inl e, w2) \<Rightarrow> None
           | (Inr g, w2) \<Rightarrow>
               (case adam_step L opt Y (Some g) w2 of
                  (Inl e, w3) \<Rightarrow> None
                | (Inr (Y', opt'), w3) \<Rightarrow> Some (Y', opt', w3)))))"

text \<open>
  What showing a frame does to the outside world (nothing when \<open>plot\<close> is off);
  \<open>None\<close> when it raises.
\<close>

definition show_frame ::
  "('w, 't, 'o) lib \<Rightarrow> bool \<Rightarrow> ndarray \<Rightarrow> ndarray \<Rightarrow> 'w \<Rightarrow> 'w option" where
  "show_frame L plot X Y w =
     (if plot then
        (case (column X 0, column X 1, column Y 0, column Y 1) of
           (Inr x0, Inr x1, Inr y0, Inr y1) \<Rightarrow>
              (case draw_frame L x0 x1 y0 y1 w of (Inr u, w') \<Rightarrow> Some w' | (Inl e, w') \<Rightarrow> None)
         | _ \<Rightarrow> None)
      else Some w)"

fun gd_descent ::
  "('w, 't, 'o) lib \<Rightarrow> bool \<Rightarrow> ndarray \<Rightarrow> real \<Rightarrow> real \<Rightarrow> bool \<Rightarrow> nat option
     \<Rightarrow> nat \<Rightarrow> ndarray \<times> 'o \<times> 'w \<Rightarrow> (ndarray \<times> 'o \<times> 'w) option" where
  "gd_descent L plot X sigma alpha weighted n_rff 0 c = Some c"
| "gd_descent L plot X sigma alpha weighted n_rff (Suc k) c =
     (case gd_step L X sigma alpha weighted n_rff c of
        None \<Rightarrow> None
      | Some (Y', opt', w3) \<Rightarrow>
          (case show_frame L plot X Y' w3 of
             None \<Rightarrow> None
           | Some w4 \<Rightarrow> gd_descent L plot X sigma alpha weighted n_rff k (Y', opt', w4)))"

section \<open>Contracts of the libraries\<close>

text \<open>
  \<open>uniform_in_range\<close>: \<^verbatim>\<open>np.random.uniform(lo, hi, (r, c))\<close> returns an array of \<open>r\<close>
  rows and \<open>c\<close> columns with every entry in \<open>[lo, hi)\<close>, when \<open>lo < hi\<close>.
  \<open>step_keeps_shape\<close>: \<^verbatim>\<open>optimizer.step()\<close> updates its parameter in place, so the
  shape of the parameter stays.
  \<open>lib_returns\<close>: no call into the library raises.
  \<open>uniform_is_float\<close>: the array that \<^verbatim>\<open>np.random.uniform\<close> returns has the element
  type \<open>float64\<close>.
\<close>

definition uniform_in_range :: "('w, 't, 'o) lib \<Rightarrow> bool" where
  "uniform_in_range L \<longleftrightarrow> (\<forall>lo hi r c w a w'.
     lo < hi \<and> np_random_uniform L lo hi (r, c) w = (Inr a, w') \<longrightarrow>
       shape0 a = r \<and> shape1 a = c \<and>
       (\<forall>row \<in> set (rows a). length row = c \<and> (\<forall>v \<in> set row. lo \<le> v \<and> v < hi)))"

definition step_keeps_shape :: "('w, 't, 'o) lib \<Rightarrow> bool" where
  "step_keeps_shape L \<longleftrightarrow> (\<forall>opt p g w p' opt' w'.
     adam_step L opt p g w = (Inr (p', opt'), w') \<longrightarrow>
       shape0 p' = shape0 p \<and> shape1 p' = shape1 p)"

definition lib_returns :: "('w, 't, 'o) lib \<Rightarrow> bool" where
  "lib_returns L \<longleftrightarrow>
     (\<forall>lo hi sz w. \<exists>a w'. np_random_uniform L lo hi sz w = (Inr a, w')) \<and>
     (\<forall>lr w. \<exists>opt w'. torch_optim_Adam L lr w = (Inr opt, w')) \<and>
     (\<forall>X Y sigma alpha weighted n_rff w. \<exists>t w'.
        divergenceJR L X Y sigma alpha weighted n_rff w = (Inr t, w')) \<and>
     (\<forall>t w. \<exists>g w'. backward L t w = (Inr g, w')) \<and>
     (\<forall>opt p g w. \<exists>p' opt' w'. adam_step L opt p g w = (Inr (p', opt'), w')) \<and>
     (\<forall>w. \<exists>w'. plt_subplots L w = (Inr (), w')) \<and>
     (\<forall>x0 x1 y0 y1 w. \<exists>w'. draw_frame L x0 x1 y0 y1 w = (Inr (), w'))"


section \<open>A library that counts\<close>

text \<open>
  \<open>counted L\<close> is the library \<open>L\<close> with two counters in the state of the world: the
  calls of \<open>divergenceJR\<close> and the calls of \<open>adam_step\<close>. \<open>counting s\<close> is the state
  \<open>s\<close> with both counters at zero, \<open>uncount s\<close> the state without the counters.
  \<open>tallied m\<close>: in every run of \<open>m\<close> the counters grow by the number of the events
  \<open>EvDivergence\<close> and \<open>EvStep\<close> that the run appends to the trace.
  \<open>simulates m mc\<close>: without the counters, a run of \<open>mc\<close> is a run of \<open>m\<close>.
\<close>

definition through :: "('w \<Rightarrow> 'r \<times> 'w) \<Rightarrow> 'w \<times> nat \<times> nat \<Rightarrow> 'r \<times> ('w \<times> nat \<times> nat)" where
  "through f = (\<lambda>(w, c). case f w of (r, w') \<Rightarrow> (r, (w', c)))"

definition tick_eval :: "('w \<Rightarrow> 'r \<times> 'w) \<Rightarrow> 'w \<times> nat \<times> nat \<Rightarrow> 'r \<times> ('w \<times> nat \<times> nat)" where
  "tick_eval f = (\<lambda>(w, e, t). case f w of (r, w') \<Rightarrow> (r, (w', Suc e, t)))"

definition tick_step :: "('w \<Rightarrow> 'r \<times> 'w) \<Rightarrow> 'w \<times> nat \<times> nat \<Rightarrow> 'r \<times> ('w \<times> nat \<times> nat)" where
  "tick_step f = (\<lambda>(w, e, t). case f w of (r, w') \<Rightarrow> (r, (w', e, Suc t)))"

definition counted :: "('w, 't, 'o) lib \<Rightarrow> ('w \<times> nat \<times> nat, 't, 'o) lib" where
  "counted L = \<lparr>
     np_random_uniform = (\<lambda>lo hi sz. through (np_random_uniform L lo hi sz)),
     torch_optim_Adam = (\<lambda>lr. through (torch_optim_Adam L lr)),
     divergenceJR = (\<lambda>X Y sigma alpha weighted n_rff.
        tick_eval (divergenceJR L X Y sigma alpha weighted n_rff)),
     backward = (\<lambda>t. through (backward L t)),
     adam_step = (\<lambda>opt p g. tick_step (adam_step L opt p g)),
     plt_subplots = through (plt_subplots L),
     draw_frame = (\<lambda>x0 x1 y0 y1. through (draw_frame L x0 x1 y0 y1)) \<rparr>"

definition evaluations :: "'w \<times> nat \<times> nat \<Rightarrow> nat" where
  "evaluations w = fst (snd w)"

definition steps :: "'w \<times> nat \<times> nat \<Rightarrow> nat" where
  "steps w = snd (snd w)"

definition uncount :: "('w \<times> nat \<times> nat) state \<Rightarrow> 'w state" where
  "uncount s = \<lparr> heap = heap s, trace = trace s, fitted = fitted s, world = fst (world s) \<rparr>"

definition counting :: "'w state \<Rightarrow> ('w \<times> nat \<times> nat) state" where
  "counting s = \<lparr> heap = heap s, trace = trace s, fitted = fitted s, world = (world s, 0, 0) \<rparr>"

definition tallied :: "('w \<times> nat \<times> nat, 'a) M \<Rightarrow> bool" where
  "tallied m \<longleftrightarrow> (\<forall>s r s'. m s = (r, s') \<longrightarrow>
     (\<exists>es. trace s' = trace s @ es \<and>
        evaluations (world s') = evaluations (world s) + count_list es EvDivergence \<and>
        steps (world s') = steps (world s) + count_list es EvStep))"

definition simulates :: "('w, 'a) M \<Rightarrow> ('w \<times> nat \<times> nat, 'a) M \<Rightarrow> bool" where
  "simulates m mc \<longleftrightarrow> (\<forall>s r s'. mc s = (r, s') \<longrightarrow> m (uncount s) = (r, uncount s'))"

section \<open>Labels, files and evaluation\<close>

text \<open>
  What the two assignments of \<open>load_dataset\<close> do to one label: \<open>' positive'\<close> becomes
  1, then \<open>' negative'\<close> becomes 0.
\<close>

definition relabel :: "pyobj \<Rightarrow> pyobj" where
  "relabel c = assign_where '' negative'' 0 (assign_where '' positive'' 1 c)"

text \<open>
  The two assignments on a whole column, the label column of the test table as a column,
  and what \<^verbatim>\<open>astype(int)\<close> makes of a column when it raises nothing.
\<close>

definition relabel_col :: "series \<Rightarrow> series" where
  "relabel_col col = assign_where_col '' negative'' 0 (assign_where_col '' positive'' 1 col)"

definition test_column :: "dataframe \<Rightarrow> series" where
  "test_column dftest = (case dftest of [] \<Rightarrow> ObjCol [] | _ # _ \<Rightarrow> last dftest)"

fun converted :: "('w, 'sc, 'c) sklib \<Rightarrow> series \<Rightarrow> int list \<Rightarrow> bool" where
  "converted K (ObjCol cs) ys \<longleftrightarrow> list_all2 (\<lambda>c y. py_int K (relabel c) = Inr y) cs ys"
| "converted K (NumCol d xs) ys \<longleftrightarrow> ys = map (cast_int64 K) xs"

text \<open>The name of a file of a dataset.\<close>

definition data_file :: "string \<Rightarrow> nat \<Rightarrow> string \<Rightarrow> string" where
  "data_file dataset fold_no ext =
     ''./Imbalanced_data/'' @ dataset @ ''-5-'' @ str_nat fold_no @ ext"

text \<open>
  \<open>always m x\<close>: from every state \<open>m\<close> returns \<open>x\<close>; \<open>raises m e\<close>: from every
  state \<open>m\<close> raises \<open>e\<close>. They evaluate the model on the stand-in libraries, whose
  results do not depend on the state.
\<close>

definition always :: "('w, 'a) M \<Rightarrow> 'a \<Rightarrow> bool" where
  "always m x \<longleftrightarrow> (\<forall>s. fst (m s) = Inr x)"

definition raises :: "('w, 'a) M \<Rightarrow> pyexc \<Rightarrow> bool" where
  "raises m e \<longleftrightarrow> (\<forall>s. fst (m s) = Inl e)"

section \<open>A stand-in library\<close>

text \<open>
  A small library to run the model on: the draw fills the array with the lower bound,
  the divergence is half the squared norm of \<open>Y\<close> (its gradient is \<open>Y\<close>), and the
  optimizer makes a plain gradient step. The world counts the draws.
\<close>

definition descend :: "real \<Rightarrow> ndarray \<Rightarrow> ndarray option \<Rightarrow> ndarray" where
  "descend lr p g = (case g of
       None \<Rightarrow> p
     | Some d \<Rightarrow>
         if map length (rows d) = map length (rows p)
         then NDArray (dtype p) (shape1 p) (map2 (map2 (\<lambda>a b. a - lr * b)) (rows p) (rows d))
         else p)"

definition plain_lib :: "(nat, ndarray, real) lib" where
  "plain_lib = \<lparr>
     np_random_uniform = (\<lambda>lo hi sz w.
        (Inr (NDArray Float64 (snd sz) (replicate (fst sz) (replicate (snd sz) lo))), Suc w)),
     torch_optim_Adam = (\<lambda>lr w. (Inr lr, w)),
     divergenceJR = (\<lambda>X Y sigma alpha weighted n_rff w. (Inr Y, w)),
     backward = (\<lambda>t w. (Inr t, w)),
     adam_step = (\<lambda>opt p g w. (Inr (descend opt p g, opt), w)),
     plt_subplots = (\<lambda>w. (Inr (), w)),
     draw_frame = (\<lambda>x0 x1 y0 y1 w. (Inr (), w)) \<rparr>"

definition moons :: "nat state" where
  "moons = \<lparr> heap = [NDArray Float64 2 [[0, 1], [1, 0], [1, 1]]], trace = [], fitted = [], world = 0 \<rparr>"

text \<open>A point set with one column, and a point set of integers.\<close>

definition line :: "nat state" where
  "line = \<lparr> heap = [NDArray Float64 1 [[0], [1]]], trace = [], fitted = [], world = 0 \<rparr>"


text \<open>
  A library whose optimizer leaves its parameter where it is, and a stand-in for pandas
  and scikit-learn: every file holds the same small table (three samples of the class
  \<open>negative\<close> and one of the class \<open>positive\<close>), the scaler is the identity, the split
  returns the whole set twice, and every classifier scores 0.5. Of the Unicode database
  it knows the white space U+0085 and U+00A0 and the Arabic-Indic digits.
\<close>

definition still_lib :: "(nat, ndarray, real) lib" where
  "still_lib = plain_lib \<lparr> adam_step := (\<lambda>opt p g w. (Inr (p, opt), w)) \<rparr>"

definition tiny_table :: dataframe where
  "tiny_table = [NumCol Float64 [0, 1, 2, 3], NumCol Float64 [1, 0, 1, 0],
     ObjCol [PyStr (codes '' negative''), PyStr (codes '' positive''),
       PyStr (codes '' negative''), PyStr (codes '' negative'')]]"

definition tiny_sklib :: "(nat, unit, unit) sklib" where
  "tiny_sklib = \<lparr>
     pd_read_table = (\<lambda>path w. (Inr tiny_table, w)),
     fit_transform = (\<lambda>X w. (Inr ((), X), w)),
     transform = (\<lambda>sc X w. (Inr X, w)),
     train_test_split = (\<lambda>X y test_size random_state w. (Inr (X, X, y, y), w)),
     pairwise_distances = (\<lambda>X w. (Inr X, w)),
     np_nanmedian = (\<lambda>D w. (Inr 1, w)),
     grid_search = (\<lambda>gamma_range C_range X y w. (Inr (1, 1), w)),
     svc_fit = (\<lambda>C gamma X y w. (Inr (), w)),
     predict_proba = (\<lambda>clf X w.
        (Inr (NDArray Float64 2 (map (\<lambda>r. [0.5, 0.5]) (rows X))), w)),
     roc_auc_score = (\<lambda>y_true y_score w. (Inr 0.5, w)),
     unicode_isspace = (\<lambda>c. c \<in> {133, 160}),
     unicode_todecimal = (\<lambda>c. if 1632 \<le> c \<and> c \<le> 1641 then Some (c - 1632) else None),
     int_max_str_digits = 4300,
     cast_out_of_range = (\<lambda>x. - (2 ^ 63)) \<rparr>"

text \<open>A table whose last label is the string \<open>'' 7''\<close>.\<close>

definition odd_table :: dataframe where
  "odd_table = [NumCol Float64 [0, 1, 2],
     ObjCol [PyStr (codes '' positive''), PyStr (codes '' negative''), PyStr (codes '' 7'')]]"

definition odd_sklib :: "(nat, unit, unit) sklib" where
  "odd_sklib = tiny_sklib \<lparr> pd_read_table := (\<lambda>path w. (Inr odd_table, w)) \<rparr>"

definition start :: "nat state" where
  "start = \<lparr> heap = [], trace = [], fitted = [], world = 0 \<rparr>"

text \<open>
  A split whose test part is empty, and a classifier that raises ValueError on an empty
  test set (as scikit-learn does on an array without samples).
\<close>

definition shy_sklib :: "(nat, unit, unit) sklib" where
  "shy_sklib = tiny_sklib \<lparr>
     train_test_split := (\<lambda>X y test_size random_state w.
        (Inr (X, NDArray (dtype X) (shape1 X) [], y, []), w)),
     predict_proba := (\<lambda>clf X w.
        if rows X = [] then (Inl ValueError, w)
        else (Inr (NDArray Float64 2 (map (\<lambda>r. [0.5, 0.5]) (rows X))), w)) \<rparr>"

text \<open>
  What \<open>tiny_sklib\<close> and \<open>shy_sklib\<close> have in common.
\<close>

definition easy :: "(nat, unit, unit) sklib \<Rightarrow> bool" where
  "easy K \<longleftrightarrow>
     (\<forall>p w. fst (pd_read_table K p w) = Inr tiny_table) \<and>
     (\<forall>X w. fst (fit_transform K X w) = Inr ((), X)) \<and>
     (\<forall>sc X w. fst (transform K sc X w) = Inr X) \<and>
     (\<forall>X w. fst (pairwise_distances K X w) = Inr X) \<and>
     (\<forall>D w. fst (np_nanmedian K D w) = Inr 1) \<and>
     (\<forall>g C X y w. fst (grid_search K g C X y w) = Inr (1, 1)) \<and>
     (\<forall>C g X y w. fst (svc_fit K C g X y w) = Inr ()) \<and>
     (\<forall>clf X w. rows X \<noteq> [] \<longrightarrow>
        fst (predict_proba K clf X w)
          = Inr (NDArray Float64 2 (map (\<lambda>r. [0.5, 0.5]) (rows X)))) \<and>
     (\<forall>y sc w. fst (roc_auc_score K y sc w) = Inr 0.5)"

text \<open>
  The standardised training set of the stand-in table: four rows, the second of the
  minority class.
\<close>

definition four :: ndarray where
  "four = NDArray Float64 2 [[0, 1], [1, 0], [2, 1], [3, 0]]"

text \<open>
  A library whose optimizer fills \<open>Y\<close> with the kernel width that the divergence was
  called with, and a stand-in for scikit-learn whose classifier remembers the first entry
  of its training set and scores 1 when that entry exceeds 2, and 0 otherwise: the score
  of a candidate depends on the candidate.
\<close>

definition fill :: "real \<Rightarrow> ndarray \<Rightarrow> ndarray" where
  "fill c p = NDArray (dtype p) (shape1 p) (map (map (\<lambda>_. c)) (rows p))"

definition echo_lib :: "(nat, real, real) lib" where
  "echo_lib = \<lparr>
     np_random_uniform = (\<lambda>lo hi sz w.
        (Inr (NDArray Float64 (snd sz) (replicate (fst sz) (replicate (snd sz) lo))), Suc w)),
     torch_optim_Adam = (\<lambda>lr w. (Inr lr, w)),
     divergenceJR = (\<lambda>X Y sigma alpha weighted n_rff w. (Inr sigma, w)),
     backward = (\<lambda>t w. (Inr (NDArray Float64 1 [[t]]), w)),
     adam_step = (\<lambda>opt p g w.
        (Inr (case g of None \<Rightarrow> p | Some d \<Rightarrow> fill (hd (hd (rows d))) p, opt), w)),
     plt_subplots = (\<lambda>w. (Inr (), w)),
     draw_frame = (\<lambda>x0 x1 y0 y1 w. (Inr (), w)) \<rparr>"

definition keen_sklib :: "(nat, unit, real) sklib" where
  "keen_sklib = \<lparr>
     pd_read_table = (\<lambda>path w. (Inr tiny_table, w)),
     fit_transform = (\<lambda>X w. (Inr ((), X), w)),
     transform = (\<lambda>sc X w. (Inr X, w)),
     train_test_split = (\<lambda>X y test_size random_state w. (Inr (X, X, y, y), w)),
     pairwise_distances = (\<lambda>X w. (Inr X, w)),
     np_nanmedian = (\<lambda>D w. (Inr 1, w)),
     grid_search = (\<lambda>gamma_range C_range X y w. (Inr (1, 1), w)),
     svc_fit = (\<lambda>C gamma X y w. (Inr (hd (hd (rows X))), w)),
     predict_proba = (\<lambda>clf X w.
        (Inr (NDArray Float64 2
           (map (\<lambda>r. if 2 < clf then [0, 1] else [1, 0]) (rows X))), w)),
     roc_auc_score = (\<lambda>y_true y_score w. (Inr (hd y_score), w)),
     unicode_isspace = (\<lambda>c. c \<in> {133, 160}),
     unicode_todecimal = (\<lambda>c. if 1632 \<le> c \<and> c \<le> 1641 then Some (c - 1632) else None),
     int_max_str_digits = 4300,
     cast_out_of_range = (\<lambda>x. - (2 ^ 63)) \<rparr>"

section \<open>Runs of the monad\<close>

lemma bndE:
  assumes "bnd m f s = (r, s')"
  obtains (fail) e where "m s = (Inl e, s')" "r = Inl e"
        | (ok) x s1 where "m s = (Inr x, s1)" "f x s1 = (r, s')"
  using assms by (auto simp: bnd_def split: prod.splits sum.splits)

lemma bnd_Inr:
  "bnd m f s = (Inr y, s') \<longleftrightarrow> (\<exists>x s1. m s = (Inr x, s1) \<and> f x s1 = (Inr y, s'))"
  by (auto simp: bnd_def split: prod.splits sum.splits)

lemma load_Inr: "load p s = (Inr v, s') \<longleftrightarrow> p < length (heap s) \<and> v = heap s ! p \<and> s' = s"
  by (auto simp: load_def)

lemma call_Inr: "call ev f s = (Inr v, s') \<longleftrightarrow>
  (\<exists>w'. f (world s) = (Inr v, w') \<and> s' = s\<lparr>trace := trace s @ [ev], world := w'\<rparr>)"
  by (auto simp: call_def split: prod.splits)

lemma emit_Inr: "emit ev s = (Inr v, s') \<longleftrightarrow> s' = s\<lparr>trace := trace s @ [ev]\<rparr>"
  by (auto simp: emit_def)

lemma store_Inr: "store p a s = (Inr v, s') \<longleftrightarrow>
  p < length (heap s) \<and> s' = s\<lparr>heap := (heap s)[p := a]\<rparr>"
  by (auto simp: store_def)

lemma ret_Inr: "ret x s = (Inr v, s') \<longleftrightarrow> v = x \<and> s' = s"
  by (auto simp: ret_def)

lemma lift_Inr: "lift r s = (Inr v, s') \<longleftrightarrow> r = Inr v \<and> s' = s"
  by (auto simp: lift_def)

lemma alloc_Inr: "alloc a s = (Inr p, s') \<longleftrightarrow>
  p = length (heap s) \<and> s' = s\<lparr>heap := heap s @ [a]\<rparr>"
  by (auto simp: alloc_def)

lemmas run_Inr = bnd_Inr load_Inr call_Inr emit_Inr store_Inr ret_Inr lift_Inr alloc_Inr

lemma column_Inr: "column a j = Inr c \<longleftrightarrow> j < shape1 a \<and> c = map (\<lambda>r. r ! j) (rows a)"
  by (auto simp: column_def)

subsection \<open>Rules for traces\<close>

lemma emits_ret: "emits (ret x) []"
  by (simp add: emits_def ret_def)

lemma emits_raise: "emits (raise e) []"
  by (simp add: emits_def raise_def)

lemma emits_lift: "emits (lift r) []"
  by (simp add: emits_def lift_def)

lemma emits_load: "emits (load p) []"
  by (auto simp: emits_def load_def split: if_splits)

lemma emits_store: "emits (store p a) []"
  by (auto simp: emits_def store_def split: if_splits)

lemma emits_alloc: "emits (alloc a) []"
  by (auto simp: emits_def alloc_def)

lemma emits_call: "emits (call ev f) [ev]"
  by (auto simp: emits_def call_def split: prod.splits)

lemma emits_emit: "emits (emit ev) [ev]"
  by (auto simp: emits_def emit_def)

lemma emits_bnd:
  assumes m: "emits m e1" and f: "\<And>x. emits (f x) e2"
  shows "emits (bnd m f) (e1 @ e2)"
  unfolding emits_def
proof (intro allI impI)
  fix s r s'
  assume run: "bnd m f s = (r, s')"
  from run show "\<exists>es. trace s' = trace s @ es \<and> prefix es (e1 @ e2) \<and>
    (\<forall>x. r = Inr x \<longrightarrow> es = e1 @ e2)"
  proof (cases rule: bndE)
    case (fail e)
    with m obtain es where "trace s' = trace s @ es" "prefix es e1"
      unfolding emits_def by blast
    with fail show ?thesis by (auto intro: prefix_prefix)
  next
    case (ok x s1)
    from m ok(1) have t1: "trace s1 = trace s @ e1"
      unfolding emits_def by blast
    from f[of x] ok(2) obtain es where es: "trace s' = trace s1 @ es" "prefix es e2"
      "\<forall>y. r = Inr y \<longrightarrow> es = e2"
      unfolding emits_def by blast
    with t1 show ?thesis by auto
  qed
qed

lemma emits_case_prod:
  assumes "\<And>a b. emits (f a b) evs"
  shows "emits (case x of (a, b) \<Rightarrow> f a b) evs"
  using assms by (cases x) simp

lemma emits_if:
  assumes "emits a e1" and "emits b e2"
  shows "emits (if c then a else b) (if c then e1 else e2)"
  using assms by simp

lemmas emits_intros = emits_bnd emits_case_prod emits_if emits_ret emits_raise emits_lift
  emits_load emits_store emits_alloc emits_call emits_emit

lemma emits_Inr:
  assumes "emits m evs" and "m s = (Inr x, s')"
  shows "trace s' = trace s @ evs"
  using assms unfolding emits_def by blast

lemma emits_any:
  assumes "emits m evs" and "m s = (r, s')"
  obtains es where "trace s' = trace s @ es" "prefix es evs"
  using assms unfolding emits_def by blast

subsection \<open>Rules for frames\<close>

lemma writes_only_ret: "writes_only A (ret x)"
  by (simp add: writes_only_def ret_def)

lemma writes_only_raise: "writes_only A (raise e)"
  by (simp add: writes_only_def raise_def)

lemma writes_only_lift: "writes_only A (lift r)"
  by (simp add: writes_only_def lift_def)

lemma writes_only_load: "writes_only A (load p)"
  by (auto simp: writes_only_def load_def split: if_splits)

lemma writes_only_call: "writes_only A (call ev f)"
  by (auto simp: writes_only_def call_def split: prod.splits)

lemma writes_only_emit: "writes_only A (emit ev)"
  by (auto simp: writes_only_def emit_def)

lemma writes_only_alloc: "writes_only A (alloc a)"
  by (auto simp: writes_only_def alloc_def nth_append)

lemma writes_only_store: "p \<in> A \<Longrightarrow> writes_only A (store p a)"
  by (auto simp: writes_only_def store_def nth_list_update split: if_splits)

lemma writes_only_bnd:
  assumes m: "writes_only A m" and f: "\<And>x. writes_only A (f x)"
  shows "writes_only A (bnd m f)"
  unfolding writes_only_def
proof (intro allI impI)
  fix s r s'
  assume run: "bnd m f s = (r, s')"
  from run show "length (heap s) \<le> length (heap s') \<and>
    (\<forall>p<length (heap s). p \<notin> A \<longrightarrow> heap s' ! p = heap s ! p)"
  proof (cases rule: bndE)
    case (fail e)
    with m show ?thesis unfolding writes_only_def by blast
  next
    case (ok x s1)
    from m ok(1) have 1: "length (heap s) \<le> length (heap s1)"
      "\<forall>p<length (heap s). p \<notin> A \<longrightarrow> heap s1 ! p = heap s ! p"
      unfolding writes_only_def by blast+
    from f[of x] ok(2) have 2: "length (heap s1) \<le> length (heap s')"
      "\<forall>p<length (heap s1). p \<notin> A \<longrightarrow> heap s' ! p = heap s1 ! p"
      unfolding writes_only_def by blast+
    from 1 2 show ?thesis by auto
  qed
qed

lemma writes_only_case_prod:
  assumes "\<And>a b. writes_only A (f a b)"
  shows "writes_only A (case x of (a, b) \<Rightarrow> f a b)"
  using assms by (cases x) simp

lemma writes_only_if:
  assumes "writes_only A a" and "writes_only A b"
  shows "writes_only A (if c then a else b)"
  using assms by simp

lemmas writes_only_intros = writes_only_bnd writes_only_case_prod writes_only_if
  writes_only_ret writes_only_raise writes_only_lift writes_only_load writes_only_call
  writes_only_emit writes_only_alloc

subsection \<open>Rules for evaluation\<close>

lemma always_ret: "always (ret x) x"
  by (simp add: always_def ret_def)

lemma always_ret_eq: "x = y \<Longrightarrow> always (ret x) y"
  by (simp add: always_ret)

lemma always_lift: "r = Inr x \<Longrightarrow> always (lift r) x"
  by (simp add: always_def lift_def)

lemma always_emit: "always (emit ev) ()"
  by (simp add: always_def emit_def)

lemma always_call: "(\<And>w. fst (f w) = Inr x) \<Longrightarrow> always (call ev f) x"
  by (simp add: always_def call_def split: prod.splits) (metis fst_conv)

lemma always_call_fit: "(\<And>w. fst (f w) = Inr x) \<Longrightarrow> always (call_fit ev X y f) x"
  using always_call[of f x ev] by (simp add: always_def call_fit_def)

lemma always_bnd: "always m x \<Longrightarrow> always (f x) y \<Longrightarrow> always (bnd m f) y"
  by (auto simp: always_def bnd_def split: prod.splits sum.splits) (metis fst_conv sum.inject(2) Inl_Inr_False)+

lemma always_try: "always m x \<Longrightarrow> always (try_except_ValueError m h) x"
  by (auto simp: always_def try_except_ValueError_def split: prod.splits sum.splits) (metis fst_conv sum.inject(2) Inl_Inr_False)+

lemma raises_call: "(\<And>w. fst (f w) = Inl e) \<Longrightarrow> raises (call ev f) e"
  by (simp add: raises_def call_def split: prod.splits) (metis fst_conv)

lemma raises_lift: "r = Inl e \<Longrightarrow> raises (lift r) e"
  by (simp add: raises_def lift_def)

lemma raises_bnd1: "raises m e \<Longrightarrow> raises (bnd m f) e"
  by (auto simp: raises_def bnd_def split: prod.splits sum.splits) (metis fst_conv sum.inject(1) Inl_Inr_False)+

lemma raises_bnd2: "always m x \<Longrightarrow> raises (f x) e \<Longrightarrow> raises (bnd m f) e"
  by (auto simp: always_def raises_def bnd_def split: prod.splits sum.splits) (metis fst_conv sum.inject Inl_Inr_False)+

lemma always_try_handler:
  "raises m ValueError \<Longrightarrow> always h x \<Longrightarrow> always (try_except_ValueError m h) x"
  by (auto simp: always_def raises_def try_except_ValueError_def split: prod.splits sum.splits)
     (metis fst_conv sum.inject Inl_Inr_False)+

lemma alwaysD: "always m x \<Longrightarrow> \<exists>s'. m s = (Inr x, s')"
  by (metis always_def prod.collapse)

section \<open>Properties of JRD\_sampling\<close>

lemma emits_plot_iteration: "emits (plot_iteration L X Y) [EvPlotFrame]"
proof -
  have "emits (plot_iteration L X Y) ([] @ [] @ [] @ [] @ [] @ [] @ [EvPlotFrame])"
    unfolding plot_iteration_def by (intro emits_intros)
  then show ?thesis by simp
qed

lemma emits_JRD_iteration:
  "emits (JRD_iteration L X Y sigma alpha weighted n_rff plot st) (iteration_events plot)"
proof -
  have "emits (JRD_iteration L X Y sigma alpha weighted n_rff plot st)
     ([EvZeroGrad] @ [] @ [] @ [EvDivergence] @ [EvBackward] @ [EvStep] @ [] @
        (if plot then [EvPlotFrame] else []) @ [])"
    unfolding JRD_iteration_def Let_def
    by (intro emits_intros emits_plot_iteration)
  then show ?thesis by (simp add: iteration_events_def)
qed

lemma emits_JRD_loop:
  "emits (JRD_loop L X Y sigma alpha weighted n_rff plot k st)
     (concat (replicate k (iteration_events plot)))"
proof (induction k arbitrary: st)
  case 0
  show ?case by (simp add: emits_ret)
next
  case (Suc k)
  show ?case
    using emits_bnd[OF emits_JRD_iteration, of _ "concat (replicate k (iteration_events plot))",
        OF Suc]
    by simp
qed

lemma emits_JRD_init: "emits (JRD_init L X n_samples lr plot) (init_events plot)"
proof -
  have "emits (JRD_init L X n_samples lr plot)
     ([] @ [EvUniform] @ [] @ [] @ [] @ [EvAdam] @ (if plot then [EvSubplots] else []) @ [])"
    unfolding JRD_init_def Let_def
    by (intro emits_intros)
  then show ?thesis by (simp add: init_events_def)
qed

lemma emits_JRD_sampling:
  "emits (JRD_sampling L X n_samples sigma alpha lr n_iter weighted n_rff plot)
     (init_events plot @ concat (replicate (nat n_iter) (iteration_events plot)))"
proof -
  have "emits (JRD_sampling L X n_samples sigma alpha lr n_iter weighted n_rff plot)
     (init_events plot @ concat (replicate (nat n_iter) (iteration_events plot)) @ [])"
    unfolding JRD_sampling_def
    by (intro emits_intros emits_JRD_init emits_JRD_loop)
  then show ?thesis by simp
qed

lemma count_list_concat_replicate:
  "count_list (concat (replicate k xs)) x = k * count_list xs x"
  by (induction k) simp_all

lemma count_list_prefix: "prefix es evs \<Longrightarrow> count_list es x \<le> count_list evs x"
  by (auto simp: prefix_def)

lemma writes_only_JRD_init: "writes_only {} (JRD_init L X n_samples lr plot)"
  unfolding JRD_init_def Let_def by (intro writes_only_intros)

lemma writes_only_plot_iteration: "writes_only A (plot_iteration L X Y)"
  unfolding plot_iteration_def by (intro writes_only_intros)

lemma writes_only_JRD_iteration:
  "writes_only {Y} (JRD_iteration L X Y sigma alpha weighted n_rff plot st)"
  unfolding JRD_iteration_def Let_def
  by (intro writes_only_intros writes_only_store writes_only_plot_iteration) simp

lemma writes_only_JRD_loop:
  "writes_only {Y} (JRD_loop L X Y sigma alpha weighted n_rff plot k st)"
proof (induction k arbitrary: st)
  case 0
  show ?case by (simp add: writes_only_ret)
next
  case (Suc k)
  show ?case
    using writes_only_bnd[OF writes_only_JRD_iteration, of Y _ L X, OF Suc]
    by simp
qed

lemma JRD_init_Inr:
  assumes "JRD_init L X n_samples lr plot s = (Inr (Y, opt), s1)"
  shows "X < length (heap s) \<and> Y = length (heap s) \<and>
    (\<exists>Y0 w1 w2. np_random_uniform L (- 2.0) 2.0 (n_samples, shape1 (heap s ! X)) (world s)
         = (Inr Y0, w1) \<and>
       torch_optim_Adam L lr w1 = (Inr opt, w2) \<and>
       dtype Y0 \<noteq> Object \<and> is_floating (dtype (heap s ! X)) \<and>
       heap s1 = heap s @ [NDArray (dtype (heap s ! X)) (shape1 Y0) (rows Y0)] \<and>
       (\<not> plot \<longrightarrow> world s1 = w2))"
  using assms
  by (auto simp: JRD_init_def Let_def run_Inr torch_from_numpy_def
      torch_tensor_requires_grad_def split: if_splits)

lemma writes_onlyD:
  assumes "writes_only A m" and "m s = (r, s')"
  shows "length (heap s) \<le> length (heap s')"
    and "\<And>p. p < length (heap s) \<Longrightarrow> p \<notin> A \<Longrightarrow> heap s' ! p = heap s ! p"
  using assms unfolding writes_only_def by blast+

lemma JRD_sampling_frame:
  assumes run: "JRD_sampling L X n_samples sigma alpha lr n_iter weighted n_rff plot s = (r, s')"
  shows "length (heap s) \<le> length (heap s') \<and>
    (\<forall>p<length (heap s). heap s' ! p = heap s ! p)"
proof -
  from run [unfolded JRD_sampling_def] show ?thesis
  proof (cases rule: bndE)
    case (fail e)
    from writes_onlyD[OF writes_only_JRD_init fail(1)] show ?thesis
      by simp
  next
    case (ok x s1)
    obtain Y opt where x: "x = (Y, opt)" by (cases x)
    from JRD_init_Inr[OF ok(1)[unfolded x]] have Y: "Y = length (heap s)"
      by simp
    note 1 = writes_onlyD[OF writes_only_JRD_init ok(1)]
    have w: "writes_only {Y} (bnd (JRD_loop L X Y sigma alpha weighted n_rff plot (nat n_iter) (opt, None))
        (\<lambda>_. ret Y))"
      by (intro writes_only_intros writes_only_JRD_loop)
    from ok(2) have run2: "bnd (JRD_loop L X Y sigma alpha weighted n_rff plot (nat n_iter) (opt, None))
        (\<lambda>_. ret Y) s1 = (r, s')"
      by (simp add: x)
    note 2 = writes_onlyD[OF w run2]
    show ?thesis
    proof (intro conjI allI impI)
      show "length (heap s) \<le> length (heap s')"
        using 1(1) 2(1) by simp
    next
      fix p assume p: "p < length (heap s)"
      then have "heap s' ! p = heap s1 ! p"
        using 2(2)[of p] 1(1) Y by simp
      also have "\<dots> = heap s ! p"
        using 1(2)[of p] p by simp
      finally show "heap s' ! p = heap s ! p" .
    qed
  qed
qed

lemma plain_run:
  "fst (JRD_sampling plain_lib 0 2 1 1.01 0.1 3 False None False moons) = Inr 1"
  by (simp add: JRD_sampling_def JRD_init_def lift_def torch_from_numpy_def
      torch_tensor_requires_grad_def is_floating_def JRD_iteration_def bnd_def call_def emit_def
      load_def store_def alloc_def ret_def plain_lib_def moons_def accumulate_def
      descend_def numeral_3_eq_3 Let_def)

text \<open>
  C8: \<open>JRD_sampling\<close> leaves its input unchanged. Whatever the outcome of the call, the
  buffer of \<open>X\<close> and every other buffer that existed before the call hold the values
  they held; the array returned is a new buffer, the one of \<open>Y\<close>, which is the only
  buffer the optimizer writes.
\<close>

theorem JRD_sampling_leaves_X:
  assumes "JRD_sampling L X n_samples sigma alpha lr n_iter weighted n_rff plot s = (r, s')"
  shows "heap s' ! X = heap s ! X \<and> take (length (heap s)) (heap s') = heap s \<and>
    (\<forall>Y. r = Inr Y \<longrightarrow> Y = length (heap s) \<and> Y \<noteq> X)"
proof -
  from JRD_sampling_frame[OF assms]
  have len: "length (heap s) \<le> length (heap s')"
    and same: "\<forall>p<length (heap s). heap s' ! p = heap s ! p" by blast+
  have tk: "take (length (heap s)) (heap s') = heap s"
    using len same by (auto intro: nth_equalityI)
  have fresh: "Y = length (heap s) \<and> X < length (heap s)" if "r = Inr Y" for Y
    using assms that JRD_init_Inr[of L X n_samples lr plot s]
    by (auto simp: JRD_sampling_def run_Inr)
  have X: "heap s' ! X = heap s ! X"
  proof (cases "X < length (heap s)")
    case True
    with same show ?thesis by blast
  next
    case False
    then have "JRD_sampling L X n_samples sigma alpha lr n_iter weighted n_rff plot s
        = (Inl NameError, s)"
      by (simp add: JRD_sampling_def JRD_init_def lift_def torch_from_numpy_def
      torch_tensor_requires_grad_def is_floating_def bnd_def load_def)
    with assms show ?thesis by simp
  qed
  from X tk fresh show ?thesis by auto
qed

theorem JRD_sampling_leaves_X_witness:
  "heap (snd (JRD_sampling plain_lib 0 2 1 1.01 0.1 3 False None False moons)) ! 0
      = NDArray Float64 2 [[0, 1], [1, 0], [1, 1]]"
proof -
  obtain s' where run: "JRD_sampling plain_lib 0 2 1 1.01 0.1 3 False None False moons = (Inr 1, s')"
    using plain_run by (metis prod.collapse)
  from JRD_sampling_leaves_X[OF run] have "heap s' ! 0 = heap moons ! 0"
    by simp
  then show ?thesis
    using run by (simp add: moons_def)
qed

lemma JRD_iteration_Inr:
  assumes "JRD_iteration L X Y sigma alpha weighted n_rff plot (opt, g0) s = (Inr (opt', g'), s')"
    and "X \<noteq> Y"
  shows "X < length (heap s) \<and> Y < length (heap s) \<and>
    (\<exists>Yn w3.
       gd_step L (heap s ! X) sigma alpha weighted n_rff (heap s ! Y, opt, world s)
         = Some (Yn, opt', w3) \<and>
       show_frame L plot (heap s ! X) Yn w3 = Some (world s') \<and>
       heap s' = (heap s)[Y := Yn] \<and>
       (\<exists>w2 g. adam_step L opt (heap s ! Y) (Some g) w2 = (Inr (Yn, opt'), w3)))"
  using assms
  apply (simp add: JRD_iteration_def run_Inr Let_def accumulate_def gd_step_def show_frame_def
      plot_iteration_def split: if_splits prod.splits)
   apply (auto simp: run_Inr column_Inr)
    apply (simp_all add: column_def)
   apply blast+
  done


lemma JRD_loop_gd:
  assumes "JRD_loop L X Y sigma alpha weighted n_rff plot k (opt, g0) s = (Inr (opt', g'), s')"
    and "X \<noteq> Y" and "X < length (heap s)" and "Y < length (heap s)"
  shows "gd_descent L plot (heap s ! X) sigma alpha weighted n_rff k (heap s ! Y, opt, world s)
           = Some (heap s' ! Y, opt', world s') \<and>
         length (heap s') = length (heap s) \<and> heap s' ! X = heap s ! X"
  using assms
proof (induction k arbitrary: opt g0 s)
  case 0
  then show ?case by (simp add: ret_def)
next
  case (Suc k)
  from Suc.prems(1) obtain st1 s1 where
    it: "JRD_iteration L X Y sigma alpha weighted n_rff plot (opt, g0) s = (Inr st1, s1)" and
    lp: "JRD_loop L X Y sigma alpha weighted n_rff plot k st1 s1 = (Inr (opt', g'), s')"
    by (auto simp: bnd_Inr)
  obtain opt1 g1 where st1: "st1 = (opt1, g1)" by (cases st1)
  from JRD_iteration_Inr[OF it[unfolded st1] Suc.prems(2)] obtain Yn w3 where
    gd: "gd_step L (heap s ! X) sigma alpha weighted n_rff (heap s ! Y, opt, world s)
         = Some (Yn, opt1, w3)" and
    sh: "show_frame L plot (heap s ! X) Yn w3 = Some (world s1)" and
    hp: "heap s1 = (heap s)[Y := Yn]"
    by blast
  have X1: "heap s1 ! X = heap s ! X" and Y1: "heap s1 ! Y = Yn"
    and len1: "length (heap s1) = length (heap s)"
    using hp Suc.prems(2,3,4) by simp_all
  from Suc.IH[OF lp[unfolded st1] Suc.prems(2)] Suc.prems(3,4) len1
  have ih: "gd_descent L plot (heap s1 ! X) sigma alpha weighted n_rff k (heap s1 ! Y, opt1, world s1)
           = Some (heap s' ! Y, opt', world s')"
    "length (heap s') = length (heap s1)" "heap s' ! X = heap s1 ! X"
    by simp_all
  show ?case
    using gd sh ih X1 Y1 len1 by simp
qed

lemma JRD_loop_shape:
  assumes "JRD_loop L X Y sigma alpha weighted n_rff plot k (opt, g0) s = (Inr (opt', g'), s')"
    and "X \<noteq> Y" and "Y < length (heap s)" and "step_keeps_shape L"
  shows "shape0 (heap s' ! Y) = shape0 (heap s ! Y) \<and> shape1 (heap s' ! Y) = shape1 (heap s ! Y)"
  using assms(1,3)
proof (induction k arbitrary: opt g0 s)
  case 0
  then show ?case by (simp add: ret_def)
next
  case (Suc k)
  from Suc.prems(1) obtain st1 s1 where
    it: "JRD_iteration L X Y sigma alpha weighted n_rff plot (opt, g0) s = (Inr st1, s1)" and
    lp: "JRD_loop L X Y sigma alpha weighted n_rff plot k st1 s1 = (Inr (opt', g'), s')"
    by (auto simp: bnd_Inr)
  obtain opt1 g1 where st1: "st1 = (opt1, g1)" by (cases st1)
  from JRD_iteration_Inr[OF it[unfolded st1] assms(2)] obtain Yn w3 w2 g where
    hp: "heap s1 = (heap s)[Y := Yn]" and
    ad: "adam_step L opt (heap s ! Y) (Some g) w2 = (Inr (Yn, opt1), w3)"
    by blast
  from ad assms(4) have sh: "shape0 Yn = shape0 (heap s ! Y)" "shape1 Yn = shape1 (heap s ! Y)"
    unfolding step_keeps_shape_def by blast+
  have Y1: "heap s1 ! Y = Yn" and len1: "Y < length (heap s1)"
    using hp Suc.prems(2) by simp_all
  from Suc.IH[OF lp[unfolded st1] len1] sh Y1 show ?case by simp
qed








lemma bnd_run: "m s = (Inr x, s1) \<Longrightarrow> bnd m f s = f x s1"
  by (simp add: bnd_def)

lemma JRD_sampling_Inr:
  assumes "JRD_sampling L X n_samples sigma alpha lr n_iter weighted n_rff plot s = (Inr Y, s')"
  shows "\<exists>opt s1 opt' g'. JRD_init L X n_samples lr plot s = (Inr (Y, opt), s1) \<and>
     JRD_loop L X Y sigma alpha weighted n_rff plot (nat n_iter) (opt, None) s1
       = (Inr (opt', g'), s')"
proof -
  from assms[unfolded JRD_sampling_def] show ?thesis
  proof (cases rule: bndE)
    case (fail e)
    then show ?thesis by simp
  next
    case (ok x s1)
    obtain Y' opt where x: "x = (Y', opt)" by (cases x)
    from ok(2) have "bnd (JRD_loop L X Y' sigma alpha weighted n_rff plot (nat n_iter) (opt, None))
        (\<lambda>_. ret Y') s1 = (Inr Y, s')"
      by (simp add: x)
    then show ?thesis
    proof (cases rule: bndE)
      case (fail e)
      then show ?thesis by simp
    next
      case inner: (ok st' s2)
      obtain opt' g' where st': "st' = (opt', g')" by (cases st')
      from inner(2) have "Y' = Y" "s2 = s'"
        by (simp_all add: ret_def)
      with ok(1) inner(1) x st' show ?thesis by simp
    qed
  qed
qed

lemma JRD_init_shape:
  assumes i: "JRD_init L X n_samples lr plot s = (Inr (Y, opt), s1)" and U: "uniform_in_range L"
  shows "shape0 (heap s1 ! Y) = n_samples" and "shape1 (heap s1 ! Y) = shape1 (heap s ! X)"
proof -
  from JRD_init_Inr[OF i] obtain Y0 w1 where
    Y: "Y = length (heap s)" and
    u: "np_random_uniform L (- 2.0) 2.0 (n_samples, shape1 (heap s ! X)) (world s) = (Inr Y0, w1)" and
    hp: "heap s1 = heap s @ [NDArray (dtype (heap s ! X)) (shape1 Y0) (rows Y0)]"
    by blast
  have lt: "(- 2.0 :: real) < 2.0" by simp
  from U lt u have "shape0 Y0 = n_samples \<and> shape1 Y0 = shape1 (heap s ! X)"
    unfolding uniform_in_range_def by blast
  moreover have "heap s1 ! Y = NDArray (dtype (heap s ! X)) (shape1 Y0) (rows Y0)"
    using Y hp by simp
  ultimately show "shape0 (heap s1 ! Y) = n_samples"
    and "shape1 (heap s1 ! Y) = shape1 (heap s ! X)"
    by (simp_all add: shape0_def)
qed

lemma JRD_sampling_Inr_shape:
  assumes U: "uniform_in_range L" and K: "step_keeps_shape L"
    and run: "JRD_sampling L X n_samples sigma alpha lr n_iter weighted n_rff plot s = (Inr Y, s')"
  shows "Y < length (heap s') \<and> Y \<noteq> X \<and> shape0 (heap s' ! Y) = n_samples \<and>
       shape1 (heap s' ! Y) = shape1 (heap s ! X)"
proof -
  from JRD_sampling_Inr[OF run] obtain opt s1 opt' g' where
    i: "JRD_init L X n_samples lr plot s = (Inr (Y, opt), s1)" and
    l: "JRD_loop L X Y sigma alpha weighted n_rff plot (nat n_iter) (opt, None) s1
       = (Inr (opt', g'), s')"
    by blast
  from JRD_init_Inr[OF i] have X: "X < length (heap s)" and Y: "Y = length (heap s)"
    and len1: "length (heap s1) = Suc (length (heap s))"
    by auto
  note sh1 = JRD_init_shape[OF i U]
  have XY: "X \<noteq> Y" and Y1: "Y < length (heap s1)" and X1: "X < length (heap s1)"
    using X Y len1 by simp_all
  from JRD_loop_gd[OF l XY X1 Y1] have len': "length (heap s') = length (heap s1)"
    by simp
  from JRD_loop_shape[OF l XY Y1 K] sh1 len' Y1 XY
  show ?thesis
    by simp
qed





lemma lib_returns_plain: "lib_returns plain_lib"
  by (simp add: lib_returns_def plain_lib_def)













section \<open>The number of iterations\<close>

lemma tallied_ret: "tallied (ret x)"
  by (simp add: tallied_def ret_def)

lemma tallied_lift: "tallied (lift r)"
  by (simp add: tallied_def lift_def)

lemma tallied_load: "tallied (load p)"
  by (auto simp: tallied_def load_def split: if_splits)

lemma tallied_store: "tallied (store p a)"
  by (auto simp: tallied_def store_def split: if_splits)

lemma tallied_alloc: "tallied (alloc a)"
  by (auto simp: tallied_def alloc_def)

lemma tallied_emit: "ev \<noteq> EvDivergence \<Longrightarrow> ev \<noteq> EvStep \<Longrightarrow> tallied (emit ev)"
  by (auto simp: tallied_def emit_def)

lemma tallied_through:
  "ev \<noteq> EvDivergence \<Longrightarrow> ev \<noteq> EvStep \<Longrightarrow> tallied (call ev (through f))"
  by (auto simp: tallied_def call_def through_def evaluations_def steps_def split: prod.splits)

lemma tallied_eval: "tallied (call EvDivergence (tick_eval f))"
  by (auto simp: tallied_def call_def tick_eval_def evaluations_def steps_def split: prod.splits)

lemma tallied_step: "tallied (call EvStep (tick_step f))"
  by (auto simp: tallied_def call_def tick_step_def evaluations_def steps_def split: prod.splits)

lemma tallied_bnd:
  assumes m: "tallied m" and f: "\<And>x. tallied (f x)"
  shows "tallied (bnd m f)"
  unfolding tallied_def
proof (intro allI impI)
  fix s r s'
  assume run: "bnd m f s = (r, s')"
  then show "\<exists>es. trace s' = trace s @ es \<and>
        evaluations (world s') = evaluations (world s) + count_list es EvDivergence \<and>
        steps (world s') = steps (world s) + count_list es EvStep"
  proof (cases rule: bndE)
    case (fail e)
    with m show ?thesis unfolding tallied_def by blast
  next
    case (ok x s1)
    from m ok(1) obtain e1 where 1: "trace s1 = trace s @ e1"
      "evaluations (world s1) = evaluations (world s) + count_list e1 EvDivergence"
      "steps (world s1) = steps (world s) + count_list e1 EvStep"
      unfolding tallied_def by blast
    from f[of x] ok(2) obtain e2 where 2: "trace s' = trace s1 @ e2"
      "evaluations (world s') = evaluations (world s1) + count_list e2 EvDivergence"
      "steps (world s') = steps (world s1) + count_list e2 EvStep"
      unfolding tallied_def by blast
    show ?thesis
    proof (intro exI conjI)
      show "trace s' = trace s @ (e1 @ e2)" using 1(1) 2(1) by simp
      show "evaluations (world s') = evaluations (world s) + count_list (e1 @ e2) EvDivergence"
        using 1(2) 2(2) by simp
      show "steps (world s') = steps (world s) + count_list (e1 @ e2) EvStep"
        using 1(3) 2(3) by simp
    qed
  qed
qed

lemma tallied_case_prod:
  assumes "\<And>a b. tallied (f a b)"
  shows "tallied (case x of (a, b) \<Rightarrow> f a b)"
  using assms by (cases x) simp

lemma tallied_if:
  assumes "tallied a" and "tallied b"
  shows "tallied (if c then a else b)"
  using assms by simp

lemmas tallied_intros = tallied_bnd tallied_case_prod tallied_if tallied_ret tallied_lift
  tallied_load tallied_store tallied_alloc tallied_eval tallied_step

lemma counted_simps:
  "np_random_uniform (counted L) lo hi sz = through (np_random_uniform L lo hi sz)"
  "torch_optim_Adam (counted L) lr = through (torch_optim_Adam L lr)"
  "divergenceJR (counted L) X Y sigma alpha weighted n_rff
     = tick_eval (divergenceJR L X Y sigma alpha weighted n_rff)"
  "backward (counted L) t = through (backward L t)"
  "adam_step (counted L) opt p g = tick_step (adam_step L opt p g)"
  "plt_subplots (counted L) = through (plt_subplots L)"
  "draw_frame (counted L) x0 x1 y0 y1 = through (draw_frame L x0 x1 y0 y1)"
  by (simp_all add: counted_def)

lemma tallied_plot_iteration: "tallied (plot_iteration (counted L) X Y)"
  unfolding plot_iteration_def counted_simps
  by (intro tallied_intros tallied_through) simp_all

lemma tallied_JRD_iteration:
  "tallied (JRD_iteration (counted L) X Y sigma alpha weighted n_rff plot st)"
  unfolding JRD_iteration_def Let_def counted_simps
  by (intro tallied_intros tallied_through tallied_emit tallied_plot_iteration) simp_all

lemma tallied_JRD_loop:
  "tallied (JRD_loop (counted L) X Y sigma alpha weighted n_rff plot k st)"
proof (induction k arbitrary: st)
  case 0
  show ?case by (simp add: tallied_ret)
next
  case (Suc k)
  show ?case
    unfolding JRD_loop.simps
    by (rule tallied_bnd) (rule tallied_JRD_iteration, rule Suc)
qed

lemma tallied_JRD_init: "tallied (JRD_init (counted L) X n_samples lr plot)"
  unfolding JRD_init_def Let_def counted_simps
  by (intro tallied_intros tallied_through) simp_all

lemma tallied_JRD_sampling:
  "tallied (JRD_sampling (counted L) X n_samples sigma alpha lr n_iter weighted n_rff plot)"
  unfolding JRD_sampling_def
  by (intro tallied_intros tallied_JRD_init tallied_JRD_loop)

lemma count_full:
  "count_list (init_events plot @ concat (replicate k (iteration_events plot))) EvDivergence = k"
  "count_list (init_events plot @ concat (replicate k (iteration_events plot))) EvStep = k"
  by (simp_all add: count_list_concat_replicate init_events_def iteration_events_def)

lemma JRD_sampling_counts:
  assumes run: "JRD_sampling (counted L) X n_samples sigma alpha lr n_iter weighted n_rff plot s
     = (r, s')"
  shows "evaluations (world s') \<le> evaluations (world s) + nat n_iter"
    and "steps (world s') \<le> steps (world s) + nat n_iter"
    and "r = Inr Y \<Longrightarrow> evaluations (world s') = evaluations (world s) + nat n_iter"
    and "r = Inr Y \<Longrightarrow> steps (world s') = steps (world s) + nat n_iter"
    and "r = Inr Y \<Longrightarrow> trace s' = trace s @ init_events plot @
           concat (replicate (nat n_iter) (iteration_events plot))"
proof -
  let ?full = "init_events plot @ concat (replicate (nat n_iter) (iteration_events plot))"
  from tallied_JRD_sampling run obtain es where
    es: "trace s' = trace s @ es" and
    ev: "evaluations (world s') = evaluations (world s) + count_list es EvDivergence" and
    st: "steps (world s') = steps (world s) + count_list es EvStep"
    unfolding tallied_def by blast
  from emits_JRD_sampling run obtain es' where es': "trace s' = trace s @ es'" "prefix es' ?full"
    by (rule emits_any)
  from es es'(1) have eq: "es' = es" by simp
  have le: "count_list es EvDivergence \<le> nat n_iter" "count_list es EvStep \<le> nat n_iter"
    using count_list_prefix[OF es'(2)[unfolded eq], of EvDivergence, unfolded count_full]
      count_list_prefix[OF es'(2)[unfolded eq], of EvStep, unfolded count_full]
    by this+
  show "evaluations (world s') \<le> evaluations (world s) + nat n_iter"
    and "steps (world s') \<le> steps (world s) + nat n_iter"
    using ev st le by simp_all
  have full: "es = ?full" if "r = Inr Y"
    using emits_Inr[OF emits_JRD_sampling run[unfolded that]] es by simp
  show "r = Inr Y \<Longrightarrow> evaluations (world s') = evaluations (world s) + nat n_iter"
    using ev full count_full(1)[of plot "nat n_iter"] by simp
  show "r = Inr Y \<Longrightarrow> steps (world s') = steps (world s) + nat n_iter"
    using st full count_full(2)[of plot "nat n_iter"] by simp
  show "r = Inr Y \<Longrightarrow> trace s' = trace s @ ?full"
    using es full by simp
qed


lemma simulates_ret: "simulates (ret x) (ret x)"
  by (simp add: simulates_def ret_def)

lemma simulates_lift: "simulates (lift r) (lift r)"
  by (simp add: simulates_def lift_def)

lemma simulates_load: "simulates (load p) (load p)"
  by (auto simp: simulates_def load_def uncount_def split: if_splits)

lemma simulates_store: "simulates (store p a) (store p a)"
  by (auto simp: simulates_def store_def uncount_def split: if_splits)

lemma simulates_alloc: "simulates (alloc a) (alloc a)"
  by (auto simp: simulates_def alloc_def uncount_def)

lemma simulates_emit: "simulates (emit ev) (emit ev)"
  by (auto simp: simulates_def emit_def uncount_def)

lemma simulates_through: "simulates (call ev f) (call ev (through f))"
  by (auto simp: simulates_def call_def through_def uncount_def split: prod.splits)

lemma simulates_eval: "simulates (call ev f) (call ev (tick_eval f))"
  by (auto simp: simulates_def call_def tick_eval_def uncount_def split: prod.splits)

lemma simulates_step: "simulates (call ev f) (call ev (tick_step f))"
  by (auto simp: simulates_def call_def tick_step_def uncount_def split: prod.splits)

lemma simulates_bnd:
  assumes m: "simulates m mc" and f: "\<And>x. simulates (f x) (fc x)"
  shows "simulates (bnd m f) (bnd mc fc)"
  unfolding simulates_def
proof (intro allI impI)
  fix s r s'
  assume run: "bnd mc fc s = (r, s')"
  then show "bnd m f (uncount s) = (r, uncount s')"
  proof (cases rule: bndE)
    case (fail e)
    with m have "m (uncount s) = (Inl e, uncount s')"
      unfolding simulates_def by blast
    with fail(2) show ?thesis by (simp add: bnd_def)
  next
    case (ok x s1)
    with m have "m (uncount s) = (Inr x, uncount s1)"
      unfolding simulates_def by blast
    moreover from f[of x] ok(2) have "f x (uncount s1) = (r, uncount s')"
      unfolding simulates_def by blast
    ultimately show ?thesis by (simp add: bnd_def)
  qed
qed

lemma simulates_case_prod:
  assumes "\<And>a b. simulates (f a b) (fc a b)"
  shows "simulates (case x of (a, b) \<Rightarrow> f a b) (case x of (a, b) \<Rightarrow> fc a b)"
  using assms by (cases x) simp

lemma simulates_if:
  assumes "simulates a ac" and "simulates b bc"
  shows "simulates (if c then a else b) (if c then ac else bc)"
  using assms by simp

lemmas simulates_intros = simulates_bnd simulates_case_prod simulates_if simulates_ret
  simulates_lift simulates_load simulates_store simulates_alloc simulates_emit
  simulates_through simulates_eval simulates_step

lemma simulates_plot_iteration:
  "simulates (plot_iteration L X Y) (plot_iteration (counted L) X Y)"
  unfolding plot_iteration_def counted_simps
  by (intro simulates_intros)

lemma simulates_JRD_iteration:
  "simulates (JRD_iteration L X Y sigma alpha weighted n_rff plot st)
     (JRD_iteration (counted L) X Y sigma alpha weighted n_rff plot st)"
  unfolding JRD_iteration_def Let_def counted_simps
  by (intro simulates_intros simulates_plot_iteration)

lemma simulates_JRD_loop:
  "simulates (JRD_loop L X Y sigma alpha weighted n_rff plot k st)
     (JRD_loop (counted L) X Y sigma alpha weighted n_rff plot k st)"
proof (induction k arbitrary: st)
  case 0
  show ?case by (simp add: simulates_ret)
next
  case (Suc k)
  show ?case
    unfolding JRD_loop.simps
    by (rule simulates_bnd) (rule simulates_JRD_iteration, rule Suc)
qed

lemma simulates_JRD_init:
  "simulates (JRD_init L X n_samples lr plot) (JRD_init (counted L) X n_samples lr plot)"
  unfolding JRD_init_def Let_def counted_simps
  by (intro simulates_intros)

lemma simulates_JRD_sampling:
  "simulates (JRD_sampling L X n_samples sigma alpha lr n_iter weighted n_rff plot)
     (JRD_sampling (counted L) X n_samples sigma alpha lr n_iter weighted n_rff plot)"
  unfolding JRD_sampling_def
  by (intro simulates_intros simulates_JRD_init simulates_JRD_loop)

lemma JRD_sampling_call_counts:
  assumes "JRD_sampling_call (counted L) Xv n_samples sigma alpha n_rff s = (Inr Yv, s')"
  shows "evaluations (world s') = evaluations (world s) + 120"
    and "steps (world s') = steps (world s) + 120"
proof -
  from assms obtain Y s1 where
    run: "JRD_sampling (counted L) (length (heap s)) n_samples sigma alpha 0.1 default_n_iter True
       n_rff False (s\<lparr>heap := heap s @ [Xv]\<rparr>) = (Inr Y, s1)" and
    s': "s' = s1"
    by (auto simp: JRD_sampling_call_def run_Inr)
  have n: "nat default_n_iter = 120"
    by (simp add: default_n_iter_def)
  from JRD_sampling_counts(3,4)[OF run, of Y] n s'
  show "evaluations (world s') = evaluations (world s) + 120"
    and "steps (world s') = steps (world s) + 120"
    by simp_all
qed

text \<open>
  C7, as amended: the loop of \<open>JRD_sampling\<close> is a recursion on \<open>n_iter\<close> (no turn for
  a negative \<open>n_iter\<close>, as \<^verbatim>\<open>range\<close> is empty then), so every call ends. Run on a
  library that counts the calls of \<open>divergenceJR\<close> and of \<open>optimizer.step\<close>, which
  otherwise behaves as the library it wraps, a call that returns has evaluated the
  divergence and stepped the optimizer exactly \<open>n_iter\<close> times each, 120 times in the
  calls of the pipeline, which leave \<open>n_iter\<close> at its default. Nothing in the function
  leaves the loop early but an exception, of a library or of the plotting: a call that
  raises has made at most \<open>n_iter\<close> evaluations and steps.
\<close>

theorem JRD_sampling_iterations:
  "(\<forall>r s'. JRD_sampling (counted L) X n_samples sigma alpha lr n_iter weighted n_rff plot s
        = (r, s') \<longrightarrow>
      JRD_sampling L X n_samples sigma alpha lr n_iter weighted n_rff plot (uncount s)
        = (r, uncount s') \<and>
      evaluations (world s') \<le> evaluations (world s) + nat n_iter \<and>
      steps (world s') \<le> steps (world s) + nat n_iter \<and>
      (\<forall>Y. r = Inr Y \<longrightarrow>
         evaluations (world s') = evaluations (world s) + nat n_iter \<and>
         steps (world s') = steps (world s) + nat n_iter \<and>
         trace s' = trace s @ init_events plot @
           concat (replicate (nat n_iter) (iteration_events plot)))) \<and>
   (\<forall>Xv Yv s'. JRD_sampling_call (counted L) Xv n_samples sigma alpha n_rff s = (Inr Yv, s') \<longrightarrow>
      evaluations (world s') = evaluations (world s) + 120 \<and>
      steps (world s') = steps (world s) + 120)"
proof (intro conjI allI impI)
  fix r s'
  assume run: "JRD_sampling (counted L) X n_samples sigma alpha lr n_iter weighted n_rff plot s
        = (r, s')"
  from simulates_JRD_sampling run
  show "JRD_sampling L X n_samples sigma alpha lr n_iter weighted n_rff plot (uncount s)
        = (r, uncount s')"
    unfolding simulates_def by blast
  show "evaluations (world s') \<le> evaluations (world s) + nat n_iter"
    by (rule JRD_sampling_counts(1)[OF run])
  show "steps (world s') \<le> steps (world s) + nat n_iter"
    by (rule JRD_sampling_counts(2)[OF run])
  fix Y
  assume r: "r = Inr Y"
  show "evaluations (world s') = evaluations (world s) + nat n_iter"
    by (rule JRD_sampling_counts(3)[OF run r])
  show "steps (world s') = steps (world s) + nat n_iter"
    by (rule JRD_sampling_counts(4)[OF run r])
  show "trace s' = trace s @ init_events plot @
           concat (replicate (nat n_iter) (iteration_events plot))"
    by (rule JRD_sampling_counts(5)[OF run r])
next
  fix Xv Yv s'
  assume run: "JRD_sampling_call (counted L) Xv n_samples sigma alpha n_rff s = (Inr Yv, s')"
  show "evaluations (world s') = evaluations (world s) + 120"
    by (rule JRD_sampling_call_counts(1)[OF run])
  show "steps (world s') = steps (world s) + 120"
    by (rule JRD_sampling_call_counts(2)[OF run])
qed

lemma counted_plain_run:
  "\<exists>s'. JRD_sampling (counted plain_lib) 0 2 1 1.01 0.1 3 False None False (counting moons)
     = (Inr 1, s')"
  by (simp add: JRD_sampling_def JRD_init_def lift_def torch_from_numpy_def
      torch_tensor_requires_grad_def is_floating_def JRD_iteration_def bnd_def call_def emit_def
      load_def store_def alloc_def ret_def plain_lib_def moons_def accumulate_def
      descend_def numeral_3_eq_3 Let_def counted_def through_def tick_eval_def tick_step_def
      counting_def)

theorem JRD_sampling_iterations_witness:
  "\<exists>s'. JRD_sampling (counted plain_lib) 0 2 1 1.01 0.1 3 False None False (counting moons)
       = (Inr 1, s') \<and>
     evaluations (world s') = 3 \<and> steps (world s') = 3 \<and>
     trace s' = [EvUniform, EvAdam, EvZeroGrad, EvDivergence, EvBackward, EvStep,
       EvZeroGrad, EvDivergence, EvBackward, EvStep, EvZeroGrad, EvDivergence, EvBackward, EvStep]"
proof -
  from counted_plain_run obtain s' where
    run: "JRD_sampling (counted plain_lib) 0 2 1 1.01 0.1 3 False None False (counting moons)
       = (Inr 1, s')"
    by blast
  from JRD_sampling_iterations[of plain_lib 0 2 1 "1.01" "0.1" 3 False None False "counting moons"]
    run
  have "evaluations (world s') = evaluations (world (counting moons)) + nat 3"
    "steps (world s') = steps (world (counting moons)) + nat 3"
    "trace s' = trace (counting moons) @ init_events False @
           concat (replicate (nat 3) (iteration_events False))"
    by blast+
  then have "evaluations (world s') = 3" "steps (world s') = 3"
    "trace s' = [EvUniform, EvAdam, EvZeroGrad, EvDivergence, EvBackward, EvStep,
       EvZeroGrad, EvDivergence, EvBackward, EvStep, EvZeroGrad, EvDivergence, EvBackward, EvStep]"
    by (simp_all add: counting_def moons_def evaluations_def steps_def init_events_def
        iteration_events_def numeral_3_eq_3)
  with run show ?thesis by blast
qed

text \<open>
  The claim C7 as it is written fails: with \<open>plot\<close> on and a point set of one column
  the call with the default \<open>n_iter = 120\<close> ends with IndexError in the first
  iteration, after one evaluation of the divergence and one step, although no call
  into the library raises.
\<close>

lemma bnd_fail: "m s = (Inl e, s1) \<Longrightarrow> bnd m f s = (Inl e, s1)"
  by (simp add: bnd_def)

theorem JRD_sampling_early_exit_counterexample:
  "lib_returns plain_lib \<and> nat default_n_iter = 120 \<and>
   (\<exists>s'. JRD_sampling (counted plain_lib) 0 1 default_sigma default_alpha default_lr
          default_n_iter False None True (counting line) = (Inl IndexError, s') \<and>
      evaluations (world s') = 1 \<and> steps (world s') = 1)"
proof -
  let ?S1 = "\<lparr> heap = [NDArray Float64 1 [[0], [1]], NDArray Float64 1 [[- 2]]],
        trace = [EvUniform, EvAdam, EvSubplots], fitted = [], world = (Suc 0, 0, 0) \<rparr>
        :: (nat \<times> nat \<times> nat) state"
  let ?S2 = "\<lparr> heap = [NDArray Float64 1 [[0], [1]],
          NDArray Float64 1 [[- 2 - default_lr * - 2]]],
        trace = [EvUniform, EvAdam, EvSubplots, EvZeroGrad, EvDivergence, EvBackward, EvStep],
        fitted = [], world = (Suc 0, Suc 0, Suc 0) \<rparr> :: (nat \<times> nat \<times> nat) state"
  have n: "nat default_n_iter = Suc 119"
    by (simp add: default_n_iter_def)
  have init: "JRD_init (counted plain_lib) 0 1 default_lr True (counting line)
      = (Inr (1, default_lr), ?S1)"
    by (simp add: JRD_init_def lift_def torch_from_numpy_def torch_tensor_requires_grad_def
        is_floating_def bnd_def call_def load_def alloc_def ret_def plain_lib_def line_def
        Let_def counted_def through_def counting_def)
  have it: "JRD_iteration (counted plain_lib) 0 1 default_sigma default_alpha False None True
       (default_lr, None) ?S1 = (Inl IndexError, ?S2)"
    by (simp add: JRD_iteration_def plot_iteration_def bnd_def call_def emit_def load_def
        store_def ret_def lift_def column_def plain_lib_def accumulate_def descend_def Let_def
        counted_def through_def tick_eval_def tick_step_def)
  have loop: "JRD_loop (counted plain_lib) 0 1 default_sigma default_alpha False None True
       (Suc 119) (default_lr, None) ?S1 = (Inl IndexError, ?S2)"
    unfolding JRD_loop.simps by (rule bnd_fail) (rule it)
  have "JRD_sampling (counted plain_lib) 0 1 default_sigma default_alpha default_lr
          default_n_iter False None True (counting line)
      = bnd (JRD_loop (counted plain_lib) 0 1 default_sigma default_alpha False None True
          (Suc 119) (default_lr, None)) (\<lambda>_. ret 1) ?S1"
    unfolding JRD_sampling_def n using init by (simp add: bnd_def)
  moreover have "bnd (JRD_loop (counted plain_lib) 0 1 default_sigma default_alpha False None
          True (Suc 119) (default_lr, None)) (\<lambda>_. ret 1) ?S1 = (Inl IndexError, ?S2)"
    by (rule bnd_fail) (rule loop)
  ultimately have run: "JRD_sampling (counted plain_lib) 0 1 default_sigma default_alpha
      default_lr default_n_iter False None True (counting line) = (Inl IndexError, ?S2)"
    by (simp only:)
  have c: "evaluations (world ?S2) = 1" "steps (world ?S2) = 1"
    by (simp_all add: evaluations_def steps_def)
  have "nat default_n_iter = 120"
    by (simp add: default_n_iter_def)
  with lib_returns_plain run c show ?thesis
    by blast
qed

section \<open>Properties of load\_dataset\<close>

lemma astype_int_Inr:
  "astype_int K cs = Inr vs \<longleftrightarrow> list_all2 (\<lambda>c v. py_int K c = Inr v) cs vs"
proof (induction cs arbitrary: vs)
  case Nil
  show ?case by auto
next
  case (Cons c cs)
  show ?case
    by (cases vs; cases "py_int K c"; cases "astype_int K cs") (simp_all add: Cons.IH[symmetric])
qed

lemma astype_int_Inl:
  "astype_int K cs = Inl e \<longleftrightarrow>
     (\<exists>i<length cs. py_int K (cs ! i) = Inl e \<and> (\<forall>j<i. \<exists>v. py_int K (cs ! j) = Inr v))"
proof (induction cs)
  case Nil
  show ?case by simp
next
  case (Cons c cs)
  show ?case
  proof (cases "py_int K c")
    case (Inl e')
    have "(\<exists>i<length (c # cs). py_int K ((c # cs) ! i) = Inl e \<and>
         (\<forall>j<i. \<exists>v. py_int K ((c # cs) ! j) = Inr v)) \<longleftrightarrow> e' = e"
    proof
      assume "\<exists>i<length (c # cs). py_int K ((c # cs) ! i) = Inl e \<and>
         (\<forall>j<i. \<exists>v. py_int K ((c # cs) ! j) = Inr v)"
      then obtain i where i: "py_int K ((c # cs) ! i) = Inl e"
        "\<forall>j<i. \<exists>v. py_int K ((c # cs) ! j) = Inr v"
        by blast
      show "e' = e"
      proof (cases i)
        case 0
        with i(1) Inl show ?thesis by simp
      next
        case (Suc k)
        with i(2) have "\<exists>v. py_int K ((c # cs) ! 0) = Inr v" by blast
        with Inl show ?thesis by simp
      qed
    next
      assume "e' = e"
      with Inl have "py_int K ((c # cs) ! 0) = Inl e \<and>
         (\<forall>j<0. \<exists>v. py_int K ((c # cs) ! j) = Inr v)"
        by simp
      then show "\<exists>i<length (c # cs). py_int K ((c # cs) ! i) = Inl e \<and>
         (\<forall>j<i. \<exists>v. py_int K ((c # cs) ! j) = Inr v)"
        by (intro exI[of _ 0]) simp
    qed
    with Inl show ?thesis by auto
  next
    case (Inr v)
    have "(\<exists>i<length (c # cs). py_int K ((c # cs) ! i) = Inl e \<and>
         (\<forall>j<i. \<exists>v. py_int K ((c # cs) ! j) = Inr v)) \<longleftrightarrow>
       (\<exists>i<length cs. py_int K (cs ! i) = Inl e \<and> (\<forall>j<i. \<exists>v. py_int K (cs ! j) = Inr v))"
      (is "?L \<longleftrightarrow> ?R")
    proof
      assume ?L
      then obtain i where i: "i < length (c # cs)" "py_int K ((c # cs) ! i) = Inl e"
        "\<forall>j<i. \<exists>v. py_int K ((c # cs) ! j) = Inr v"
        by blast
      from i(2) Inr obtain k where k: "i = Suc k" by (cases i) auto
      have "\<forall>j<k. \<exists>v. py_int K (cs ! j) = Inr v"
      proof (intro allI impI)
        fix j assume "j < k"
        then have "Suc j < i" using k by simp
        with i(3) have "\<exists>v. py_int K ((c # cs) ! Suc j) = Inr v" by blast
        then show "\<exists>v. py_int K (cs ! j) = Inr v" by simp
      qed
      with i(1,2) k show ?R by auto
    next
      assume ?R
      then obtain i where i: "i < length cs" "py_int K (cs ! i) = Inl e"
        "\<forall>j<i. \<exists>v. py_int K (cs ! j) = Inr v"
        by blast
      have "\<forall>j<Suc i. \<exists>v. py_int K ((c # cs) ! j) = Inr v"
      proof (intro allI impI)
        fix j assume j: "j < Suc i"
        show "\<exists>v. py_int K ((c # cs) ! j) = Inr v"
        proof (cases j)
          case 0
          with Inr show ?thesis by simp
        next
          case (Suc m)
          with j i(3) show ?thesis by simp
        qed
      qed
      with i(1,2) show ?L
        by (intro exI[of _ "Suc i"]) simp
    qed
    moreover have "astype_int K (c # cs) = Inl e \<longleftrightarrow> astype_int K cs = Inl e"
      using Inr by (cases "astype_int K cs") simp_all
    ultimately show ?thesis using Cons.IH by simp
  qed
qed

lemma relabel_simps:
  "relabel (PyStr (codes '' positive'')) = PyInt 1"
  "relabel (PyStr (codes '' negative'')) = PyInt 0"
  "c \<noteq> PyStr (codes '' positive'') \<Longrightarrow> c \<noteq> PyStr (codes '' negative'') \<Longrightarrow> relabel c = c"
  by (simp_all add: relabel_def assign_where_def codes_def)

lemma relabel_col_simps:
  "relabel_col (ObjCol cs) = ObjCol (map relabel cs)"
  "relabel_col (NumCol d xs) = NumCol d xs"
  by (simp_all add: relabel_col_def relabel_def)

lemma converted_iff: "converted K col ys \<longleftrightarrow> astype_int_col K (relabel_col col) = Inr ys"
  by (cases col) (auto simp: relabel_col_simps astype_int_Inr list_all2_map1)

lemma converted_length: "converted K col ys \<Longrightarrow> length ys = series_length col"
  by (cases col) (auto dest: list_all2_lengthD)

lemma load_dataset_alt:
  "load_dataset K dataset fold_no =
      bnd (call (EvReadTable (data_file dataset fold_no ''tra.dat''))
             (pd_read_table K (data_file dataset fold_no ''tra.dat''))) (\<lambda>df.
      bnd (call (EvReadTable (data_file dataset fold_no ''tst.dat''))
             (pd_read_table K (data_file dataset fold_no ''tst.dat''))) (\<lambda>dftest.
      bnd (lift (iloc_last df)) (\<lambda>Ytrain0.
      bnd (lift (astype_int_col K (relabel_col Ytrain0))) (\<lambda>Ytrain_int.
      bnd (lift (astype_int_col K (relabel_col (test_column dftest)))) (\<lambda>Ytest_int.
      ret (to_numpy (nrows df) (get_numeric_data df), Ytrain_int,
           to_numpy (nrows dftest) (get_numeric_data dftest), map (\<lambda>v. [v]) Ytest_int))))))"
  unfolding load_dataset_def Let_def relabel_col_def test_column_def data_file_def ..

lemma iloc_last_Inr: "iloc_last df = Inr col \<longleftrightarrow> df \<noteq> [] \<and> col = last df"
  by (cases df) (auto simp: iloc_last_def)

lemma load_dataset_Inr:
  assumes "load_dataset K dataset fold_no s = (Inr (Xtrain, Ytrain, Xtest, Ytest), s')"
  shows "\<exists>df dftest w1 w2 ytest.
     pd_read_table K (data_file dataset fold_no ''tra.dat'') (world s) = (Inr df, w1) \<and>
     pd_read_table K (data_file dataset fold_no ''tst.dat'') w1 = (Inr dftest, w2) \<and>
     Xtrain = to_numpy (nrows df) (get_numeric_data df) \<and>
     Xtest = to_numpy (nrows dftest) (get_numeric_data dftest) \<and>
     df \<noteq> [] \<and>
     astype_int_col K (relabel_col (last df)) = Inr Ytrain \<and>
     astype_int_col K (relabel_col (test_column dftest)) = Inr ytest \<and>
     Ytest = map (\<lambda>v. [v]) ytest \<and>
     s' = s\<lparr>trace := trace s @ [EvReadTable (data_file dataset fold_no ''tra.dat''),
              EvReadTable (data_file dataset fold_no ''tst.dat'')], world := w2\<rparr>"
  using assms unfolding load_dataset_alt
  by (auto simp: run_Inr iloc_last_Inr)

lemma load_dataset_raises_train:
  assumes r1: "pd_read_table K (data_file dataset fold_no ''tra.dat'') (world s) = (Inr df, w1)"
    and r2: "pd_read_table K (data_file dataset fold_no ''tst.dat'') w1 = (Inr dftest, w2)"
    and col: "df \<noteq> []"
    and bad: "astype_int_col K (relabel_col (last df)) = Inl e"
  shows "fst (load_dataset K dataset fold_no s) = Inl e"
proof -
  from col have "iloc_last df = Inr (last df)"
    by (simp add: iloc_last_Inr)
  with r1 r2 bad show ?thesis
    unfolding load_dataset_alt
    by (simp add: bnd_def call_def lift_def)
qed

lemma load_dataset_raises_test:
  assumes r1: "pd_read_table K (data_file dataset fold_no ''tra.dat'') (world s) = (Inr df, w1)"
    and r2: "pd_read_table K (data_file dataset fold_no ''tst.dat'') w1 = (Inr dftest, w2)"
    and col: "df \<noteq> []"
    and ok: "astype_int_col K (relabel_col (last df)) = Inr ys"
    and bad: "astype_int_col K (relabel_col (test_column dftest)) = Inl e"
  shows "fst (load_dataset K dataset fold_no s) = Inl e"
proof -
  from col have "iloc_last df = Inr (last df)"
    by (simp add: iloc_last_Inr)
  with r1 r2 ok bad show ?thesis
    unfolding load_dataset_alt
    by (simp add: bnd_def call_def lift_def)
qed


subsection \<open>Which strings Python's int reads\<close>

lemma read_digits_chars:
  "read_digits seen acc xs = Some n \<Longrightarrow> \<forall>x \<in> set xs. is_digit x \<or> x = 95"
proof (induction seen acc xs rule: read_digits.induct)
  case (1 seen acc)
  show ?case by simp
next
  case (2 seen acc c cs)
  show ?case
  proof (cases "is_digit c")
    case True
    with 2 show ?thesis by simp
  next
    case False
    with "2.prems" have c: "c = 95" "seen"
      by (auto split: if_splits)
    with False "2.prems" obtain d r where cs: "cs = d # r" "is_digit d"
      by (cases cs) (auto split: if_splits)
    with False c "2.prems" have "read_digits False acc cs = Some n"
      by simp
    with "2.IH"(2)[OF False _ cs(1)] c cs have "\<forall>x \<in> set cs. is_digit x \<or> x = 95"
      by simp
    with c show ?thesis by simp
  qed
qed

lemma in_dropWhile: "x \<in> set xs \<Longrightarrow> \<not> P x \<Longrightarrow> x \<in> set (dropWhile P xs)"
  by (induction xs) auto

lemma in_strip: "x \<in> set s \<Longrightarrow> \<not> is_space x \<Longrightarrow> x \<in> set (strip s)"
  unfolding strip_def by (simp add: in_dropWhile)

lemma read_int_chars: "read_int K xs = Some n \<Longrightarrow> \<forall>x \<in> set xs. is_digit x \<or> x = 95"
  unfolding read_int_def
  by (cases "read_digits False 0 xs") (auto dest: read_digits_chars split: if_splits)

lemma int_of_str_Inl: "int_of_str K l = Inl e \<Longrightarrow> e = ValueError"
  unfolding int_of_str_def
  by (cases "strip (map (to_ascii K) l)"; cases "read_int K (tl (strip (map (to_ascii K) l)))";
      cases "read_int K (strip (map (to_ascii K) l))") (simp_all split: if_splits)

lemma int_of_str_letter:
  assumes c: "c \<in> set l" and r: "58 \<le> c" "c < 127" "c \<noteq> 95"
  shows "int_of_str K l = Inl ValueError"
proof (cases "int_of_str K l")
  case (Inl e)
  with int_of_str_Inl[OF Inl] show ?thesis by simp
next
  case (Inr v)
  from r have a: "to_ascii K c = c" "\<not> is_space c" "\<not> is_digit c" "c \<noteq> 45" "c \<noteq> 43"
    by (simp_all add: to_ascii_def is_space_def is_digit_def)
  from c a(1) have "c \<in> set (map (to_ascii K) l)"
    by force
  then have m: "c \<in> set (strip (map (to_ascii K) l))"
    using a(2) by (intro in_strip)
  then obtain b bs where t: "strip (map (to_ascii K) l) = b # bs"
    by (cases "strip (map (to_ascii K) l)") auto
  have False
  proof (cases "b = 45 \<or> b = 43")
    case True
    with Inr t obtain n where "read_int K bs = Some n"
      unfolding int_of_str_def by (cases "read_int K bs") (auto split: if_splits)
    from read_int_chars[OF this] m t True a r show False by auto
  next
    case False
    with Inr t obtain n where "read_int K (b # bs) = Some n"
      unfolding int_of_str_def by (cases "read_int K (b # bs)") (auto split: if_splits)
    from read_int_chars[OF this] m t a r show False by auto
  qed
  then show ?thesis ..
qed

lemma read_digits_all:
  "\<forall>x \<in> set ds. is_digit x \<Longrightarrow> ds \<noteq> [] \<Longrightarrow>
     read_digits seen acc ds = Some (foldl (\<lambda>a c. 10 * a + (c - 48)) acc ds)"
proof (induction ds arbitrary: seen acc)
  case Nil
  then show ?case by simp
next
  case (Cons d ds)
  show ?case
  proof (cases ds)
    case Nil
    with Cons.prems show ?thesis by simp
  next
    case (Cons e es)
    with Cons.prems Cons.IH[of True "10 * acc + (d - 48)"] show ?thesis by simp
  qed
qed

lemma codes_str_nat:
  "(\<forall>x \<in> set (codes (str_nat n)). is_digit x) \<and> codes (str_nat n) \<noteq> [] \<and>
   foldl (\<lambda>a c. 10 * a + (c - 48)) 0 (codes (str_nat n)) = n"
proof (induction n rule: str_nat.induct)
  case (1 n)
  show ?case
  proof (cases "n < 10")
    case True
    then show ?thesis
      by (subst (1 2 3) str_nat.simps) (simp add: codes_def is_digit_def)
  next
    case False
    have m: "n mod 10 < 10" by simp
    from "1.IH"[OF False] False m show ?thesis
      by (subst (1 2 3) str_nat.simps) (simp add: codes_def is_digit_def)
  qed
qed

lemma length_str_nat: "n < 10 ^ k \<Longrightarrow> 0 < k \<Longrightarrow> length (str_nat n) \<le> k"
proof (induction k arbitrary: n)
  case 0
  then show ?case by simp
next
  case (Suc k)
  show ?case
  proof (cases "n < 10")
    case True
    then show ?thesis by (subst str_nat.simps) simp
  next
    case False
    with Suc.prems have k: "0 < k"
      by (cases k) auto
    from Suc.prems have "n div 10 < 10 ^ k"
      by (simp add: less_mult_imp_div_less mult.commute)
    from Suc.IH[OF this k] False show ?thesis
      by (subst str_nat.simps) simp
  qed
qed

lemma dropWhile_self: "xs \<noteq> [] \<Longrightarrow> \<not> P (hd xs) \<Longrightarrow> dropWhile P xs = xs"
  by (cases xs) simp_all

lemma digit_not_space: "is_digit x \<Longrightarrow> \<not> is_space x"
  by (auto simp: is_digit_def is_space_def)

lemma to_ascii_digit: "is_digit x \<Longrightarrow> to_ascii K x = x"
  by (simp add: is_digit_def to_ascii_def)

lemma strip_digits:
  assumes d: "\<forall>x \<in> set ds. is_digit x" and n: "ds \<noteq> []"
  shows "strip ds = ds" and "strip (32 # ds) = ds"
proof -
  from d n have h: "\<not> is_space (hd ds)" "\<not> is_space (last ds)"
    by (simp_all add: digit_not_space)
  from n h(2) have 1: "dropWhile is_space (rev ds) = rev ds"
    by (intro dropWhile_self) (simp_all add: hd_rev)
  from n h(1) have 2: "dropWhile is_space ds = ds"
    by (rule dropWhile_self)
  show "strip ds = ds" "strip (32 # ds) = ds"
    unfolding strip_def using 1 2 by (simp_all add: is_space_def)
qed

lemma int_of_str_nat:
  assumes "\<not> too_many_digits K (codes (str_nat n))"
  shows "int_of_str K (codes (str_nat n)) = Inr (int n)"
    and "int_of_str K (codes ('' '' @ str_nat n)) = Inr (int n)"
proof -
  let ?ds = "codes (str_nat n)"
  from codes_str_nat[of n] have d: "\<forall>x \<in> set ?ds. is_digit x" and ne: "?ds \<noteq> []"
    and v: "foldl (\<lambda>a c. 10 * a + (c - 48)) 0 ?ds = n"
    by simp_all
  from d have m: "map (to_ascii K) ?ds = ?ds"
    by (simp add: map_idI to_ascii_digit)
  have m2: "map (to_ascii K) (codes ('' '' @ str_nat n)) = 32 # ?ds"
    using m by (simp add: codes_def to_ascii_def)
  from read_digits_all[OF d ne, of False 0] v assms have r: "read_int K ?ds = Some n"
    by (simp add: read_int_def)
  from ne obtain c cs where c: "?ds = c # cs" by (cases ?ds) auto
  with d have "is_digit c" by simp
  then have cc: "c \<noteq> 45" "c \<noteq> 43"
    by (auto simp: is_digit_def)
  show "int_of_str K (codes (str_nat n)) = Inr (int n)"
    unfolding int_of_str_def m strip_digits(1)[OF d ne]
    using r cc unfolding c by simp
  show "int_of_str K (codes ('' '' @ str_nat n)) = Inr (int n)"
    unfolding int_of_str_def m2 strip_digits(2)[OF d ne]
    using r cc unfolding c by simp
qed

lemma few_digits:
  assumes "n < 2 ^ 63"
  shows "\<not> too_many_digits K (codes (str_nat n))"
proof -
  have "(2 :: nat) ^ 63 < 10 ^ 19" by simp
  with assms have "n < 10 ^ 19" by simp
  from length_str_nat[OF this] have "length (str_nat n) \<le> 19" by simp
  moreover have "length (filter is_digit (codes (str_nat n))) \<le> length (str_nat n)"
    using length_filter_le[of is_digit "codes (str_nat n)"] by (simp add: codes_def)
  ultimately show ?thesis
    by (simp add: too_many_digits_def Let_def)
qed

lemma py_int_small:
  assumes "n < 2 ^ 63"
  shows "py_int K (PyStr (codes ('' '' @ str_nat n))) = Inr (int n)"
proof -
  from assms have b: "int n < 2 ^ 63"
    by (metis of_nat_less_iff of_nat_numeral of_nat_power)
  have i: "int_of_str K (codes ('' '' @ str_nat n)) = Inr (int n)"
    by (rule int_of_str_nat(2)[OF few_digits[OF assms]])
  show ?thesis
    unfolding py_int.simps i using b by (simp add: to_int64_def)
qed

lemma py_int_large:
  assumes "2 ^ 63 \<le> n"
  shows "py_int K (PyStr (codes ('' '' @ str_nat n)))
     = Inl (if too_many_digits K (codes (str_nat n)) then ValueError else OverflowError)"
proof (cases "too_many_digits K (codes (str_nat n))")
  case False
  from assms have b: "\<not> int n < 2 ^ 63"
    by (metis of_nat_less_iff of_nat_numeral of_nat_power not_less)
  have i: "int_of_str K (codes ('' '' @ str_nat n)) = Inr (int n)"
    by (rule int_of_str_nat(2)[OF False])
  show ?thesis
    unfolding py_int.simps i using b False by (simp add: to_int64_def)
next
  case True
  let ?ds = "codes (str_nat n)"
  from codes_str_nat[of n] have d: "\<forall>x \<in> set ?ds. is_digit x" and ne: "?ds \<noteq> []"
    by simp_all
  from d have m: "map (to_ascii K) ?ds = ?ds"
    by (simp add: map_idI to_ascii_digit)
  have m2: "map (to_ascii K) (codes ('' '' @ str_nat n)) = 32 # ?ds"
    using m by (simp add: codes_def to_ascii_def)
  from ne obtain c cs where c: "?ds = c # cs" by (cases ?ds) auto
  with d have "is_digit c" by simp
  then have cc: "c \<noteq> 45" "c \<noteq> 43"
    by (auto simp: is_digit_def)
  from True have r: "read_int K ?ds = None"
    by (cases "read_digits False 0 ?ds") (simp_all add: read_int_def)
  have i: "int_of_str K (codes ('' '' @ str_nat n)) = Inl ValueError"
    unfolding int_of_str_def m2 strip_digits(2)[OF d ne]
    using r cc unfolding c by simp
  show ?thesis
    unfolding py_int.simps i using True by simp
qed


lemma digits_not_label:
  "codes ('' '' @ str_nat n) \<noteq> codes '' positive''"
  "codes ('' '' @ str_nat n) \<noteq> codes '' negative''"
proof -
  from codes_str_nat[of n] obtain c cs where c: "codes (str_nat n) = c # cs" "is_digit c"
    by (cases "codes (str_nat n)") auto
  then have "c \<noteq> 112" "c \<noteq> 110"
    by (auto simp: is_digit_def)
  with c(1) show "codes ('' '' @ str_nat n) \<noteq> codes '' positive''"
    "codes ('' '' @ str_nat n) \<noteq> codes '' negative''"
    by (auto simp: codes_def)
qed

lemma relabel_digits: "relabel (PyStr (codes ('' '' @ str_nat n))) = PyStr (codes ('' '' @ str_nat n))"
  by (rule relabel_simps(3)) (simp_all only: pyobj.inject digits_not_label not_False_eq_True)

lemma astype_int_col_Inl:
  "astype_int_col K (relabel_col (ObjCol cs)) = Inl e \<longleftrightarrow>
     (\<exists>i<length cs. py_int K (relabel (cs ! i)) = Inl e \<and>
        (\<forall>j<i. \<exists>v. py_int K (relabel (cs ! j)) = Inr v))"
proof -
  have "(\<exists>i<length (map relabel cs). py_int K (map relabel cs ! i) = Inl e \<and>
        (\<forall>j<i. \<exists>v. py_int K (map relabel cs ! j) = Inr v)) \<longleftrightarrow>
     (\<exists>i<length cs. py_int K (relabel (cs ! i)) = Inl e \<and>
        (\<forall>j<i. \<exists>v. py_int K (relabel (cs ! j)) = Inr v))"
    by (intro ex_cong1) auto
  then show ?thesis
    by (simp only: relabel_col_simps astype_int_col.simps astype_int_Inl)
qed

text \<open>
  C9, as amended: \<open>load_dataset\<close> maps the label \<open>' positive'\<close> to 1 and \<open>' negative'\<close>
  to 0 and leaves every other element as it is; the two label arrays are then converted
  with \<^verbatim>\<open>astype(int)\<close>. On return \<open>Ytrain\<close> is one-dimensional, with one integer for
  each label of the training file, and \<open>Ytest\<close> is two-dimensional with one column.
  A label that is left unmapped is read by Python's \<^verbatim>\<open>int\<close>: a label with a letter in
  it is a ValueError, a label such as \<open>' 7'\<close> (a space and the digits of a number) is
  that number when it fits into 64 bits, and an OverflowError otherwise (a ValueError
  when it has more digits than the interpreter reads). The first element that fails,
  of the training labels and then of the test labels, gives the exception that
  \<open>load_dataset\<close> raises.
\<close>

theorem load_dataset_labels:
  "(\<forall>Xtrain Ytrain Xtest Ytest s'.
      load_dataset K dataset fold_no s = (Inr (Xtrain, Ytrain, Xtest, Ytest), s') \<longrightarrow>
      (\<exists>df dftest w1 w2 ytest.
         pd_read_table K (data_file dataset fold_no ''tra.dat'') (world s) = (Inr df, w1) \<and>
         pd_read_table K (data_file dataset fold_no ''tst.dat'') w1 = (Inr dftest, w2) \<and>
         df \<noteq> [] \<and>
         converted K (last df) Ytrain \<and> length Ytrain = series_length (last df) \<and>
         converted K (test_column dftest) ytest \<and> Ytest = map (\<lambda>v. [v]) ytest \<and>
         length Ytest = series_length (test_column dftest))) \<and>
   (\<forall>df dftest w1 w2 e.
      pd_read_table K (data_file dataset fold_no ''tra.dat'') (world s) = (Inr df, w1) \<and>
      pd_read_table K (data_file dataset fold_no ''tst.dat'') w1 = (Inr dftest, w2) \<and>
      df \<noteq> [] \<and>
      (astype_int_col K (relabel_col (last df)) = Inl e \<or>
       (\<exists>ys. converted K (last df) ys) \<and>
         astype_int_col K (relabel_col (test_column dftest)) = Inl e)
      \<longrightarrow> fst (load_dataset K dataset fold_no s) = Inl e) \<and>
   (\<forall>cs e. astype_int_col K (relabel_col (ObjCol cs)) = Inl e \<longleftrightarrow>
      (\<exists>i<length cs. py_int K (relabel (cs ! i)) = Inl e \<and>
         (\<forall>j<i. \<exists>v. py_int K (relabel (cs ! j)) = Inr v))) \<and>
   py_int K (relabel (PyStr (codes '' positive''))) = Inr 1 \<and>
   py_int K (relabel (PyStr (codes '' negative''))) = Inr 0 \<and>
   (\<forall>c. c \<noteq> PyStr (codes '' positive'') \<and> c \<noteq> PyStr (codes '' negative'') \<longrightarrow>
      relabel c = c) \<and>
   (\<forall>l. l \<noteq> codes '' positive'' \<and> l \<noteq> codes '' negative'' \<and>
        (\<exists>c \<in> set l. 58 \<le> c \<and> c < 127 \<and> c \<noteq> 95) \<longrightarrow>
      py_int K (relabel (PyStr l)) = Inl ValueError) \<and>
   (\<forall>n. n < 2 ^ 63 \<longrightarrow>
      py_int K (relabel (PyStr (codes ('' '' @ str_nat n)))) = Inr (int n)) \<and>
   (\<forall>n. 2 ^ 63 \<le> n \<longrightarrow>
      py_int K (relabel (PyStr (codes ('' '' @ str_nat n))))
        = Inl (if too_many_digits K (codes (str_nat n)) then ValueError else OverflowError))"
proof -
  have 1: "\<exists>df dftest w1 w2 ytest.
         pd_read_table K (data_file dataset fold_no ''tra.dat'') (world s) = (Inr df, w1) \<and>
         pd_read_table K (data_file dataset fold_no ''tst.dat'') w1 = (Inr dftest, w2) \<and>
         df \<noteq> [] \<and>
         converted K (last df) Ytrain \<and> length Ytrain = series_length (last df) \<and>
         converted K (test_column dftest) ytest \<and> Ytest = map (\<lambda>v. [v]) ytest \<and>
         length Ytest = series_length (test_column dftest)"
    if run: "load_dataset K dataset fold_no s = (Inr (Xtrain, Ytrain, Xtest, Ytest), s')"
    for Xtrain Ytrain Xtest Ytest s'
  proof -
    from load_dataset_Inr[OF run] obtain df dftest w1 w2 ytest where
      r1: "pd_read_table K (data_file dataset fold_no ''tra.dat'') (world s) = (Inr df, w1)" and
      r2: "pd_read_table K (data_file dataset fold_no ''tst.dat'') w1 = (Inr dftest, w2)" and
      ne: "df \<noteq> []" and
      a: "astype_int_col K (relabel_col (last df)) = Inr Ytrain" and
      b: "astype_int_col K (relabel_col (test_column dftest)) = Inr ytest" and
      y: "Ytest = map (\<lambda>v. [v]) ytest"
      by blast
    from a have ca: "converted K (last df) Ytrain"
      by (simp only: converted_iff)
    from b have cb: "converted K (test_column dftest) ytest"
      by (simp only: converted_iff)
    have la: "length Ytrain = series_length (last df)"
      by (rule converted_length[OF ca])
    have lb: "length Ytest = series_length (test_column dftest)"
      using converted_length[OF cb] y by simp
    show ?thesis
      apply (intro exI conjI)
             apply (rule r1)
            apply (rule r2)
           apply (rule ne)
          apply (rule ca)
         apply (rule la)
        apply (rule cb)
       apply (rule y)
      apply (rule lb)
      done
  qed
  have 2: "fst (load_dataset K dataset fold_no s) = Inl e"
    if h: "pd_read_table K (data_file dataset fold_no ''tra.dat'') (world s) = (Inr df, w1) \<and>
      pd_read_table K (data_file dataset fold_no ''tst.dat'') w1 = (Inr dftest, w2) \<and>
      df \<noteq> [] \<and>
      (astype_int_col K (relabel_col (last df)) = Inl e \<or>
       (\<exists>ys. converted K (last df) ys) \<and>
         astype_int_col K (relabel_col (test_column dftest)) = Inl e)"
    for df dftest w1 w2 e
  proof -
    from h have r1: "pd_read_table K (data_file dataset fold_no ''tra.dat'') (world s) = (Inr df, w1)"
      and r2: "pd_read_table K (data_file dataset fold_no ''tst.dat'') w1 = (Inr dftest, w2)"
      and ne: "df \<noteq> []"
      and d: "astype_int_col K (relabel_col (last df)) = Inl e \<or>
       (\<exists>ys. converted K (last df) ys) \<and>
         astype_int_col K (relabel_col (test_column dftest)) = Inl e"
      by simp_all
    from d show ?thesis
    proof
      assume "astype_int_col K (relabel_col (last df)) = Inl e"
      then show ?thesis by (rule load_dataset_raises_train[OF r1 r2 ne])
    next
      assume t: "(\<exists>ys. converted K (last df) ys) \<and>
         astype_int_col K (relabel_col (test_column dftest)) = Inl e"
      then obtain ys where "astype_int_col K (relabel_col (last df)) = Inr ys"
        unfolding converted_iff by blast
      from load_dataset_raises_test[OF r1 r2 ne this] t show ?thesis by blast
    qed
  qed
  have 5: "relabel c = c"
    if "c \<noteq> PyStr (codes '' positive'') \<and> c \<noteq> PyStr (codes '' negative'')" for c
    using that by (simp add: relabel_simps)
  have 6: "py_int K (relabel (PyStr l)) = Inl ValueError"
    if h: "l \<noteq> codes '' positive'' \<and> l \<noteq> codes '' negative'' \<and>
        (\<exists>c \<in> set l. 58 \<le> c \<and> c < 127 \<and> c \<noteq> 95)" for l
  proof -
    from h have "relabel (PyStr l) = PyStr l"
      by (intro relabel_simps(3)) simp_all
    moreover from h obtain c where "c \<in> set l" "58 \<le> c" "c < 127" "c \<noteq> 95"
      by blast
    then have "int_of_str K l = Inl ValueError"
      by (rule int_of_str_letter)
    ultimately show ?thesis by simp
  qed
  show ?thesis
  proof (intro conjI)
    show "\<forall>Xtrain Ytrain Xtest Ytest s'.
      load_dataset K dataset fold_no s = (Inr (Xtrain, Ytrain, Xtest, Ytest), s') \<longrightarrow>
      (\<exists>df dftest w1 w2 ytest.
         pd_read_table K (data_file dataset fold_no ''tra.dat'') (world s) = (Inr df, w1) \<and>
         pd_read_table K (data_file dataset fold_no ''tst.dat'') w1 = (Inr dftest, w2) \<and>
         df \<noteq> [] \<and>
         converted K (last df) Ytrain \<and> length Ytrain = series_length (last df) \<and>
         converted K (test_column dftest) ytest \<and> Ytest = map (\<lambda>v. [v]) ytest \<and>
         length Ytest = series_length (test_column dftest))"
      by (intro allI impI) (rule 1)
    show "\<forall>df dftest w1 w2 e.
      pd_read_table K (data_file dataset fold_no ''tra.dat'') (world s) = (Inr df, w1) \<and>
      pd_read_table K (data_file dataset fold_no ''tst.dat'') w1 = (Inr dftest, w2) \<and>
      df \<noteq> [] \<and>
      (astype_int_col K (relabel_col (last df)) = Inl e \<or>
       (\<exists>ys. converted K (last df) ys) \<and>
         astype_int_col K (relabel_col (test_column dftest)) = Inl e)
      \<longrightarrow> fst (load_dataset K dataset fold_no s) = Inl e"
      by (intro allI impI) (rule 2)
    show "\<forall>cs e. astype_int_col K (relabel_col (ObjCol cs)) = Inl e \<longleftrightarrow>
      (\<exists>i<length cs. py_int K (relabel (cs ! i)) = Inl e \<and>
         (\<forall>j<i. \<exists>v. py_int K (relabel (cs ! j)) = Inr v))"
      by (intro allI) (rule astype_int_col_Inl)
    show "py_int K (relabel (PyStr (codes '' positive''))) = Inr 1"
      by (simp add: relabel_simps to_int64_def)
    show "py_int K (relabel (PyStr (codes '' negative''))) = Inr 0"
      by (simp add: relabel_simps to_int64_def)
    show "\<forall>c. c \<noteq> PyStr (codes '' positive'') \<and> c \<noteq> PyStr (codes '' negative'') \<longrightarrow>
      relabel c = c"
      by (intro allI impI) (rule 5)
    show "\<forall>l. l \<noteq> codes '' positive'' \<and> l \<noteq> codes '' negative'' \<and>
        (\<exists>c \<in> set l. 58 \<le> c \<and> c < 127 \<and> c \<noteq> 95) \<longrightarrow>
      py_int K (relabel (PyStr l)) = Inl ValueError"
      by (intro allI impI) (rule 6)
    show "\<forall>n. n < 2 ^ 63 \<longrightarrow>
      py_int K (relabel (PyStr (codes ('' '' @ str_nat n)))) = Inr (int n)"
      unfolding relabel_digits by (intro allI impI) (rule py_int_small)
    show "\<forall>n. 2 ^ 63 \<le> n \<longrightarrow>
      py_int K (relabel (PyStr (codes ('' '' @ str_nat n))))
        = Inl (if too_many_digits K (codes (str_nat n)) then ValueError else OverflowError)"
      unfolding relabel_digits by (intro allI impI) (rule py_int_large)
  qed
qed


lemma tiny_load:
  "always (load_dataset tiny_sklib dataset fold_no)
     (NDArray Float64 2 [[0, 1], [1, 0], [2, 1], [3, 0]], [0, 1, 0, 0],
      NDArray Float64 2 [[0, 1], [1, 0], [2, 1], [3, 0]], [[0], [1], [0], [0]])"
  unfolding load_dataset_alt
  apply (rule always_bnd, rule always_call, simp add: tiny_sklib_def)
  apply (rule always_bnd, rule always_call, simp add: tiny_sklib_def)
  apply (rule always_bnd, rule always_lift, simp add: tiny_table_def iloc_last_def)
  apply (rule always_bnd, rule always_lift,
      simp add: relabel_col_simps relabel_simps to_int64_def)
  apply (rule always_bnd, rule always_lift,
      simp add: test_column_def tiny_table_def relabel_col_simps relabel_simps to_int64_def)
  apply (rule always_ret_eq,
      simp add: tiny_table_def to_numpy_def nrows_def find_common_type_def numeral_2_eq_2)
  done

lemma str_nat_7: "str_nat 7 = ''7''"
  by code_simp

theorem load_dataset_labels_witness:
  "(\<exists>s'. load_dataset tiny_sklib ''ecoli1'' 1 start =
        (Inr (NDArray Float64 2 [[0, 1], [1, 0], [2, 1], [3, 0]], [0, 1, 0, 0],
          NDArray Float64 2 [[0, 1], [1, 0], [2, 1], [3, 0]], [[0], [1], [0], [0]]), s')) \<and>
   converted tiny_sklib (last tiny_table) [0, 1, 0, 0] \<and>
   converted tiny_sklib (test_column tiny_table) [0, 1, 0, 0] \<and>
   py_int tiny_sklib (relabel (PyStr (codes '' 7''))) = Inr 7 \<and>
   py_int tiny_sklib (relabel (PyStr (codes '' male''))) = Inl ValueError"
proof -
  note T = load_dataset_labels[of tiny_sklib "''ecoli1''" 1 start]
  from alwaysD[OF tiny_load] obtain s' where run: "load_dataset tiny_sklib ''ecoli1'' 1 start =
     (Inr (NDArray Float64 2 [[0, 1], [1, 0], [2, 1], [3, 0]], [0, 1, 0, 0],
          NDArray Float64 2 [[0, 1], [1, 0], [2, 1], [3, 0]], [[0], [1], [0], [0]]), s')"
    by blast
  from T[THEN conjunct1, rule_format, OF run] obtain df dftest w1 w2 ytest where
    r1: "pd_read_table tiny_sklib (data_file ''ecoli1'' 1 ''tra.dat'') (world start) = (Inr df, w1)" and
    r2: "pd_read_table tiny_sklib (data_file ''ecoli1'' 1 ''tst.dat'') w1 = (Inr dftest, w2)" and
    c1: "converted tiny_sklib (last df) [0, 1, 0, 0]" and
    c2: "converted tiny_sklib (test_column dftest) ytest" and
    y: "[[0], [1], [0], [0]] = map (\<lambda>v. [v]) ytest"
    by (elim exE conjE)
  from r1 r2 have d: "df = tiny_table" "dftest = tiny_table"
    by (simp_all add: tiny_sklib_def)
  from y have yt: "ytest = [0, 1, 0, 0]"
    by (auto simp: map_eq_Cons_conv)
  have "(7 :: nat) < 2 ^ 63" by simp
  with T have "py_int tiny_sklib (relabel (PyStr (codes ('' '' @ str_nat 7)))) = Inr (int 7)"
    by blast
  then have seven: "py_int tiny_sklib (relabel (PyStr (codes '' 7''))) = Inr 7"
    by (simp add: str_nat_7)
  have "codes '' male'' \<noteq> codes '' positive'' \<and> codes '' male'' \<noteq> codes '' negative'' \<and>
        (\<exists>c \<in> set (codes '' male''). 58 \<le> c \<and> c < 127 \<and> c \<noteq> 95)"
    by (simp add: codes_def)
  with T have male: "py_int tiny_sklib (relabel (PyStr (codes '' male''))) = Inl ValueError"
    by blast
  from run have "\<exists>s'. load_dataset tiny_sklib ''ecoli1'' 1 start =
        (Inr (NDArray Float64 2 [[0, 1], [1, 0], [2, 1], [3, 0]], [0, 1, 0, 0],
          NDArray Float64 2 [[0, 1], [1, 0], [2, 1], [3, 0]], [[0], [1], [0], [0]]), s')"
    by (rule exI)
  with c1 c2 seven male show ?thesis
    unfolding d yt by (intro conjI)
qed

text \<open>
  The last sentence of C9 as it is written fails: the label \<open>' 7'\<close> is left unmapped
  and the integer conversion succeeds on it.
\<close>

lemma int_of_str_7: "int_of_str K (codes '' 7'') = Inr 7"
  by (simp add: int_of_str_def strip_def is_space_def is_digit_def to_ascii_def codes_def
      read_int_def too_many_digits_def)

lemma relabel_7: "relabel (PyStr (codes '' 7'')) = PyStr (codes '' 7'')"
  by (simp add: relabel_def assign_where_def codes_def)

lemma odd_load:
  "always (load_dataset odd_sklib dataset fold_no)
     (NDArray Float64 1 [[0], [1], [2]], [1, 0, 7],
      NDArray Float64 1 [[0], [1], [2]], [[1], [0], [7]])"
  unfolding load_dataset_alt
  apply (rule always_bnd, rule always_call, simp add: odd_sklib_def)
  apply (rule always_bnd, rule always_call, simp add: odd_sklib_def)
  apply (rule always_bnd, rule always_lift, simp add: odd_table_def iloc_last_def)
  apply (rule always_bnd, rule always_lift,
      simp add: relabel_col_simps relabel_simps relabel_7 int_of_str_7 to_int64_def)
  apply (rule always_bnd, rule always_lift,
      simp add: test_column_def odd_table_def relabel_col_simps relabel_simps relabel_7 int_of_str_7
        to_int64_def)
  apply (rule always_ret_eq,
      simp add: odd_table_def to_numpy_def nrows_def find_common_type_def)
  done

theorem load_dataset_numeric_label_counterexample:
  "relabel (PyStr (codes '' 7'')) = PyStr (codes '' 7'') \<and>
   fst (load_dataset odd_sklib ''ecoli1'' 1 start) =
     Inr (NDArray Float64 1 [[0], [1], [2]], [1, 0, 7],
       NDArray Float64 1 [[0], [1], [2]], [[1], [0], [7]])"
  using odd_load[of "''ecoli1''" 1] by (simp add: relabel_7 always_def)

text \<open>
  The conversion on the stand-in interpreter: white space and digits outside ASCII are
  read, the separators U+001C to U+001F are not white space for \<^verbatim>\<open>int\<close>, and an
  integer that does not fit into 64 bits is an OverflowError.
\<close>

lemma py_int_examples:
  "py_int tiny_sklib (PyStr [160, 55]) = Inr 7"
  "py_int tiny_sklib (PyStr [1635]) = Inr 3"
  "py_int tiny_sklib (PyStr [28, 55]) = Inl ValueError"
  "py_int tiny_sklib (PyStr (codes '' 99999999999999999999'')) = Inl OverflowError"
  "py_int tiny_sklib (PyFloat (10 ^ 30)) = Inl OverflowError"
  "py_int tiny_sklib PyNaN = Inl ValueError"
  by (simp_all add: int_of_str_def strip_def is_space_def is_digit_def to_ascii_def codes_def
      read_int_def too_many_digits_def to_int64_def tiny_sklib_def trunc_toward_zero_def)


section \<open>Properties of the numpy operations\<close>

lemma first_index_props:
  assumes "\<exists>x \<in> set xs. P x"
  shows "first_index P xs < length xs" and "P (xs ! first_index P xs)"
    and "\<And>j. j < first_index P xs \<Longrightarrow> \<not> P (xs ! j)"
  using assms
proof (induction xs)
  case Nil
  {
    case 1 then show ?case by simp
  next
    case 2 then show ?case by simp
  next
    case 3 then show ?case by simp
  }
next
  case (Cons x xs)
  {
    case 1
    with Cons.IH(1) show ?case by auto
  next
    case 2
    with Cons.IH(2) show ?case by auto
  next
    case (3 j)
    show ?case
    proof (cases "P x")
      case True
      with 3 show ?thesis by simp
    next
      case False
      with 3 have ex: "\<exists>x \<in> set xs. P x" by auto
      show ?thesis
      proof (cases j)
        case 0
        with False show ?thesis by simp
      next
        case (Suc k)
        with 3 False have "k < first_index P xs" by simp
        from Cons.IH(3)[OF this ex] Suc show ?thesis by simp
      qed
    qed
  }
qed

lemma fold_max_Max: "fold max r (x :: 'a :: linorder) = Max (set (x # r))"
  by (rule Max.set_eq_fold[symmetric])

lemma np_argmax_Inr:
  assumes "np_argmax xs = Inr b"
  shows "b < length xs" and "\<And>j. j < length xs \<Longrightarrow> xs ! j \<le> xs ! b"
    and "\<And>j. j < b \<Longrightarrow> xs ! j < xs ! b"
proof -
  from assms obtain x r where xs: "xs = x # r"
    and b: "b = first_index (\<lambda>v. v = Max (set xs)) xs"
    by (cases xs) (auto simp: np_argmax_def fold_max_Max)
  have ex: "\<exists>v \<in> set xs. v = Max (set xs)"
    using xs Max_in[of "set xs"] by auto
  note fi = first_index_props[of xs "\<lambda>v. v = Max (set xs)", OF ex]
  show 1: "b < length xs" using fi(1) b by simp
  have M: "xs ! b = Max (set xs)" using fi(2) b by simp
  show 2: "xs ! j \<le> xs ! b" if "j < length xs" for j
    using that M by simp
  show "xs ! j < xs ! b" if "j < b" for j
  proof -
    from that 1 have j: "j < length xs" by simp
    from fi(3)[of j] that b have "xs ! j \<noteq> Max (set xs)" by simp
    with 2[OF j] M show ?thesis by simp
  qed
qed

lemma np_argmax_zeros:
  assumes "np_argmax xs = Inr b" and "\<forall>v \<in> set xs. v = (0 :: real)"
  shows "b = 0"
proof (rule ccontr)
  assume "b \<noteq> 0"
  then have "0 < b" by simp
  have b: "b < length xs" by (rule np_argmax_Inr(1)[OF assms(1)])
  then have "0 < length xs" by (cases xs) simp_all
  with b have "xs ! 0 \<in> set xs" "xs ! b \<in> set xs"
    by simp_all
  with assms(2) have "xs ! 0 = 0" "xs ! b = 0"
    by blast+
  with np_argmax_Inr(3)[OF assms(1) \<open>0 < b\<close>] show False by simp
qed

lemma length_np_linspace: "length (np_linspace a b n) = n"
  by (simp add: np_linspace_def)

lemma nth_np_linspace:
  "i < n \<Longrightarrow> np_linspace a b n ! i = a + real i * ((b - a) / real (n - 1))"
  by (simp add: np_linspace_def)

lemma np_linspace_ends:
  "np_linspace a b 10 ! 0 = a" "np_linspace a b 10 ! 9 = b"
  by (simp_all add: nth_np_linspace field_simps)

lemma np_linspace_mono:
  assumes "a \<le> b" and "i < n"
  shows "a \<le> np_linspace a b n ! i"
proof -
  have "0 \<le> real i * ((b - a) / real (n - 1))"
    using assms by (intro mult_nonneg_nonneg divide_nonneg_nonneg) simp_all
  with assms(2) show ?thesis by (simp add: nth_np_linspace)
qed

section \<open>Properties of loops\<close>

lemma for_each_invariant:
  assumes "for_each xs body acc s = (Inr acc', s')"
    and "\<And>x a t r t'. body x a t = (Inr r, t') \<Longrightarrow> P a \<Longrightarrow> P r"
    and "P acc"
  shows "P acc'"
  using assms(1,3)
proof (induction xs arbitrary: acc s)
  case Nil
  then show ?case by (simp add: ret_def)
next
  case (Cons x xs)
  from Cons.prems(1) obtain a s1 where
    b: "body x acc s = (Inr a, s1)" and r: "for_each xs body a s1 = (Inr acc', s')"
    by (auto simp: bnd_Inr)
  from assms(2)[OF b Cons.prems(2)] have "P a" .
  from Cons.IH[OF r this] show ?case .
qed


section \<open>Runs of the pipeline\<close>

lemma call_fit_Inr: "call_fit ev X y f s = (Inr v, s') \<longleftrightarrow>
  (\<exists>w'. f (world s) = (Inr v, w') \<and>
     s' = s\<lparr>trace := trace s @ [ev], fitted := fitted s @ [(X, y)], world := w'\<rparr>)"
  by (auto simp: call_fit_def call_def split: prod.splits)

lemma try_except_Inr:
  "try_except_ValueError m h s = (Inr x, s') \<longleftrightarrow>
     m s = (Inr x, s') \<or> (\<exists>s1. m s = (Inl ValueError, s1) \<and> h s1 = (Inr x, s'))"
  by (auto simp: try_except_ValueError_def split: prod.splits sum.splits)

lemma test_auc_Inr:
  assumes "test_auc K clf X Y s = (Inr v, s')"
  shows "\<exists>proba w1 scores w2. predict_proba K clf X (world s) = (Inr proba, w1) \<and>
     column proba 1 = Inr scores \<and> roc_auc_score K Y scores w1 = (Inr v, w2)"
  using assms by (auto simp: test_auc_def run_Inr)

lemma JRD_sampling_call_Inr:
  assumes "JRD_sampling_call L X n_samples sigma alpha n_rff s = (Inr Y, s')"
    and U: "uniform_in_range L" and K: "step_keeps_shape L"
  shows "shape0 Y = n_samples" and "shape1 Y = shape1 X"
proof -
  from assms(1) obtain Ya s1 where
    run: "JRD_sampling L (length (heap s)) n_samples sigma alpha 0.1 default_n_iter True n_rff False
       (s\<lparr>heap := heap s @ [X]\<rparr>) = (Inr Ya, s1)" and
    Y: "Ya < length (heap s1)" "Y = heap s1 ! Ya"
    by (auto simp: JRD_sampling_call_def run_Inr)
  from JRD_sampling_Inr_shape[OF U K run] Y
  show "shape0 Y = n_samples" and "shape1 Y = shape1 X"
    by simp_all
qed

lemma fit_balanced_Inr:
  assumes "fit_balanced L K Xmaj Xmin maj_label min_label sigma alpha n_rff s = (Inr clf, s')"
  shows "\<exists>Xsub s1 Xtr D w2 s0 w3 best_C best_gamma w4 w5.
     JRD_sampling_call L Xmaj (shape0 Xmin) sigma alpha n_rff s = (Inr Xsub, s1) \<and>
     np_concatenate Xsub Xmin = Inr Xtr \<and>
     pairwise_distances K Xsub (world s1) = (Inr D, w2) \<and>
     np_nanmedian K D w2 = (Inr s0, w3) \<and>
     grid_search K (map (\<lambda>x. 1 / (2 * x\<^sup>2)) (np_linspace (0.01 * s0) (3 * s0) 7))
        (np_logspace 0 3 7) Xtr
        (times_ones maj_label (shape0 Xsub) @ times_ones min_label (shape0 Xmin)) w3
        = (Inr (best_C, best_gamma), w4) \<and>
     svc_fit K best_C best_gamma Xtr
        (times_ones maj_label (shape0 Xsub) @ times_ones min_label (shape0 Xmin)) w4
        = (Inr clf, w5)"
  using assms
  by (auto simp: fit_balanced_def Let_def bnd_Inr call_Inr call_fit_Inr lift_Inr ret_Inr)


lemma cv_iteration_caught:
  assumes "fit_balanced L K Xmaj_cv Xmin_cv maj_label min_label sigma alpha n_rff s = (Inr clf, s1)"
    and "test_auc K clf Xtest' (Labels1 Ytest') s1 = (Inl ValueError, s2)"
  shows "cv_iteration L K Xmaj_cv Xmin_cv maj_label min_label alpha n_rff Xtest' Ytest'
           (i, sigma) AUC_cv s = (Inr AUC_cv, s2)"
  using assms
  by (simp add: cv_iteration_def bnd_def try_except_ValueError_def ret_def)

lemma cv_iteration_stored:
  assumes "fit_balanced L K Xmaj_cv Xmin_cv maj_label min_label sigma alpha n_rff s = (Inr clf, s1)"
    and "test_auc K clf Xtest' (Labels1 Ytest') s1 = (Inr v, s2)"
  shows "cv_iteration L K Xmaj_cv Xmin_cv maj_label min_label alpha n_rff Xtest' Ytest'
           (i, sigma) AUC_cv s = (Inr (AUC_cv[i := v]), s2)"
  using assms
  by (simp add: cv_iteration_def bnd_def try_except_ValueError_def ret_def)

lemma cv_iteration_passed:
  assumes "fit_balanced L K Xmaj_cv Xmin_cv maj_label min_label sigma alpha n_rff s = (Inr clf, s1)"
    and "test_auc K clf Xtest' (Labels1 Ytest') s1 = (Inl e, s2)" and "e \<noteq> ValueError"
  shows "cv_iteration L K Xmaj_cv Xmin_cv maj_label min_label alpha n_rff Xtest' Ytest'
           (i, sigma) AUC_cv s = (Inl e, s2)"
  using assms
  by (simp add: cv_iteration_def bnd_def try_except_ValueError_def ret_def)

lemma cv_iteration_unguarded:
  assumes "fit_balanced L K Xmaj_cv Xmin_cv maj_label min_label sigma alpha n_rff s = (Inl e, s1)"
  shows "cv_iteration L K Xmaj_cv Xmin_cv maj_label min_label alpha n_rff Xtest' Ytest'
           (i, sigma) AUC_cv s = (Inl e, s1)"
  using assms
  by (simp add: cv_iteration_def bnd_def)

lemma cv_iteration_Inr:
  assumes "cv_iteration L K Xmaj_cv Xmin_cv maj_label min_label alpha n_rff Xtest' Ytest'
           (i, sigma) AUC_cv s = (Inr r, s')"
  shows "\<exists>clf s1. fit_balanced L K Xmaj_cv Xmin_cv maj_label min_label sigma alpha n_rff s
            = (Inr clf, s1) \<and>
     ((\<exists>v. test_auc K clf Xtest' (Labels1 Ytest') s1 = (Inr v, s') \<and> r = AUC_cv[i := v]) \<or>
      (test_auc K clf Xtest' (Labels1 Ytest') s1 = (Inl ValueError, s') \<and> r = AUC_cv))"
  using assms
  by (auto simp: cv_iteration_def bnd_Inr try_except_Inr ret_Inr ret_def elim!: bndE)

lemma cv_iteration_length:
  assumes "cv_iteration L K Xmaj_cv Xmin_cv maj_label min_label alpha n_rff Xtest' Ytest'
           isigma AUC_cv s = (Inr r, s')"
  shows "length r = length AUC_cv"
proof -
  obtain i sigma where "isigma = (i, sigma)" by (cases isigma)
  with cv_iteration_Inr[of L K Xmaj_cv Xmin_cv maj_label min_label alpha n_rff Xtest' Ytest'
      i sigma AUC_cv s r s'] assms
  show ?thesis by auto
qed

lemma select_sigma_Inr:
  assumes "select_sigma L K Xtrain Ytrain maj_label min_label alpha n_sigmas n_rff s
     = (Inr sigma, s')"
  shows "\<exists>Xtrain' Xtest' Ytrain' Ytest' w1 Xmaj_cv Xmin_cv D w2 sigma0 w3 AUC_cv best.
     train_test_split K Xtrain Ytrain 0.25 42 (world s)
        = (Inr (Xtrain', Xtest', Ytrain', Ytest'), w1) \<and>
     mask_rows Xtrain' (map (\<lambda>y. y = int maj_label) Ytrain') = Inr Xmaj_cv \<and>
     mask_rows Xtrain' (map (\<lambda>y. y = int min_label) Ytrain') = Inr Xmin_cv \<and>
     pairwise_distances K Xmaj_cv w1 = (Inr D, w2) \<and>
     np_nanmedian K D w2 = (Inr sigma0, w3) \<and>
     for_each (enumerate 0 (np_linspace (0.01 * sigma0) (3 * sigma0) n_sigmas))
        (cv_iteration L K Xmaj_cv Xmin_cv maj_label min_label alpha n_rff Xtest' Ytest')
        (np_zeros n_sigmas)
        (s\<lparr>trace := trace s @ [EvTrainTestSplit, EvPairwiseDistances, EvNanMedian],
            world := w3\<rparr>) = (Inr AUC_cv, s') \<and>
     np_argmax AUC_cv = Inr best \<and>
     sigma = np_linspace (0.01 * sigma0) (3 * sigma0) n_sigmas ! best"
  using assms
  by (auto simp: select_sigma_def Let_def run_Inr length_np_linspace)


lemma fold_auc_Inr:
  assumes "fold_auc L K dataset n_rff alpha n_sigmas fold_no s = (Inr v, s')"
  shows "\<exists>Xtrain0 Ytrain Xtest0 Ytest s1 scaler Xtrain w2 Xtest w3 counts maj_label min_label
       Xmaj Xmin sigma s4 clf s5.
     load_dataset K dataset fold_no
        (s\<lparr>trace := trace s @ [EvPrint (''Processing Fold '' @ str_nat fold_no)]\<rparr>)
        = (Inr (Xtrain0, Ytrain, Xtest0, Ytest), s1) \<and>
     fit_transform K Xtrain0 (world s1) = (Inr (scaler, Xtrain), w2) \<and>
     transform K scaler Xtest0 w2 = (Inr Xtest, w3) \<and>
     np_bincount Ytrain = Inr counts \<and>
     np_argmax counts = Inr maj_label \<and> np_argmin counts = Inr min_label \<and>
     mask_rows Xtrain (map (\<lambda>y. y = int maj_label) Ytrain) = Inr Xmaj \<and>
     mask_rows Xtrain (map (\<lambda>y. y = int min_label) Ytrain) = Inr Xmin \<and>
     select_sigma L K Xtrain Ytrain maj_label min_label alpha n_sigmas n_rff
        (s1\<lparr>trace := trace s1 @ [EvFitTransform, EvTransform], world := w3\<rparr>)
        = (Inr sigma, s4) \<and>
     fit_balanced L K Xmaj Xmin maj_label min_label sigma alpha n_rff s4 = (Inr clf, s5) \<and>
     test_auc K clf Xtest (Labels2 Ytest) s5 = (Inr v, s')"
  using assms
  by (auto simp: fold_auc_def run_Inr)

lemma upt_1_6: "[1..<6] = [1, 2, 3, 4, 5 :: nat]"
  by (simp add: upt_conv_Cons)

lemma train_imbalanced_Inr:
  assumes "train_imbalanced L K dataset n_rff s = (Inr AUC, s')"
  shows "\<exists>v1 s1 v2 s2 v3 s3 v4 s4 v5 s5.
     fold_auc L K dataset n_rff 1.01 10 1
        (s\<lparr>trace := trace s @ [EvPrint (''Processing '' @ dataset @ '' dataset '')]\<rparr>)
        = (Inr v1, s1) \<and>
     fold_auc L K dataset n_rff 1.01 10 2 s1 = (Inr v2, s2) \<and>
     fold_auc L K dataset n_rff 1.01 10 3 s2 = (Inr v3, s3) \<and>
     fold_auc L K dataset n_rff 1.01 10 4 s3 = (Inr v4, s4) \<and>
     fold_auc L K dataset n_rff 1.01 10 5 s4 = (Inr v5, s5) \<and>
     AUC = [v1, v2, v3, v4, v5] \<and>
     s' = s5\<lparr>trace := trace s5 @ [EvPrint (dataset @ '' was processed'')]\<rparr>"
  using assms
  by (auto simp: train_imbalanced_def Let_def upt_1_6 run_Inr np_zeros_def numeral_eq_Suc)


section \<open>The pipeline on the stand-in libraries\<close>

lemma still_iteration:
  assumes "X < length (heap s)" and "Y < length (heap s)"
  shows "\<exists>g' s'. JRD_iteration still_lib X Y sigma alpha weighted n_rff False (opt, g) s
      = (Inr (opt, g'), s') \<and> heap s' = heap s"
  using assms
  by (simp add: JRD_iteration_def bnd_def emit_def load_def call_def store_def ret_def
      accumulate_def still_lib_def plain_lib_def Let_def)

lemma still_loop:
  assumes "X < length (heap s)" and "Y < length (heap s)"
  shows "\<exists>g' s'. JRD_loop still_lib X Y sigma alpha weighted n_rff False k (opt, g) s
      = (Inr (opt, g'), s') \<and> heap s' = heap s"
  using assms
proof (induction k arbitrary: g s)
  case 0
  show ?case by (simp add: ret_def)
next
  case (Suc k)
  from still_iteration[OF Suc.prems] obtain g1 s1 where
    it: "JRD_iteration still_lib X Y sigma alpha weighted n_rff False (opt, g) s
      = (Inr (opt, g1), s1)" and h: "heap s1 = heap s"
    by blast
  from Suc.IH[of s1 g1] Suc.prems h obtain g' s' where
    "JRD_loop still_lib X Y sigma alpha weighted n_rff False k (opt, g1) s1 = (Inr (opt, g'), s')"
    "heap s' = heap s1"
    by auto
  with it h show ?case by (simp add: bnd_def)
qed

lemma still_sampling:
  assumes F: "is_floating (dtype X)"
  shows "always (JRD_sampling_call still_lib X n_samples sigma alpha n_rff)
     (NDArray (dtype X) (shape1 X) (replicate n_samples (replicate (shape1 X) (- 2))))"
  unfolding always_def
proof
  fix s :: "nat state"
  let ?Y0 = "NDArray (dtype X) (shape1 X) (replicate n_samples (replicate (shape1 X) (- 2)))"
  from F have O: "dtype X \<noteq> Object"
    by (auto simp: is_floating_def)
  let ?s0 = "s\<lparr>heap := heap s @ [X]\<rparr>"
  let ?s1 = "s\<lparr>heap := heap s @ [X, ?Y0], trace := trace s @ [EvUniform, EvAdam],
     world := Suc (world s)\<rparr>"
  have init: "JRD_init still_lib (length (heap s)) n_samples 0.1 False ?s0
      = (Inr (Suc (length (heap s)), 0.1), ?s1)"
    using F O
    by (simp add: JRD_init_def lift_def torch_from_numpy_def torch_tensor_requires_grad_def
        bnd_def load_def call_def alloc_def ret_def Let_def still_lib_def plain_lib_def)
  have "length (heap s) < length (heap ?s1)" "Suc (length (heap s)) < length (heap ?s1)"
    by simp_all
  from still_loop[OF this, where sigma = sigma and alpha = alpha and weighted = True
      and n_rff = n_rff and k = "nat default_n_iter" and opt = "0.1" and g = None]
  obtain g' s' where
    loop: "JRD_loop still_lib (length (heap s)) (Suc (length (heap s))) sigma alpha True n_rff False
       (nat default_n_iter) (0.1, None) ?s1 = (Inr (0.1, g'), s')" and h: "heap s' = heap ?s1"
    by blast
  from init loop have "JRD_sampling still_lib (length (heap s)) n_samples sigma alpha 0.1
       default_n_iter True n_rff False ?s0 = (Inr (Suc (length (heap s))), s')"
    by (simp add: JRD_sampling_def bnd_def ret_def)
  with h show "fst (JRD_sampling_call still_lib X n_samples sigma alpha n_rff s) = Inr ?Y0"
    by (simp add: JRD_sampling_call_def bnd_def alloc_def load_def nth_append)
qed


lemma always_for_each:
  assumes "\<And>x a. always (body x a) (g x a)"
  shows "always (for_each xs body acc) (fold g xs acc)"
proof (induction xs arbitrary: acc)
  case Nil
  show ?case by (simp add: always_ret)
next
  case (Cons x xs)
  have "always (bnd (body x acc) (for_each xs body)) (fold g xs (g x acc))"
    by (rule always_bnd) (rule assms, rule Cons.IH)
  then show ?case by simp
qed

lemma easyD:
  assumes "easy K"
  shows "fst (pd_read_table K p w) = Inr tiny_table"
    and "fst (fit_transform K X w) = Inr ((), X)"
    and "fst (transform K sc X w) = Inr X"
    and "fst (pairwise_distances K X w) = Inr X"
    and "fst (np_nanmedian K D w) = Inr 1"
    and "fst (grid_search K g C X y w) = Inr (1, 1)"
    and "fst (svc_fit K C' g' X y w) = Inr ()"
    and "rows X \<noteq> [] \<Longrightarrow>
       fst (predict_proba K clf X w) = Inr (NDArray Float64 2 (map (\<lambda>r. [0.5, 0.5]) (rows X)))"
    and "fst (roc_auc_score K yt scores w) = Inr 0.5"
  using assms unfolding easy_def by simp_all

lemma easy_tiny: "easy tiny_sklib"
  by (simp add: easy_def tiny_sklib_def)

lemma easy_shy: "easy shy_sklib"
  by (simp add: easy_def shy_sklib_def tiny_sklib_def)

lemma easy_fit:
  assumes K: "easy K" and sh: "shape1 Xmaj = shape1 Xmin" and F: "is_floating (dtype Xmaj)"
  shows "always (fit_balanced still_lib K Xmaj Xmin maj_label min_label sigma alpha n_rff) ()"
  unfolding fit_balanced_def Let_def
  apply (rule always_bnd, rule still_sampling[OF F])
  apply (rule always_bnd, rule always_lift, simp add: np_concatenate_def sh)
  apply (rule always_bnd, rule always_call, rule easyD(4)[OF K])
  apply (rule always_bnd, rule always_call, rule easyD(5)[OF K])
  apply (rule always_bnd, rule always_call_fit, rule easyD(6)[OF K])
  apply (simp only: prod.case)
  apply (rule always_bnd, rule always_call_fit, rule easyD(7)[OF K])
  apply (rule always_ret_eq, simp)
  done

lemma easy_test_auc:
  assumes K: "easy K" and X: "rows X \<noteq> []"
  shows "always (test_auc K clf X Y) 0.5"
  unfolding test_auc_def
  apply (rule always_bnd, rule always_call, rule easyD(8)[OF K X])
  apply (rule always_bnd, rule always_lift, simp add: column_def)
  apply (rule always_call, rule easyD(9)[OF K])
  done

lemma shy_test_auc: "raises (test_auc shy_sklib clf (NDArray dt d []) Y) ValueError"
  unfolding test_auc_def
  by (rule raises_bnd1, rule raises_call) (simp add: shy_sklib_def)

lemma easy_cv_iteration:
  assumes K: "easy K" and sh: "shape1 Xmaj_cv = shape1 Xmin_cv" and X: "rows Xt \<noteq> []"
    and F: "is_floating (dtype Xmaj_cv)"
  shows "always (cv_iteration still_lib K Xmaj_cv Xmin_cv maj_label min_label alpha n_rff Xt Yt
           isigma AUC_cv) (AUC_cv[fst isigma := 0.5])"
  unfolding cv_iteration_def
  apply (cases isigma, simp only: prod.case fst_conv)
  apply (rule always_bnd, rule easy_fit[OF K sh F])
  apply (rule always_try)
  apply (rule always_bnd, rule easy_test_auc[OF K X])
  apply (rule always_ret)
  done

lemma shy_cv_iteration:
  assumes sh: "shape1 Xmaj_cv = shape1 Xmin_cv" and F: "is_floating (dtype Xmaj_cv)"
  shows "always (cv_iteration still_lib shy_sklib Xmaj_cv Xmin_cv maj_label min_label alpha n_rff
           (NDArray dt d []) Yt isigma AUC_cv) AUC_cv"
  unfolding cv_iteration_def
  apply (cases isigma, simp only: prod.case)
  apply (rule always_bnd, rule easy_fit[OF easy_shy sh F])
  apply (rule always_try_handler)
   apply (rule raises_bnd1, rule shy_test_auc)
  apply (rule always_ret)
  done


lemma replicate_10: "replicate 10 x = [x, x, x, x, x, x, x, x, x, x]"
  by (simp add: numeral_eq_Suc)

lemma upt_0_10: "[0..<10] = [0, 1, 2, 3, 4, 5, 6, 7, 8, 9 :: nat]"
  by (simp add: upt_conv_Cons)

lemma fold_update_all:
  "fold (\<lambda>is a. a[fst is := c]) (enumerate 0 (np_linspace a b 10)) (np_zeros 10) = replicate 10 c"
  by (simp add: np_linspace_def np_zeros_def upt_0_10 replicate_10)

lemma fold_const_id: "fold (\<lambda>x a. a) xs acc = acc"
  by (induction xs) simp_all

lemma argmax_const: "np_argmax (replicate 10 (c :: real)) = Inr 0"
  by (simp add: np_argmax_def replicate_10)



lemma four_masks:
  "mask_rows four (map (\<lambda>y. y = int 0) [0, 1, 0, 0]) = Inr (NDArray Float64 2 [[0, 1], [2, 1], [3, 0]])"
  "mask_rows four (map (\<lambda>y. y = int 1) [0, 1, 0, 0]) = Inr (NDArray Float64 2 [[1, 0]])"
  by (simp_all add: mask_rows_def four_def shape0_def)

lemma tiny_select_sigma:
  "always (select_sigma still_lib tiny_sklib four [0, 1, 0, 0] 0 1 alpha 10 n_rff) (1 / 100)"
  unfolding select_sigma_def Let_def
  apply (rule always_bnd, rule always_call, simp add: tiny_sklib_def)
  apply (simp only: prod.case)
  apply (rule always_bnd, rule always_lift, rule four_masks(1))
  apply (rule always_bnd, rule always_lift, rule four_masks(2))
  apply (rule always_bnd, rule always_call, rule easyD(4)[OF easy_tiny])
  apply (rule always_bnd, rule always_call, rule easyD(5)[OF easy_tiny])
  apply (rule always_bnd)
   apply (rule always_for_each[where g = "\<lambda>is a. a[fst is := 0.5]"])
   apply (rule easy_cv_iteration[OF easy_tiny], simp, simp add: four_def,
      simp add: is_floating_def)
  apply (simp only: length_np_linspace fold_update_all)
  apply (rule always_bnd, rule always_lift, rule argmax_const)
  apply (rule always_ret_eq, simp add: nth_np_linspace)
  done

lemma shy_select_sigma:
  "always (select_sigma still_lib shy_sklib four [0, 1, 0, 0] 0 1 alpha 10 n_rff) (1 / 100)"
  unfolding select_sigma_def Let_def
  apply (rule always_bnd, rule always_call, simp add: shy_sklib_def)
  apply (simp only: prod.case)
  apply (rule always_bnd, rule always_lift, rule four_masks(1))
  apply (rule always_bnd, rule always_lift, rule four_masks(2))
  apply (rule always_bnd, rule always_call, rule easyD(4)[OF easy_shy])
  apply (rule always_bnd, rule always_call, rule easyD(5)[OF easy_shy])
  apply (rule always_bnd)
   apply (rule always_for_each[where g = "\<lambda>is a. a"])
   apply (rule shy_cv_iteration, simp, simp add: is_floating_def)
  apply (simp only: length_np_linspace fold_const_id)
  apply (rule always_bnd, rule always_lift, simp only: np_zeros_def, rule argmax_const)
  apply (rule always_ret_eq, simp add: nth_np_linspace)
  done


lemma easy_load:
  assumes K: "easy K"
  shows "always (load_dataset K dataset fold_no) (four, [0, 1, 0, 0], four, [[0], [1], [0], [0]])"
  unfolding load_dataset_alt
  apply (rule always_bnd, rule always_call, rule easyD(1)[OF K])
  apply (rule always_bnd, rule always_call, rule easyD(1)[OF K])
  apply (rule always_bnd, rule always_lift, simp add: tiny_table_def iloc_last_def)
  apply (rule always_bnd, rule always_lift,
      simp add: relabel_col_simps relabel_simps to_int64_def)
  apply (rule always_bnd, rule always_lift,
      simp add: test_column_def tiny_table_def relabel_col_simps relabel_simps to_int64_def)
  apply (rule always_ret_eq,
      simp add: tiny_table_def to_numpy_def nrows_def find_common_type_def numeral_2_eq_2 four_def)
  done

lemma bincount_four: "np_bincount [0, 1, 0, 0] = Inr [3, 1]"
  by (simp add: np_bincount_def upt_conv_Cons)

lemma argmax_four: "np_argmax [3, 1 :: nat] = Inr 0"
  by (simp add: np_argmax_def)

lemma argmin_four: "np_argmin [3, 1 :: nat] = Inr 1"
  by (simp add: np_argmin_def)

lemma easy_fold_auc:
  assumes K: "easy K"
    and sel: "\<And>alpha. always (select_sigma still_lib K four [0, 1, 0, 0] 0 1 alpha 10 n_rff) (1 / 100)"
  shows "always (fold_auc still_lib K dataset n_rff alpha 10 fold_no) 0.5"
  unfolding fold_auc_def
  apply (rule always_bnd, rule always_emit)
  apply (rule always_bnd, rule easy_load[OF K])
  apply (simp only: prod.case)
  apply (rule always_bnd, rule always_call, rule easyD(2)[OF K])
  apply (simp only: prod.case)
  apply (rule always_bnd, rule always_call, rule easyD(3)[OF K])
  apply (rule always_bnd, rule always_lift, rule bincount_four)
  apply (rule always_bnd, rule always_lift, rule argmax_four)
  apply (rule always_bnd, rule always_lift, rule bincount_four)
  apply (rule always_bnd, rule always_lift, rule argmin_four)
  apply (rule always_bnd, rule always_lift, rule four_masks(1))
  apply (rule always_bnd, rule always_lift, rule four_masks(2))
  apply (rule always_bnd, rule sel)
  apply (rule always_bnd, rule easy_fit[OF K], simp, simp add: is_floating_def)
  apply (rule easy_test_auc[OF K], simp add: four_def)
  done

lemma fold_update_five:
  "fold (\<lambda>fold_no a. a[fold_no - 1 := c]) [1..<6] (np_zeros 5) = [c, c, c, c, c]"
  by (simp add: upt_1_6 np_zeros_def numeral_eq_Suc)

lemma easy_train_imbalanced:
  assumes K: "easy K"
    and sel: "\<And>alpha. always (select_sigma still_lib K four [0, 1, 0, 0] 0 1 alpha 10 n_rff) (1 / 100)"
  shows "always (train_imbalanced still_lib K dataset n_rff) [0.5, 0.5, 0.5, 0.5, 0.5]"
  unfolding train_imbalanced_def Let_def
  apply (rule always_bnd, rule always_emit)
  apply (rule always_bnd)
   apply (rule always_for_each[where g = "\<lambda>fold_no a. a[fold_no - 1 := 0.5]"])
   apply (rule always_bnd, rule easy_fold_auc[OF K sel], rule always_ret)
  apply (simp only: fold_update_five)
  apply (rule always_bnd, rule always_emit)
  apply (rule always_ret)
  done

lemmas tiny_train_imbalanced = easy_train_imbalanced[OF easy_tiny tiny_select_sigma]
lemmas shy_train_imbalanced = easy_train_imbalanced[OF easy_shy shy_select_sigma]


section \<open>The choice of the kernel width\<close>

lemma test_auc_run:
  assumes "test_auc K clf X Y s = (Inr v, s')"
  shows "\<exists>proba w1 scores w2. predict_proba K clf X (world s) = (Inr proba, w1) \<and>
     column proba 1 = Inr scores \<and> roc_auc_score K Y scores w1 = (Inr v, w2) \<and>
     s' = s\<lparr>trace := trace s @ [EvPredictProba, EvRocAuc], world := w2\<rparr>"
  using assms by (auto simp: test_auc_def run_Inr)

lemma fit_balanced_run:
  assumes "fit_balanced L K Xmaj Xmin maj_label min_label sigma alpha n_rff s = (Inr clf, s')"
  shows "\<exists>Xsub s1 Xtr D w2 s0 w3 best_C best_gamma w4 w5.
     JRD_sampling_call L Xmaj (shape0 Xmin) sigma alpha n_rff s = (Inr Xsub, s1) \<and>
     np_concatenate Xsub Xmin = Inr Xtr \<and>
     pairwise_distances K Xsub (world s1) = (Inr D, w2) \<and>
     np_nanmedian K D w2 = (Inr s0, w3) \<and>
     grid_search K (map (\<lambda>x. 1 / (2 * x\<^sup>2)) (np_linspace (0.01 * s0) (3 * s0) 7))
        (np_logspace 0 3 7) Xtr
        (times_ones maj_label (shape0 Xsub) @ times_ones min_label (shape0 Xmin)) w3
        = (Inr (best_C, best_gamma), w4) \<and>
     svc_fit K best_C best_gamma Xtr
        (times_ones maj_label (shape0 Xsub) @ times_ones min_label (shape0 Xmin)) w4
        = (Inr clf, w5) \<and>
     s' = s1\<lparr>trace := trace s1 @ [EvPairwiseDistances, EvNanMedian, EvGridSearch, EvSVCFit],
          fitted := fitted s1 @
            [(Xtr, times_ones maj_label (shape0 Xsub) @ times_ones min_label (shape0 Xmin)),
             (Xtr, times_ones maj_label (shape0 Xsub) @ times_ones min_label (shape0 Xmin))],
          world := w5\<rparr>"
  using assms
  by (auto simp: fit_balanced_def Let_def bnd_Inr call_Inr call_fit_Inr lift_Inr ret_Inr)


lemma for_each_cv_length:
  assumes "for_each xs (cv_iteration L K Xmaj_cv Xmin_cv maj_label min_label alpha n_rff Xtest' Ytest')
     acc s = (Inr acc', s')"
  shows "length acc' = length acc"
  by (rule for_each_invariant[OF assms, where P = "\<lambda>a. length a = length acc"])
     (simp_all add: cv_iteration_length)

lemma np_linspace_candidates:
  "length (np_linspace (0.01 * c) (3 * c) 10) = 10 \<and>
   np_linspace (0.01 * c) (3 * c) 10 ! 0 = 0.01 * c \<and>
   np_linspace (0.01 * c) (3 * c) 10 ! 9 = 3 * c \<and>
   (\<forall>i<10. np_linspace (0.01 * c) (3 * c) 10 ! i = 0.01 * c + real i * ((3 * c - 0.01 * c) / 9)) \<and>
   (0 \<le> c \<longrightarrow> (\<forall>i<10. np_linspace (0.01 * c) (3 * c) 10 ! 0
       \<le> np_linspace (0.01 * c) (3 * c) 10 ! i))"
proof -
  have 1: "length (np_linspace (0.01 * c) (3 * c) 10) = 10"
    by (rule length_np_linspace)
  have 2: "np_linspace (0.01 * c) (3 * c) 10 ! 0 = 0.01 * c"
    "np_linspace (0.01 * c) (3 * c) 10 ! 9 = 3 * c"
    by (rule np_linspace_ends)+
  have 3: "np_linspace (0.01 * c) (3 * c) 10 ! i = 0.01 * c + real i * ((3 * c - 0.01 * c) / 9)"
    if "i < 10" for i
    using that by (simp add: nth_np_linspace)
  have 4: "np_linspace (0.01 * c) (3 * c) 10 ! 0 \<le> np_linspace (0.01 * c) (3 * c) 10 ! i"
    if "0 \<le> c" "i < 10" for i
  proof -
    from that(1) have "0.01 * c \<le> 3 * c" by simp
    from np_linspace_mono[OF this that(2)] 2(1) show ?thesis by simp
  qed
  from 1 2 3 4 show ?thesis by blast
qed

lemma fold_auc_sigma:
  assumes run: "fold_auc L K dataset n_rff alpha 10 fold_no t = (Inr v, t')"
  shows "\<exists>Xtrain0 Ytrain Xtest0 Ytest t1 scaler Xtrain w1 Xtest w2 counts maj_label min_label
  Xmaj Xmin Xtrain' Xtest' Ytrain' Ytest' w3 Xmaj_cv Xmin_cv D w4 sigma0 w5 AUC_cv t3 best
  Xsub t4 clf t5.
     load_dataset K dataset fold_no
       (t\<lparr>trace := trace t @ [EvPrint (''Processing Fold '' @ str_nat fold_no)]\<rparr>)
       = (Inr (Xtrain0, Ytrain, Xtest0, Ytest), t1) \<and>
     fit_transform K Xtrain0 (world t1) = (Inr (scaler, Xtrain), w1) \<and>
     transform K scaler Xtest0 w1 = (Inr Xtest, w2) \<and>
     np_bincount Ytrain = Inr counts \<and>
     np_argmax counts = Inr maj_label \<and> np_argmin counts = Inr min_label \<and>
     mask_rows Xtrain (map (\<lambda>y. y = int maj_label) Ytrain) = Inr Xmaj \<and>
     mask_rows Xtrain (map (\<lambda>y. y = int min_label) Ytrain) = Inr Xmin \<and>
     train_test_split K Xtrain Ytrain 0.25 42 w2
       = (Inr (Xtrain', Xtest', Ytrain', Ytest'), w3) \<and>
     mask_rows Xtrain' (map (\<lambda>y. y = int maj_label) Ytrain') = Inr Xmaj_cv \<and>
     mask_rows Xtrain' (map (\<lambda>y. y = int min_label) Ytrain') = Inr Xmin_cv \<and>
     pairwise_distances K Xmaj_cv w3 = (Inr D, w4) \<and>
     np_nanmedian K D w4 = (Inr sigma0, w5) \<and>
     for_each (enumerate 0 (np_linspace (0.01 * sigma0) (3 * sigma0) 10))
       (cv_iteration L K Xmaj_cv Xmin_cv maj_label min_label alpha n_rff Xtest' Ytest')
       (np_zeros 10)
       (t1\<lparr>trace := trace t1 @ [EvFitTransform, EvTransform, EvTrainTestSplit,
             EvPairwiseDistances, EvNanMedian], world := w5\<rparr>) = (Inr AUC_cv, t3) \<and>
     length AUC_cv = 10 \<and> np_argmax AUC_cv = Inr best \<and> best < 10 \<and>
     (\<forall>j<10. AUC_cv ! j \<le> AUC_cv ! best) \<and> (\<forall>j<best. AUC_cv ! j < AUC_cv ! best) \<and>
     JRD_sampling_call L Xmaj (shape0 Xmin)
       (np_linspace (0.01 * sigma0) (3 * sigma0) 10 ! best) alpha n_rff t3 = (Inr Xsub, t4) \<and>
     fit_balanced L K Xmaj Xmin maj_label min_label
       (np_linspace (0.01 * sigma0) (3 * sigma0) 10 ! best) alpha n_rff t3 = (Inr clf, t5) \<and>
     test_auc K clf Xtest (Labels2 Ytest) t5 = (Inr v, t')"
proof -
  from fold_auc_Inr[OF run] obtain Xtrain0 Ytrain Xtest0 Ytest t1 scaler Xtrain w1 Xtest w2
    counts maj_label min_label Xmaj Xmin sigma t3 clf t5 where
    ld: "load_dataset K dataset fold_no
        (t\<lparr>trace := trace t @ [EvPrint (''Processing Fold '' @ str_nat fold_no)]\<rparr>)
        = (Inr (Xtrain0, Ytrain, Xtest0, Ytest), t1)" and
    ft: "fit_transform K Xtrain0 (world t1) = (Inr (scaler, Xtrain), w1)" and
    tr: "transform K scaler Xtest0 w1 = (Inr Xtest, w2)" and
    bc: "np_bincount Ytrain = Inr counts" and
    mx: "np_argmax counts = Inr maj_label" and mi: "np_argmin counts = Inr min_label" and
    mj: "mask_rows Xtrain (map (\<lambda>y. y = int maj_label) Ytrain) = Inr Xmaj" and
    mn: "mask_rows Xtrain (map (\<lambda>y. y = int min_label) Ytrain) = Inr Xmin" and
    sel: "select_sigma L K Xtrain Ytrain maj_label min_label alpha 10 n_rff
        (t1\<lparr>trace := trace t1 @ [EvFitTransform, EvTransform], world := w2\<rparr>) = (Inr sigma, t3)" and
    fit: "fit_balanced L K Xmaj Xmin maj_label min_label sigma alpha n_rff t3 = (Inr clf, t5)" and
    ta: "test_auc K clf Xtest (Labels2 Ytest) t5 = (Inr v, t')"
    by blast
  from select_sigma_Inr[OF sel] obtain Xtrain' Xtest' Ytrain' Ytest' w3 Xmaj_cv Xmin_cv D w4
    sigma0 w5 AUC_cv best where
    tts: "train_test_split K Xtrain Ytrain 0.25 42 w2
        = (Inr (Xtrain', Xtest', Ytrain', Ytest'), w3)" and
    mjc: "mask_rows Xtrain' (map (\<lambda>y. y = int maj_label) Ytrain') = Inr Xmaj_cv" and
    mnc: "mask_rows Xtrain' (map (\<lambda>y. y = int min_label) Ytrain') = Inr Xmin_cv" and
    pd: "pairwise_distances K Xmaj_cv w3 = (Inr D, w4)" and
    md: "np_nanmedian K D w4 = (Inr sigma0, w5)" and
    cv: "for_each (enumerate 0 (np_linspace (0.01 * sigma0) (3 * sigma0) 10))
        (cv_iteration L K Xmaj_cv Xmin_cv maj_label min_label alpha n_rff Xtest' Ytest')
        (np_zeros 10)
        (t1\<lparr>trace := trace t1 @ [EvFitTransform, EvTransform, EvTrainTestSplit,
            EvPairwiseDistances, EvNanMedian], world := w5\<rparr>) = (Inr AUC_cv, t3)" and
    am: "np_argmax AUC_cv = Inr best" and
    sg: "sigma = np_linspace (0.01 * sigma0) (3 * sigma0) 10 ! best"
    by auto
  from for_each_cv_length[OF cv] have len: "length AUC_cv = 10"
    by (simp add: np_zeros_def)
  from np_argmax_Inr(1)[OF am] len have b: "best < 10" by simp
  have mxa: "\<forall>j<10. AUC_cv ! j \<le> AUC_cv ! best"
    using np_argmax_Inr(2)[OF am] len by simp
  have fst: "\<forall>j<best. AUC_cv ! j < AUC_cv ! best"
    using np_argmax_Inr(3)[OF am] by simp
  from fit_balanced_Inr[OF fit] obtain Xsub t4 where
    js: "JRD_sampling_call L Xmaj (shape0 Xmin)
         (np_linspace (0.01 * sigma0) (3 * sigma0) 10 ! best) alpha n_rff t3 = (Inr Xsub, t4)"
    unfolding sg by blast
  note fit' = fit[unfolded sg]
  show ?thesis
    apply (intro exI conjI)
    apply (rule ld)
    apply (rule ft)
    apply (rule tr)
    apply (rule bc)
    apply (rule mx)
    apply (rule mi)
    apply (rule mj)
    apply (rule mn)
    apply (rule tts)
    apply (rule mjc)
    apply (rule mnc)
    apply (rule pd)
    apply (rule md)
    apply (rule cv)
    apply (rule len)
    apply (rule am)
    apply (rule b)
    apply (rule mxa)
    apply (rule fst)
    apply (rule js)
    apply (rule fit')
    apply (rule ta)
    done
qed

subsection \<open>A run with scores that depend on the kernel width\<close>

lemma echo_iteration:
  assumes "X < length (heap s)" and "Y < length (heap s)"
    and "heap s ! Y = NDArray dt d (replicate n (replicate d c))"
  shows "\<exists>g' s'. JRD_iteration echo_lib X Y sigma alpha weighted n_rff False (opt, g) s
      = (Inr (opt, g'), s') \<and>
      heap s' = (heap s)[Y := NDArray dt d (replicate n (replicate d sigma))]"
  using assms
  by (simp add: JRD_iteration_def bnd_def emit_def load_def call_def store_def ret_def
      accumulate_def echo_lib_def fill_def Let_def)

lemma echo_loop:
  assumes "X < length (heap s)" and "Y < length (heap s)"
    and "heap s ! Y = NDArray dt d (replicate n (replicate d c))"
  shows "\<exists>g' s'. JRD_loop echo_lib X Y sigma alpha weighted n_rff False (Suc k) (opt, g) s
      = (Inr (opt, g'), s') \<and>
      heap s' = (heap s)[Y := NDArray dt d (replicate n (replicate d sigma))]"
  using assms
proof (induction k arbitrary: g s c)
  case 0
  from echo_iteration[OF 0, of sigma alpha weighted n_rff opt g] show ?case
    by (auto simp: bnd_def ret_def)
next
  case (Suc k)
  from echo_iteration[OF Suc.prems, of sigma alpha weighted n_rff opt g] obtain g1 s1 where
    it: "JRD_iteration echo_lib X Y sigma alpha weighted n_rff False (opt, g) s
      = (Inr (opt, g1), s1)" and
    h: "heap s1 = (heap s)[Y := NDArray dt d (replicate n (replicate d sigma))]"
    by blast
  have 1: "X < length (heap s1)" "Y < length (heap s1)"
    "heap s1 ! Y = NDArray dt d (replicate n (replicate d sigma))"
    using h Suc.prems by simp_all
  from Suc.IH[OF 1, of g1] obtain g' s' where
    lp: "JRD_loop echo_lib X Y sigma alpha weighted n_rff False (Suc k) (opt, g1) s1
      = (Inr (opt, g'), s')" and
    h': "heap s' = (heap s1)[Y := NDArray dt d (replicate n (replicate d sigma))]"
    by blast
  have "JRD_loop echo_lib X Y sigma alpha weighted n_rff False (Suc (Suc k)) (opt, g) s
      = (Inr (opt, g'), s')"
    using it lp by (simp add: bnd_def)
  with h h' show ?case by simp
qed

lemma echo_sampling:
  assumes F: "is_floating (dtype X)"
  shows "always (JRD_sampling_call echo_lib X n_samples sigma alpha n_rff)
     (NDArray (dtype X) (shape1 X) (replicate n_samples (replicate (shape1 X) sigma)))"
  unfolding always_def
proof
  fix s :: "nat state"
  let ?Y0 = "NDArray (dtype X) (shape1 X) (replicate n_samples (replicate (shape1 X) (- 2)))"
  let ?Y1 = "NDArray (dtype X) (shape1 X) (replicate n_samples (replicate (shape1 X) sigma))"
  from F have O: "dtype X \<noteq> Object"
    by (auto simp: is_floating_def)
  let ?s0 = "s\<lparr>heap := heap s @ [X]\<rparr>"
  let ?s1 = "s\<lparr>heap := heap s @ [X, ?Y0], trace := trace s @ [EvUniform, EvAdam],
     world := Suc (world s)\<rparr>"
  have init: "JRD_init echo_lib (length (heap s)) n_samples 0.1 False ?s0
      = (Inr (Suc (length (heap s)), 0.1), ?s1)"
    using F O
    by (simp add: JRD_init_def lift_def torch_from_numpy_def torch_tensor_requires_grad_def
        bnd_def load_def call_def alloc_def ret_def Let_def echo_lib_def)
  have n: "nat default_n_iter = Suc 119"
    by (simp add: default_n_iter_def)
  have "length (heap s) < length (heap ?s1)" "Suc (length (heap s)) < length (heap ?s1)"
    "heap ?s1 ! Suc (length (heap s)) = ?Y0"
    by (simp_all add: nth_append)
  from echo_loop[OF this, where sigma = sigma and alpha = alpha and weighted = True
      and n_rff = n_rff and k = 119 and opt = "0.1" and g = None]
  obtain g' s' where
    loop: "JRD_loop echo_lib (length (heap s)) (Suc (length (heap s))) sigma alpha True n_rff False
       (Suc 119) (0.1, None) ?s1 = (Inr (0.1, g'), s')" and
    h: "heap s' = (heap ?s1)[Suc (length (heap s)) := ?Y1]"
    by blast
  from init loop have "JRD_sampling echo_lib (length (heap s)) n_samples sigma alpha 0.1
       default_n_iter True n_rff False ?s0 = (Inr (Suc (length (heap s))), s')"
    unfolding JRD_sampling_def n by (simp add: bnd_def ret_def)
  with h show "fst (JRD_sampling_call echo_lib X n_samples sigma alpha n_rff s) = Inr ?Y1"
    by (simp add: JRD_sampling_call_def bnd_def alloc_def load_def nth_append)
qed

lemma keen_fit:
  assumes sh: "shape1 Xmaj = shape1 Xmin" and F: "is_floating (dtype Xmaj)"
    and n: "0 < shape0 Xmin" and d: "0 < shape1 Xmaj"
  shows "always (fit_balanced echo_lib keen_sklib Xmaj Xmin maj_label min_label sigma alpha n_rff)
     sigma"
proof -
  from n d obtain n' d' where nd: "shape0 Xmin = Suc n'" "shape1 Xmaj = Suc d'"
    by (metis Suc_pred)
  show ?thesis
    unfolding fit_balanced_def Let_def
    apply (rule always_bnd, rule echo_sampling[OF F])
    apply (rule always_bnd, rule always_lift, simp add: np_concatenate_def sh)
    apply (rule always_bnd, rule always_call, simp add: keen_sklib_def)
    apply (rule always_bnd, rule always_call, simp add: keen_sklib_def)
    apply (rule always_bnd, rule always_call_fit, simp add: keen_sklib_def)
    apply (simp only: prod.case)
    apply (rule always_bnd, rule always_call_fit, simp add: keen_sklib_def)
    apply (rule always_ret_eq, simp add: nd sh[symmetric])
    done
qed

lemma keen_test_auc:
  assumes X: "rows X \<noteq> []"
  shows "always (test_auc keen_sklib clf X Y) (if 2 < clf then 1 else 0)"
proof -
  from X obtain r rs where r: "rows X = r # rs" by (cases "rows X") auto
  show ?thesis
    unfolding test_auc_def
    apply (rule always_bnd, rule always_call, simp add: keen_sklib_def)
    apply (rule always_bnd, rule always_lift, simp add: column_def)
    apply (rule always_call, simp add: keen_sklib_def r)
    done
qed

lemma keen_cv_iteration:
  assumes sh: "shape1 Xmaj_cv = shape1 Xmin_cv" and X: "rows Xt \<noteq> []"
    and F: "is_floating (dtype Xmaj_cv)" and n: "0 < shape0 Xmin_cv" and d: "0 < shape1 Xmaj_cv"
  shows "always (cv_iteration echo_lib keen_sklib Xmaj_cv Xmin_cv maj_label min_label alpha n_rff
           Xt Yt isigma AUC_cv) (AUC_cv[fst isigma := (if 2 < snd isigma then 1 else 0)])"
  unfolding cv_iteration_def
  apply (cases isigma, simp only: prod.case fst_conv snd_conv)
  apply (rule always_bnd, rule keen_fit[OF sh F n d])
  apply (rule always_try)
  apply (rule always_bnd, rule keen_test_auc[OF X])
  apply (rule always_ret)
  done

lemma keen_scores:
  "fold (\<lambda>is a. a[fst is := (if 2 < snd is then 1 else 0)])
     (enumerate 0 (np_linspace (0.01 * 1) (3 * 1) 10)) (np_zeros 10)
   = [0, 0, 0, 0, 0, 0, 1, 1, 1, 1 :: real]"
  by (simp add: np_linspace_def upt_0_10 np_zeros_def replicate_10)

lemma argmax_keen: "np_argmax [0, 0, 0, 0, 0, 0, 1, 1, 1, 1 :: real] = Inr 6"
  by (simp add: np_argmax_def)

lemma candidate_6:
  "np_linspace (0.01 * 1) (3 * 1) 10 ! 6 = 601 / 300"
  "np_linspace (1 / 100) 3 10 ! 6 = 601 / 300"
  by (simp_all add: nth_np_linspace)


lemma four_facts:
  "shape1 (NDArray Float64 2 [[0, 1], [2, 1], [3, 0]]) = shape1 (NDArray Float64 2 [[1, 0]])"
  "rows four \<noteq> []"
  "is_floating (dtype (NDArray Float64 2 [[0, 1], [2, 1], [3, 0]]))"
  "0 < shape0 (NDArray Float64 2 [[1, 0]])"
  "0 < shape1 (NDArray Float64 2 [[0, 1], [2, 1], [3, 0]])"
  by (simp_all add: four_def is_floating_def shape0_def)

lemma keen_select_sigma:
  "always (select_sigma echo_lib keen_sklib four [0, 1, 0, 0] 0 1 alpha 10 n_rff) (601 / 300)"
  unfolding select_sigma_def Let_def
  apply (rule always_bnd, rule always_call, simp add: keen_sklib_def)
  apply (simp only: prod.case)
  apply (rule always_bnd, rule always_lift, rule four_masks(1))
  apply (rule always_bnd, rule always_lift, rule four_masks(2))
  apply (rule always_bnd, rule always_call, simp add: keen_sklib_def)
  apply (rule always_bnd, rule always_call, simp add: keen_sklib_def)
  apply (rule always_bnd)
   apply (rule always_for_each[where g = "\<lambda>is a. a[fst is := (if 2 < snd is then 1 else 0)]"])
   apply (rule keen_cv_iteration[OF four_facts])
  apply (simp only: length_np_linspace keen_scores)
  apply (rule always_bnd, rule always_lift, rule argmax_keen)
  apply (rule always_ret_eq, rule candidate_6(1))
  done

lemma keen_load:
  "always (load_dataset keen_sklib dataset fold_no)
     (four, [0, 1, 0, 0], four, [[0], [1], [0], [0]])"
  unfolding load_dataset_alt
  apply (rule always_bnd, rule always_call, simp add: keen_sklib_def)
  apply (rule always_bnd, rule always_call, simp add: keen_sklib_def)
  apply (rule always_bnd, rule always_lift, simp add: tiny_table_def iloc_last_def)
  apply (rule always_bnd, rule always_lift,
      simp add: relabel_col_simps relabel_simps to_int64_def)
  apply (rule always_bnd, rule always_lift,
      simp add: test_column_def tiny_table_def relabel_col_simps relabel_simps to_int64_def)
  apply (rule always_ret_eq,
      simp add: tiny_table_def to_numpy_def nrows_def find_common_type_def numeral_2_eq_2 four_def)
  done

lemma keen_fold_auc:
  "always (fold_auc echo_lib keen_sklib dataset n_rff alpha 10 fold_no) 1"
  unfolding fold_auc_def
  apply (rule always_bnd, rule always_emit)
  apply (rule always_bnd, rule keen_load)
  apply (simp only: prod.case)
  apply (rule always_bnd, rule always_call, simp add: keen_sklib_def)
  apply (simp only: prod.case)
  apply (rule always_bnd, rule always_call, simp add: keen_sklib_def)
  apply (rule always_bnd, rule always_lift, rule bincount_four)
  apply (rule always_bnd, rule always_lift, rule argmax_four)
  apply (rule always_bnd, rule always_lift, rule bincount_four)
  apply (rule always_bnd, rule always_lift, rule argmin_four)
  apply (rule always_bnd, rule always_lift, rule four_masks(1))
  apply (rule always_bnd, rule always_lift, rule four_masks(2))
  apply (rule always_bnd, rule keen_select_sigma)
  apply (rule always_bnd, rule keen_fit[OF four_facts(1,3,4,5)])
  apply (insert keen_test_auc[OF four_facts(2), of "601 / 300" "Labels2 [[0], [1], [0], [0]]"],
      simp)
  done

lemma keen_train_imbalanced:
  "always (train_imbalanced echo_lib keen_sklib dataset n_rff) [1, 1, 1, 1, 1]"
  unfolding train_imbalanced_def Let_def
  apply (rule always_bnd, rule always_emit)
  apply (rule always_bnd)
   apply (rule always_for_each[where g = "\<lambda>fold_no a. a[fold_no - 1 := 1]"])
   apply (rule always_bnd, rule keen_fold_auc, rule always_ret)
  apply (simp only: fold_update_five)
  apply (rule always_bnd, rule always_emit)
  apply (rule always_ret)
  done

subsection \<open>The selection\<close>

text \<open>
  C6: in every fold, \<open>sigma0\<close> is the median that the library computes of the pairwise
  distances of \<open>Xmaj_cv\<close>, the rows of the majority label \<open>np.bincount(Ytrain).argmax()\<close>
  in the training part of \<^verbatim>\<open>train_test_split(Xtrain, Ytrain, test_size=0.25,
  random_state=42)\<close>. The candidates are \<open>np.linspace(0.01*sigma0, 3*sigma0, 10)\<close>,
  ten values with equal steps from \<open>0.01*sigma0\<close> to \<open>3*sigma0\<close>, each scored by
  one turn of the nested loop. The subsampling of the majority set of the fold, and the
  model of the fold, use the candidate at the index \<open>best = np.argmax(AUC_cv)\<close>, the
  first index at which the score is largest: index 0, the smallest candidate when
  \<open>sigma0\<close> is not negative, when all ten scores are equal. The states \<open>ts\<close> are
  those of the run at the start of the folds and at the end of the last one.
\<close>

theorem sigma_selection:
  assumes "train_imbalanced L K dataset n_rff s = (Inr AUC, s')"
  shows "(\<exists>ts. length ts = 6 \<and> length AUC = 5 \<and>
       ts ! 0 = s\<lparr>trace := trace s @ [EvPrint (''Processing '' @ dataset @ '' dataset '')]\<rparr> \<and>
       s' = (ts ! 5)\<lparr>trace := trace (ts ! 5) @ [EvPrint (dataset @ '' was processed'')]\<rparr> \<and>
       (\<forall>k<5.
          \<exists>Xtrain0 Ytrain Xtest0 Ytest t1 scaler Xtrain w1 Xtest w2 counts maj_label min_label
            Xmaj Xmin Xtrain' Xtest' Ytrain' Ytest' w3 Xmaj_cv Xmin_cv D w4 sigma0 w5 AUC_cv t3 best
            Xsub t4 clf t5.
            load_dataset K dataset (Suc k)
              ((ts ! k)\<lparr>trace := trace (ts ! k) @ [EvPrint (''Processing Fold '' @ str_nat (Suc k))]\<rparr>)
              = (Inr (Xtrain0, Ytrain, Xtest0, Ytest), t1) \<and>
            fit_transform K Xtrain0 (world t1) = (Inr (scaler, Xtrain), w1) \<and>
            transform K scaler Xtest0 w1 = (Inr Xtest, w2) \<and>
            np_bincount Ytrain = Inr counts \<and>
            np_argmax counts = Inr maj_label \<and> np_argmin counts = Inr min_label \<and>
            mask_rows Xtrain (map (\<lambda>y. y = int maj_label) Ytrain) = Inr Xmaj \<and>
            mask_rows Xtrain (map (\<lambda>y. y = int min_label) Ytrain) = Inr Xmin \<and>
            train_test_split K Xtrain Ytrain 0.25 42 w2
              = (Inr (Xtrain', Xtest', Ytrain', Ytest'), w3) \<and>
            mask_rows Xtrain' (map (\<lambda>y. y = int maj_label) Ytrain') = Inr Xmaj_cv \<and>
            mask_rows Xtrain' (map (\<lambda>y. y = int min_label) Ytrain') = Inr Xmin_cv \<and>
            pairwise_distances K Xmaj_cv w3 = (Inr D, w4) \<and>
            np_nanmedian K D w4 = (Inr sigma0, w5) \<and>
            for_each (enumerate 0 (np_linspace (0.01 * sigma0) (3 * sigma0) 10))
              (cv_iteration L K Xmaj_cv Xmin_cv maj_label min_label 1.01 n_rff Xtest' Ytest')
              (np_zeros 10)
              (t1\<lparr>trace := trace t1 @ [EvFitTransform, EvTransform, EvTrainTestSplit,
                    EvPairwiseDistances, EvNanMedian], world := w5\<rparr>) = (Inr AUC_cv, t3) \<and>
            length AUC_cv = 10 \<and> np_argmax AUC_cv = Inr best \<and> best < 10 \<and>
            (\<forall>j<10. AUC_cv ! j \<le> AUC_cv ! best) \<and> (\<forall>j<best. AUC_cv ! j < AUC_cv ! best) \<and>
            JRD_sampling_call L Xmaj (shape0 Xmin)
              (np_linspace (0.01 * sigma0) (3 * sigma0) 10 ! best) 1.01 n_rff t3 = (Inr Xsub, t4) \<and>
            fit_balanced L K Xmaj Xmin maj_label min_label
              (np_linspace (0.01 * sigma0) (3 * sigma0) 10 ! best) 1.01 n_rff t3 = (Inr clf, t5) \<and>
            test_auc K clf Xtest (Labels2 Ytest) t5 = (Inr (AUC ! k), ts ! Suc k))) \<and>
    (\<forall>c. length (np_linspace (0.01 * c) (3 * c) 10) = 10 \<and>
         np_linspace (0.01 * c) (3 * c) 10 ! 0 = 0.01 * c \<and>
         np_linspace (0.01 * c) (3 * c) 10 ! 9 = 3 * c \<and>
         (\<forall>i<10. np_linspace (0.01 * c) (3 * c) 10 ! i
             = 0.01 * c + real i * ((3 * c - 0.01 * c) / 9)) \<and>
         (0 \<le> c \<longrightarrow> (\<forall>i<10. np_linspace (0.01 * c) (3 * c) 10 ! 0
             \<le> np_linspace (0.01 * c) (3 * c) 10 ! i)))"
proof (rule conjI)
  from train_imbalanced_Inr[OF assms] obtain v1 s1 v2 s2 v3 s3 v4 s4 v5 s5 where
    f1: "fold_auc L K dataset n_rff 1.01 10 1
        (s\<lparr>trace := trace s @ [EvPrint (''Processing '' @ dataset @ '' dataset '')]\<rparr>)
        = (Inr v1, s1)" and
    f2: "fold_auc L K dataset n_rff 1.01 10 2 s1 = (Inr v2, s2)" and
    f3: "fold_auc L K dataset n_rff 1.01 10 3 s2 = (Inr v3, s3)" and
    f4: "fold_auc L K dataset n_rff 1.01 10 4 s3 = (Inr v4, s4)" and
    f5: "fold_auc L K dataset n_rff 1.01 10 5 s4 = (Inr v5, s5)" and
    A: "AUC = [v1, v2, v3, v4, v5]" and
    e: "s' = s5\<lparr>trace := trace s5 @ [EvPrint (dataset @ '' was processed'')]\<rparr>"
    by blast
  let ?s0 = "s\<lparr>trace := trace s @ [EvPrint (''Processing '' @ dataset @ '' dataset '')]\<rparr>"
  let ?ts = "[?s0, s1, s2, s3, s4, s5]"
  have runs: "fold_auc L K dataset n_rff 1.01 10 (Suc k) (?ts ! k) = (Inr (AUC ! k), ?ts ! Suc k)"
    if "k < 5" for k
  proof -
    from that have "k = 0 \<or> k = 1 \<or> k = 2 \<or> k = 3 \<or> k = 4"
      by auto
    then show ?thesis
      using f1 f2 f3 f4 f5 unfolding A
      by (elim disjE) (simp_all add: numeral_2_eq_2 numeral_3_eq_3 eval_nat_numeral)
  qed
  show "\<exists>ts. length ts = 6 \<and> length AUC = 5 \<and>
       ts ! 0 = s\<lparr>trace := trace s @ [EvPrint (''Processing '' @ dataset @ '' dataset '')]\<rparr> \<and>
       s' = (ts ! 5)\<lparr>trace := trace (ts ! 5) @ [EvPrint (dataset @ '' was processed'')]\<rparr> \<and>
       (\<forall>k<5.
          \<exists>Xtrain0 Ytrain Xtest0 Ytest t1 scaler Xtrain w1 Xtest w2 counts maj_label min_label
            Xmaj Xmin Xtrain' Xtest' Ytrain' Ytest' w3 Xmaj_cv Xmin_cv D w4 sigma0 w5 AUC_cv t3 best
            Xsub t4 clf t5.
            load_dataset K dataset (Suc k)
              ((ts ! k)\<lparr>trace := trace (ts ! k) @ [EvPrint (''Processing Fold '' @ str_nat (Suc k))]\<rparr>)
              = (Inr (Xtrain0, Ytrain, Xtest0, Ytest), t1) \<and>
            fit_transform K Xtrain0 (world t1) = (Inr (scaler, Xtrain), w1) \<and>
            transform K scaler Xtest0 w1 = (Inr Xtest, w2) \<and>
            np_bincount Ytrain = Inr counts \<and>
            np_argmax counts = Inr maj_label \<and> np_argmin counts = Inr min_label \<and>
            mask_rows Xtrain (map (\<lambda>y. y = int maj_label) Ytrain) = Inr Xmaj \<and>
            mask_rows Xtrain (map (\<lambda>y. y = int min_label) Ytrain) = Inr Xmin \<and>
            train_test_split K Xtrain Ytrain 0.25 42 w2
              = (Inr (Xtrain', Xtest', Ytrain', Ytest'), w3) \<and>
            mask_rows Xtrain' (map (\<lambda>y. y = int maj_label) Ytrain') = Inr Xmaj_cv \<and>
            mask_rows Xtrain' (map (\<lambda>y. y = int min_label) Ytrain') = Inr Xmin_cv \<and>
            pairwise_distances K Xmaj_cv w3 = (Inr D, w4) \<and>
            np_nanmedian K D w4 = (Inr sigma0, w5) \<and>
            for_each (enumerate 0 (np_linspace (0.01 * sigma0) (3 * sigma0) 10))
              (cv_iteration L K Xmaj_cv Xmin_cv maj_label min_label 1.01 n_rff Xtest' Ytest')
              (np_zeros 10)
              (t1\<lparr>trace := trace t1 @ [EvFitTransform, EvTransform, EvTrainTestSplit,
                    EvPairwiseDistances, EvNanMedian], world := w5\<rparr>) = (Inr AUC_cv, t3) \<and>
            length AUC_cv = 10 \<and> np_argmax AUC_cv = Inr best \<and> best < 10 \<and>
            (\<forall>j<10. AUC_cv ! j \<le> AUC_cv ! best) \<and> (\<forall>j<best. AUC_cv ! j < AUC_cv ! best) \<and>
            JRD_sampling_call L Xmaj (shape0 Xmin)
              (np_linspace (0.01 * sigma0) (3 * sigma0) 10 ! best) 1.01 n_rff t3 = (Inr Xsub, t4) \<and>
            fit_balanced L K Xmaj Xmin maj_label min_label
              (np_linspace (0.01 * sigma0) (3 * sigma0) 10 ! best) 1.01 n_rff t3 = (Inr clf, t5) \<and>
            test_auc K clf Xtest (Labels2 Ytest) t5 = (Inr (AUC ! k), ts ! Suc k))"
  proof (intro exI[of _ ?ts] conjI allI impI)
    show "length ?ts = 6" by simp
    show "length AUC = 5" by (simp add: A)
    show "?ts ! 0 = ?s0" by simp
    show "s' = (?ts ! 5)\<lparr>trace := trace (?ts ! 5) @ [EvPrint (dataset @ '' was processed'')]\<rparr>"
      using e by simp
    fix k :: nat
    assume "k < 5"
    from fold_auc_sigma[OF runs[OF this]]
    show "\<exists>Xtrain0 Ytrain Xtest0 Ytest t1 scaler Xtrain w1 Xtest w2 counts maj_label min_label
  Xmaj Xmin Xtrain' Xtest' Ytrain' Ytest' w3 Xmaj_cv Xmin_cv D w4 sigma0 w5 AUC_cv t3 best
  Xsub t4 clf t5.
       load_dataset K dataset (Suc k)
         ((?ts ! k)\<lparr>trace := trace (?ts ! k) @ [EvPrint (''Processing Fold '' @ str_nat (Suc k))]\<rparr>)
         = (Inr (Xtrain0, Ytrain, Xtest0, Ytest), t1) \<and>
       fit_transform K Xtrain0 (world t1) = (Inr (scaler, Xtrain), w1) \<and>
       transform K scaler Xtest0 w1 = (Inr Xtest, w2) \<and>
       np_bincount Ytrain = Inr counts \<and>
       np_argmax counts = Inr maj_label \<and> np_argmin counts = Inr min_label \<and>
       mask_rows Xtrain (map (\<lambda>y. y = int maj_label) Ytrain) = Inr Xmaj \<and>
       mask_rows Xtrain (map (\<lambda>y. y = int min_label) Ytrain) = Inr Xmin \<and>
       train_test_split K Xtrain Ytrain 0.25 42 w2
         = (Inr (Xtrain', Xtest', Ytrain', Ytest'), w3) \<and>
       mask_rows Xtrain' (map (\<lambda>y. y = int maj_label) Ytrain') = Inr Xmaj_cv \<and>
       mask_rows Xtrain' (map (\<lambda>y. y = int min_label) Ytrain') = Inr Xmin_cv \<and>
       pairwise_distances K Xmaj_cv w3 = (Inr D, w4) \<and>
       np_nanmedian K D w4 = (Inr sigma0, w5) \<and>
       for_each (enumerate 0 (np_linspace (0.01 * sigma0) (3 * sigma0) 10))
         (cv_iteration L K Xmaj_cv Xmin_cv maj_label min_label 1.01 n_rff Xtest' Ytest')
         (np_zeros 10)
         (t1\<lparr>trace := trace t1 @ [EvFitTransform, EvTransform, EvTrainTestSplit,
               EvPairwiseDistances, EvNanMedian], world := w5\<rparr>) = (Inr AUC_cv, t3) \<and>
       length AUC_cv = 10 \<and> np_argmax AUC_cv = Inr best \<and> best < 10 \<and>
       (\<forall>j<10. AUC_cv ! j \<le> AUC_cv ! best) \<and> (\<forall>j<best. AUC_cv ! j < AUC_cv ! best) \<and>
       JRD_sampling_call L Xmaj (shape0 Xmin)
         (np_linspace (0.01 * sigma0) (3 * sigma0) 10 ! best) 1.01 n_rff t3 = (Inr Xsub, t4) \<and>
       fit_balanced L K Xmaj Xmin maj_label min_label
         (np_linspace (0.01 * sigma0) (3 * sigma0) 10 ! best) 1.01 n_rff t3 = (Inr clf, t5) \<and>
       test_auc K clf Xtest (Labels2 Ytest) t5 = (Inr (AUC ! k), ?ts ! Suc k)" .
  qed
next
  show "\<forall>c. length (np_linspace (0.01 * c) (3 * c) 10) = 10 \<and>
         np_linspace (0.01 * c) (3 * c) 10 ! 0 = 0.01 * c \<and>
         np_linspace (0.01 * c) (3 * c) 10 ! 9 = 3 * c \<and>
         (\<forall>i<10. np_linspace (0.01 * c) (3 * c) 10 ! i
             = 0.01 * c + real i * ((3 * c - 0.01 * c) / 9)) \<and>
         (0 \<le> c \<longrightarrow> (\<forall>i<10. np_linspace (0.01 * c) (3 * c) 10 ! 0
             \<le> np_linspace (0.01 * c) (3 * c) 10 ! i))"
    by (rule allI) (rule np_linspace_candidates)
qed

theorem sigma_selection_witness:
  "\<exists>s' t3 t4.
     train_imbalanced echo_lib keen_sklib ''ecoli1'' None start = (Inr [1, 1, 1, 1, 1], s') \<and>
     np_argmax [0, 0, 0, 0, 0, 0, 1, 1, 1, 1 :: real] = Inr 6 \<and>
     JRD_sampling_call echo_lib (NDArray Float64 2 [[0, 1], [2, 1], [3, 0]]) 1
        (np_linspace (0.01 * 1) (3 * 1) 10 ! 6) 1.01 None t3
       = (Inr (NDArray Float64 2 [[601 / 300, 601 / 300]]), t4)"
proof -
  from alwaysD[OF keen_train_imbalanced] obtain s' where
    run: "train_imbalanced echo_lib keen_sklib ''ecoli1'' None start = (Inr [1, 1, 1, 1, 1], s')"
    by blast
  from sigma_selection[OF run, THEN conjunct1] obtain ts where
    folds: "\<forall>k<5.
          \<exists>Xtrain0 Ytrain Xtest0 Ytest t1 scaler Xtrain w1 Xtest w2 counts maj_label min_label
            Xmaj Xmin Xtrain' Xtest' Ytrain' Ytest' w3 Xmaj_cv Xmin_cv D w4 sigma0 w5 AUC_cv t3 best
            Xsub t4 clf t5.
            load_dataset keen_sklib ''ecoli1'' (Suc k)
              ((ts ! k)\<lparr>trace := trace (ts ! k) @ [EvPrint (''Processing Fold '' @ str_nat (Suc k))]\<rparr>)
              = (Inr (Xtrain0, Ytrain, Xtest0, Ytest), t1) \<and>
            fit_transform keen_sklib Xtrain0 (world t1) = (Inr (scaler, Xtrain), w1) \<and>
            transform keen_sklib scaler Xtest0 w1 = (Inr Xtest, w2) \<and>
            np_bincount Ytrain = Inr counts \<and>
            np_argmax counts = Inr maj_label \<and> np_argmin counts = Inr min_label \<and>
            mask_rows Xtrain (map (\<lambda>y. y = int maj_label) Ytrain) = Inr Xmaj \<and>
            mask_rows Xtrain (map (\<lambda>y. y = int min_label) Ytrain) = Inr Xmin \<and>
            train_test_split keen_sklib Xtrain Ytrain 0.25 42 w2
              = (Inr (Xtrain', Xtest', Ytrain', Ytest'), w3) \<and>
            mask_rows Xtrain' (map (\<lambda>y. y = int maj_label) Ytrain') = Inr Xmaj_cv \<and>
            mask_rows Xtrain' (map (\<lambda>y. y = int min_label) Ytrain') = Inr Xmin_cv \<and>
            pairwise_distances keen_sklib Xmaj_cv w3 = (Inr D, w4) \<and>
            np_nanmedian keen_sklib D w4 = (Inr sigma0, w5) \<and>
            for_each (enumerate 0 (np_linspace (0.01 * sigma0) (3 * sigma0) 10))
              (cv_iteration echo_lib keen_sklib Xmaj_cv Xmin_cv maj_label min_label 1.01 None
                 Xtest' Ytest')
              (np_zeros 10)
              (t1\<lparr>trace := trace t1 @ [EvFitTransform, EvTransform, EvTrainTestSplit,
                    EvPairwiseDistances, EvNanMedian], world := w5\<rparr>) = (Inr AUC_cv, t3) \<and>
            length AUC_cv = 10 \<and> np_argmax AUC_cv = Inr best \<and> best < 10 \<and>
            (\<forall>j<10. AUC_cv ! j \<le> AUC_cv ! best) \<and> (\<forall>j<best. AUC_cv ! j < AUC_cv ! best) \<and>
            JRD_sampling_call echo_lib Xmaj (shape0 Xmin)
              (np_linspace (0.01 * sigma0) (3 * sigma0) 10 ! best) 1.01 None t3 = (Inr Xsub, t4) \<and>
            fit_balanced echo_lib keen_sklib Xmaj Xmin maj_label min_label
              (np_linspace (0.01 * sigma0) (3 * sigma0) 10 ! best) 1.01 None t3 = (Inr clf, t5) \<and>
            test_auc keen_sklib clf Xtest (Labels2 Ytest) t5 = (Inr ([1, 1, 1, 1, 1] ! k), ts ! Suc k)"
    by (elim exE conjE)
  have z: "(0 :: nat) < 5" by simp
  from folds[rule_format, OF z] obtain Xtrain0 Ytrain Xtest0 Ytest t1 scaler Xtrain w1 Xtest w2 counts maj_label
    min_label Xmaj Xmin Xtrain' Xtest' Ytrain' Ytest' w3 Xmaj_cv Xmin_cv D w4 sigma0 w5 AUC_cv t3
    best Xsub t4 where
    ld: "load_dataset keen_sklib ''ecoli1'' (Suc 0)
              ((ts ! 0)\<lparr>trace := trace (ts ! 0) @ [EvPrint (''Processing Fold '' @ str_nat (Suc 0))]\<rparr>)
              = (Inr (Xtrain0, Ytrain, Xtest0, Ytest), t1)" and
    ft: "fit_transform keen_sklib Xtrain0 (world t1) = (Inr (scaler, Xtrain), w1)" and
    bc: "np_bincount Ytrain = Inr counts" and
    mx: "np_argmax counts = Inr maj_label" and mi: "np_argmin counts = Inr min_label" and
    mj: "mask_rows Xtrain (map (\<lambda>y. y = int maj_label) Ytrain) = Inr Xmaj" and
    mn: "mask_rows Xtrain (map (\<lambda>y. y = int min_label) Ytrain) = Inr Xmin" and
    tts: "train_test_split keen_sklib Xtrain Ytrain 0.25 42 w2
              = (Inr (Xtrain', Xtest', Ytrain', Ytest'), w3)" and
    mjc: "mask_rows Xtrain' (map (\<lambda>y. y = int maj_label) Ytrain') = Inr Xmaj_cv" and
    mnc: "mask_rows Xtrain' (map (\<lambda>y. y = int min_label) Ytrain') = Inr Xmin_cv" and
    md: "np_nanmedian keen_sklib D w4 = (Inr sigma0, w5)" and
    cv: "for_each (enumerate 0 (np_linspace (0.01 * sigma0) (3 * sigma0) 10))
              (cv_iteration echo_lib keen_sklib Xmaj_cv Xmin_cv maj_label min_label 1.01 None
                 Xtest' Ytest')
              (np_zeros 10)
              (t1\<lparr>trace := trace t1 @ [EvFitTransform, EvTransform, EvTrainTestSplit,
                    EvPairwiseDistances, EvNanMedian], world := w5\<rparr>) = (Inr AUC_cv, t3)" and
    am: "np_argmax AUC_cv = Inr best" and
    js: "JRD_sampling_call echo_lib Xmaj (shape0 Xmin)
              (np_linspace (0.01 * sigma0) (3 * sigma0) 10 ! best) 1.01 None t3 = (Inr Xsub, t4)"
    by (elim exE conjE) (rule that, assumption+)
  from keen_load[unfolded always_def, rule_format, of "''ecoli1''" "Suc 0"] ld
  have 1: "Xtrain0 = four" "Ytrain = [0, 1, 0, 0]"
    by (metis fst_conv sum.inject(2) prod.inject)+
  from ft 1 have 2: "Xtrain = four"
    by (simp add: keen_sklib_def)
  from bc 1 bincount_four have 3: "counts = [3, 1]"
    by simp
  from mx mi 3 argmax_four argmin_four have 4: "maj_label = 0" "min_label = 1"
    by simp_all
  from mj mn 1 2 4 four_masks have 5: "Xmaj = NDArray Float64 2 [[0, 1], [2, 1], [3, 0]]"
    "Xmin = NDArray Float64 2 [[1, 0]]"
    by simp_all
  from tts 1 2 have 6: "Xtrain' = four" "Xtest' = four" "Ytrain' = [0, 1, 0, 0]"
    by (simp_all add: keen_sklib_def)
  from mjc mnc 6 4 four_masks have 7: "Xmaj_cv = NDArray Float64 2 [[0, 1], [2, 1], [3, 0]]"
    "Xmin_cv = NDArray Float64 2 [[1, 0]]"
    by simp_all
  from md have 8: "sigma0 = 1"
    by (simp add: keen_sklib_def)
  have "always (for_each (enumerate 0 (np_linspace (0.01 * 1) (3 * 1) 10))
              (cv_iteration echo_lib keen_sklib (NDArray Float64 2 [[0, 1], [2, 1], [3, 0]])
                 (NDArray Float64 2 [[1, 0]]) 0 1 1.01 None four Ytest')
              (np_zeros 10)) [0, 0, 0, 0, 0, 0, 1, 1, 1, 1]"
    unfolding keen_scores[symmetric]
    by (rule always_for_each) (rule keen_cv_iteration[OF four_facts])
  from this[unfolded always_def, rule_format] cv[unfolded 4 6 7 8]
  have 9: "AUC_cv = [0, 0, 0, 0, 0, 0, 1, 1, 1, 1]"
    by (metis fst_conv sum.inject(2))
  from am 9 argmax_keen have 10: "best = 6"
    by simp
  have f: "is_floating (dtype (NDArray Float64 2 [[0, 1], [2, 1], [3, 0]]))"
    by (rule four_facts(3))
  from echo_sampling[OF f, unfolded always_def, rule_format,
      of 1 "np_linspace (0.01 * 1) (3 * 1) 10 ! 6" "1.01" None t3] js[unfolded 5 8 10]
  have 11: "Xsub = NDArray Float64 2 [[601 / 300, 601 / 300]]"
    by (simp add: shape0_def candidate_6 numeral_2_eq_2)
  from js[unfolded 5 8 10 11] have "JRD_sampling_call echo_lib
        (NDArray Float64 2 [[0, 1], [2, 1], [3, 0]]) 1
        (np_linspace (0.01 * 1) (3 * 1) 10 ! 6) 1.01 None t3
       = (Inr (NDArray Float64 2 [[601 / 300, 601 / 300]]), t4)"
    by (simp add: shape0_def)
  with run argmax_keen show ?thesis
    by blast
qed

end
